(* ===== verification/HLS_Prelude.thy ===== *)
theory HLS_Prelude
  imports Main "HOL-Library.Sublist"
begin

text \<open>
  Shared vocabulary of the HLS server model: the JavaScript string and number
  primitives the handlers use (\<open>parseInt\<close>, \<open>Number.prototype.toString\<close>,
  \<open>toFixed(3)\<close>, \<open>String.prototype.includes\<close>, the \<open>||\<close> default on a possibly
  missing string), the lemmas connecting them (printing and parsing of decimal
  numerals are inverse), and the simp collection \<open>js_simps\<close> the component
  theories use to evaluate them.
\<close>

named_theorems js_simps "evaluation rules of the modelled JavaScript primitives"

type_synonym ms = int \<comment> \<open>a time instant or a duration in milliseconds, as \<open>Date.now()\<close>\<close>

definition nl :: string where
  "nl = [CHR 0x0A]"

subsection \<open>Decimal digits\<close>

definition is_digit :: "char \<Rightarrow> bool" where
  "is_digit c \<longleftrightarrow> (48::nat) \<le> of_char c \<and> of_char c \<le> (57::nat)"

definition digit_val :: "char \<Rightarrow> nat" where
  "digit_val c = of_char c - 48"

definition digit_char :: "nat \<Rightarrow> char" where
  "digit_char d = ''0123456789'' ! d"

text \<open>\<open>parseInt\<close> on a run of decimal digits: the digits read left to right.\<close>

definition nat_of_digits :: "string \<Rightarrow> nat" where
  "nat_of_digits ds = foldl (\<lambda>n c. 10 * n + digit_val c) 0 ds"

text \<open>\<open>String(n)\<close> for a non-negative integer \<open>n\<close>: its decimal numeral.\<close>

fun string_of_nat :: "nat \<Rightarrow> string" where
  "string_of_nat n =
     (if n < 10 then [digit_char n] else string_of_nat (n div 10) @ [digit_char (n mod 10)])"

declare string_of_nat.simps [simp del]

definition string_of_int :: "int \<Rightarrow> string" where
  "string_of_int i = (if i < 0 then CHR ''-'' # string_of_nat (nat (- i)) else string_of_nat (nat i))"

text \<open>
  A JavaScript number that is an integer or \<open>NaN\<close> (the result of
  \<open>parseInt\<close> and of arithmetic on it): \<open>None\<close> is \<open>NaN\<close>.
\<close>

type_synonym js_int = "int option"

definition js_num_string :: "js_int \<Rightarrow> string" where
  "js_num_string x = (case x of None \<Rightarrow> ''NaN'' | Some i \<Rightarrow> string_of_int i)"

subsection \<open>\<open>parseInt(s, 10)\<close>\<close>

text \<open>
  \<open>parseInt\<close> skips leading white space, reads an optional sign and then the
  longest run of decimal digits; with no digit the result is \<open>NaN\<close>. Trailing
  characters are ignored (\<open>parseInt("12abc") = 12\<close>).
\<close>

definition is_js_space :: "char \<Rightarrow> bool" where
  "is_js_space c \<longleftrightarrow> c \<in> set [CHR 0x20, CHR 0x09, CHR 0x0A, CHR 0x0B, CHR 0x0C, CHR 0x0D]"

definition js_parse_int :: "string \<Rightarrow> js_int" where
  "js_parse_int s =
     (let t = dropWhile is_js_space s;
          (sg, r) = (case t of
                       c # r \<Rightarrow> if c = CHR ''-'' then (-1::int, r)
                                else if c = CHR ''+'' then (1, r) else (1, t)
                     | [] \<Rightarrow> (1, t));
          ds = takeWhile is_digit r
      in if ds = [] then None else Some (sg * int (nat_of_digits ds)))"

subsection \<open>\<open>toFixed(3)\<close> on a millisecond count\<close>

text \<open>
  \<open>x.toFixed(3)\<close> for a number of seconds \<open>x\<close> that is a whole number of
  milliseconds prints the integral seconds, a point and exactly three digits.
\<close>

definition pad3 :: "string \<Rightarrow> string" where
  "pad3 s = replicate (3 - length s) (CHR ''0'') @ s"

definition fixed3 :: "ms \<Rightarrow> string" where
  "fixed3 x =
     (if x < 0 then ''-'' else '''') @ string_of_nat (nat \<bar>x\<bar> div 1000) @ ''.''
       @ pad3 (string_of_nat (nat \<bar>x\<bar> mod 1000))"

subsection \<open>Strings\<close>

text \<open>\<open>s.includes(t)\<close>: \<open>t\<close> occurs in \<open>s\<close> at some position.\<close>

fun js_includes :: "string \<Rightarrow> string \<Rightarrow> bool" where
  "js_includes [] t = (t = [])"
| "js_includes (c # cs) t = (take (length t) (c # cs) = t \<or> js_includes cs t)"

text \<open>\<open>x || d\<close> for a string field that may be missing: \<open>undefined\<close> and the
  empty string are falsy.\<close>

definition js_or :: "string option \<Rightarrow> string \<Rightarrow> string" where
  "js_or x d = (case x of None \<Rightarrow> d | Some s \<Rightarrow> if s = [] then d else s)"

text \<open>A string field is truthy when present and non-empty.\<close>

definition truthy :: "string option \<Rightarrow> bool" where
  "truthy x = (case x of None \<Rightarrow> False | Some s \<Rightarrow> s \<noteq> [])"

text \<open>\<open>a === b\<close> between a possibly missing string field and a literal.\<close>

definition str_eq :: "string option \<Rightarrow> string \<Rightarrow> bool" where
  "str_eq x s = (x = Some s)"

text \<open>A string with no line feed: one line of a playlist.\<close>

definition no_nl :: "string \<Rightarrow> bool" where
  "no_nl s \<longleftrightarrow> CHR 0x0A \<notin> set s"

lemmas [js_simps] = js_or_def truthy_def str_eq_def js_num_string_def
  is_digit_def digit_val_def nat_of_digits_def digit_char_def string_of_int_def fixed3_def pad3_def

subsection \<open>Lemmas on digits and numerals\<close>

lemma replicate_numeral [js_simps]: "replicate (numeral k) x = x # replicate (pred_numeral k) x"
  by (simp add: numeral_eq_Suc)

lemma of_char_digit_char: "d < 10 \<Longrightarrow> of_char (digit_char d) = (48 + d :: nat)"
  by (auto simp: digit_char_def less_Suc_eq numeral_eq_Suc)

lemma digit_val_char [simp]: "d < 10 \<Longrightarrow> digit_val (digit_char d) = d"
  by (simp add: digit_val_def of_char_digit_char)

lemma is_digit_char [simp]: "d < 10 \<Longrightarrow> is_digit (digit_char d)"
  by (simp add: is_digit_def of_char_digit_char)

lemma nat_of_digits_snoc [simp]:
  "nat_of_digits (ds @ [c]) = 10 * nat_of_digits ds + digit_val c"
  by (simp add: nat_of_digits_def)

lemma nat_of_digits_Nil [simp]: "nat_of_digits [] = 0"
  by (simp add: nat_of_digits_def)

lemma string_of_nat_digits: "\<forall>c \<in> set (string_of_nat n). is_digit c"
  by (induction n rule: string_of_nat.induct) (subst string_of_nat.simps, simp)

lemma string_of_nat_not_Nil [simp]: "string_of_nat n \<noteq> []"
  by (subst string_of_nat.simps) simp

lemma nat_of_digits_string_of_nat [simp]: "nat_of_digits (string_of_nat n) = n"
  by (induction n rule: string_of_nat.induct) (subst string_of_nat.simps, simp add: nat_of_digits_def)

lemma takeWhile_digit_string_of_nat [simp]:
  "takeWhile is_digit (string_of_nat n) = string_of_nat n"
  using string_of_nat_digits [of n] by (simp add: takeWhile_eq_all_conv)

lemma string_of_nat_inj:
  "string_of_nat m = string_of_nat n \<Longrightarrow> m = n"
  by (metis nat_of_digits_string_of_nat)

lemma takeWhile_digits_string_of_nat:
  "(rest = [] \<or> \<not> is_digit (hd rest)) \<Longrightarrow>
   takeWhile is_digit (string_of_nat n @ rest) = string_of_nat n"
  using string_of_nat_digits [of n] by (cases rest) (auto simp: takeWhile_append2)

lemma digit_not_space: "is_digit c \<Longrightarrow> \<not> is_js_space c"
  by (auto simp: is_digit_def is_js_space_def)

lemma digit_not_sign: "is_digit c \<Longrightarrow> c \<noteq> CHR ''-'' \<and> c \<noteq> CHR ''+''"
  by (auto simp: is_digit_def)

lemma js_parse_int_digits:
  assumes "ds \<noteq> []" "\<forall>c \<in> set ds. is_digit c" "rest = [] \<or> \<not> is_digit (hd rest)"
  shows "js_parse_int (ds @ rest) = Some (int (nat_of_digits ds))"
proof -
  obtain c cs where ds: "ds = c # cs" using assms(1) by (cases ds) auto
  have "dropWhile is_js_space (ds @ rest) = ds @ rest"
    using assms(2) ds by (simp add: digit_not_space)
  moreover have "takeWhile is_digit (ds @ rest) = ds"
    using assms(2,3) by (cases rest) (auto simp: takeWhile_append2)
  moreover have "c \<noteq> CHR ''-'' \<and> c \<noteq> CHR ''+''"
    using assms(2) ds digit_not_sign by simp
  ultimately show ?thesis using ds by (simp add: js_parse_int_def)
qed

lemma js_parse_int_string_of_nat_append:
  "rest = [] \<or> \<not> is_digit (hd rest) \<Longrightarrow>
   js_parse_int (string_of_nat n @ rest) = Some (int n)"
  using js_parse_int_digits [of "string_of_nat n" rest] string_of_nat_digits [of n] by simp

lemma js_parse_int_string_of_nat [simp]: "js_parse_int (string_of_nat n) = Some (int n)"
  using js_parse_int_string_of_nat_append [of "[]" n] by simp

lemma js_parse_int_string_of_int [simp]: "js_parse_int (string_of_int i) = Some i"
proof (cases "i < 0")
  case True
  then show ?thesis by (simp add: string_of_int_def js_parse_int_def is_js_space_def)
next
  case False
  then show ?thesis by (simp add: string_of_int_def)
qed

subsection \<open>Lines\<close>

lemma no_nl_digits: "\<forall>c \<in> set s. is_digit c \<Longrightarrow> no_nl s"
  by (auto simp: no_nl_def is_digit_def)

lemma no_nl_string_of_nat [simp]: "no_nl (string_of_nat n)"
  by (rule no_nl_digits) (rule string_of_nat_digits)

lemma no_nl_append [simp]: "no_nl (a @ b) \<longleftrightarrow> no_nl a \<and> no_nl b"
  by (simp add: no_nl_def)

lemma no_nl_Nil [simp]: "no_nl []"
  by (simp add: no_nl_def)

lemma no_nl_Cons [simp]: "no_nl (c # s) \<longleftrightarrow> c \<noteq> CHR 0x0A \<and> no_nl s"
  by (auto simp: no_nl_def)

lemma no_nl_pad3 [simp]: "no_nl s \<Longrightarrow> no_nl (pad3 s)"
  by (simp add: no_nl_def pad3_def)

lemma no_nl_fixed3 [simp]: "no_nl (fixed3 x)"
  by (simp add: fixed3_def)

subsection \<open>Lemmas on \<open>includes\<close>\<close>

lemma js_includes_sublist: "js_includes s t \<longleftrightarrow> sublist t s"
proof (induction s)
  case Nil
  then show ?case by simp
next
  case (Cons c cs)
  have "take (length t) (c # cs) = t \<longleftrightarrow> prefix t (c # cs)"
    by (metis append_take_drop_id prefix_def take_append take_all_iff order.refl diff_self_eq_0
          take_0 append.right_neutral)
  with Cons show ?case by (auto simp: sublist_Cons_right)
qed

lemma js_includes_refl [simp]: "js_includes s s"
  by (simp add: js_includes_sublist)

lemma js_includes_append_left: "js_includes (a @ s @ b) s"
  by (simp add: js_includes_sublist)

end
