(* ===== verification/Route_Match.thy ===== *)
theory Route_Match
  imports HLS_Prelude
begin

text \<open>
  Express's route matching, a library the servers only call: how a route pattern of
  \<open>app.get\<close> is compiled by path-to-regexp 0.1 (Express 4) and matched against a
  request path. A parameter \<open>:name\<close> takes the longest run of word characters
  \<open>\w+\<close> as its name and matches \<open>([^/]+?)\<close>, one or more characters other than
  a slash, as few as possible; the rest is literal, compared without regard to ASCII
  case; an optional trailing slash is accepted. \<open>match_route\<close> is that regular
  expression's backtracking search written out, parameters trying their lengths in
  increasing order; \<open>dispatch\<close> picks the first route, in registration order, that
  matches. The declarative \<open>lazy_match\<close> states what the regular expression
  means and \<open>lazy_dispatch\<close> what first-match dispatch means; the matcher and the
  dispatcher are shown to compute exactly them.
\<close>

subsection \<open>Route patterns\<close>

datatype route_tok = Lit string | Param string

text \<open>\<open>\w\<close>: ASCII letters, digits and the underscore.\<close>

definition is_word_char :: "char \<Rightarrow> bool" where
  "is_word_char c \<longleftrightarrow>
     is_digit c \<or> ((65::nat) \<le> of_char c \<and> of_char c \<le> (90::nat))
     \<or> ((97::nat) \<le> of_char c \<and> of_char c \<le> (122::nat)) \<or> c = CHR ''_''"

fun add_lit :: "char \<Rightarrow> route_tok list \<Rightarrow> route_tok list" where
  "add_lit c (Lit l # ts) = Lit (c # l) # ts"
| "add_lit c ts = Lit [c] # ts"

function parse_route :: "string \<Rightarrow> route_tok list" where
  "parse_route [] = []"
| "parse_route (c # cs) =
     (if c = CHR '':'' \<and> takeWhile is_word_char cs \<noteq> []
      then Param (takeWhile is_word_char cs) # parse_route (dropWhile is_word_char cs)
      else add_lit c (parse_route cs))"
  by pat_completeness auto
termination
  by (relation "measure length") (auto simp: le_imp_less_Suc length_dropWhile_le)

subsection \<open>Matching a path\<close>

definition ascii_lower :: "char \<Rightarrow> char" where
  "ascii_lower c =
     (if 65 \<le> (of_char c :: nat) \<and> (of_char c :: nat) \<le> 90 then char_of (of_char c + (32::nat)) else c)"

text \<open>A literal matches a prefix of the path, ignoring ASCII case.\<close>

definition lit_match :: "string \<Rightarrow> string \<Rightarrow> bool" where
  "lit_match l s \<longleftrightarrow> length l \<le> length s \<and> map ascii_lower (take (length l) s) = map ascii_lower l"

text \<open>The length of the longest prefix without a slash: the most \<open>[^/]+?\<close> can take.\<close>

definition seg_len :: "string \<Rightarrow> nat" where
  "seg_len s = length (takeWhile (\<lambda>c. c \<noteq> CHR ''/'') s)"

fun first_some :: "('a \<Rightarrow> 'b option) \<Rightarrow> 'a list \<Rightarrow> 'b option" where
  "first_some f [] = None"
| "first_some f (x # xs) = (case f x of None \<Rightarrow> first_some f xs | Some y \<Rightarrow> Some y)"

fun match_route :: "route_tok list \<Rightarrow> string \<Rightarrow> (string \<times> string) list option" where
  "match_route [] s = (if s = [] \<or> s = ''/'' then Some [] else None)"
| "match_route (Lit l # ts) s = (if lit_match l s then match_route ts (drop (length l) s) else None)"
| "match_route (Param n # ts) s =
     first_some (\<lambda>k. map_option (\<lambda>ps. (n, take k s) # ps) (match_route ts (drop k s)))
       [1..<Suc (seg_len s)]"

text \<open>The first route, in registration order, whose pattern matches.\<close>

fun dispatch :: "(string \<times> 'h) list \<Rightarrow> string \<Rightarrow> ('h \<times> (string \<times> string) list) option" where
  "dispatch [] p = None"
| "dispatch ((pat, h) # rs) p =
     (case match_route (parse_route pat) p of
        Some ps \<Rightarrow> Some (h, ps)
      | None \<Rightarrow> dispatch rs p)"

text \<open>\<open>String(req.params[n])\<close>.\<close>

definition param :: "(string \<times> string) list \<Rightarrow> string \<Rightarrow> string" where
  "param ps n = (case map_of ps n of Some v \<Rightarrow> v | None \<Rightarrow> ''undefined'')"

subsection \<open>What a pattern means\<close>

text \<open>
  The language of a pattern, and the match the regular expression returns: each
  parameter takes the fewest characters after which the rest of the pattern can still
  match (the disambiguation of lazy quantifiers), in the style of a POSIX value
  relation for regular expressions.
\<close>

inductive route_lang :: "route_tok list \<Rightarrow> string \<Rightarrow> bool" where
  lang_end: "s = [] \<or> s = ''/'' \<Longrightarrow> route_lang [] s"
| lang_lit: "lit_match l s \<Longrightarrow> route_lang ts (drop (length l) s) \<Longrightarrow> route_lang (Lit l # ts) s"
| lang_param: "0 < k \<Longrightarrow> k \<le> seg_len s \<Longrightarrow> route_lang ts (drop k s) \<Longrightarrow> route_lang (Param n # ts) s"

inductive lazy_match :: "route_tok list \<Rightarrow> string \<Rightarrow> (string \<times> string) list \<Rightarrow> bool" where
  lazy_end: "s = [] \<or> s = ''/'' \<Longrightarrow> lazy_match [] s []"
| lazy_lit: "lit_match l s \<Longrightarrow> lazy_match ts (drop (length l) s) ps \<Longrightarrow> lazy_match (Lit l # ts) s ps"
| lazy_param: "0 < k \<Longrightarrow> k \<le> seg_len s \<Longrightarrow> lazy_match ts (drop k s) ps \<Longrightarrow>
    (\<forall>j. 0 < j \<and> j < k \<longrightarrow> \<not> route_lang ts (drop j s)) \<Longrightarrow>
    lazy_match (Param n # ts) s ((n, take k s) # ps)"

text \<open>First-match dispatch, declaratively: the first route of the table whose pattern
  can match the path, with that pattern's lazy match.\<close>

inductive lazy_dispatch :: "(string \<times> 'h) list \<Rightarrow> string \<Rightarrow> 'h \<times> (string \<times> string) list \<Rightarrow> bool" where
  dispatch_here: "lazy_match (parse_route pat) p ps \<Longrightarrow> lazy_dispatch ((pat, h) # rs) p (h, ps)"
| dispatch_next: "\<not> route_lang (parse_route pat) p \<Longrightarrow> lazy_dispatch rs p r \<Longrightarrow>
    lazy_dispatch ((pat, g) # rs) p r"

text \<open>A parsed pattern is well formed: literals are not empty and never adjacent,
  parameter names are non-empty runs of word characters, and a parameter is never
  followed by a literal that starts with a word character (the name is maximal).
  \<open>unparse_route\<close> prints a pattern back.\<close>

fun route_wf :: "route_tok list \<Rightarrow> bool" where
  "route_wf [] = True"
| "route_wf (Lit l # ts) = (l \<noteq> [] \<and> (case ts of Lit _ # _ \<Rightarrow> False | _ \<Rightarrow> True) \<and> route_wf ts)"
| "route_wf (Param n # ts) =
     (n \<noteq> [] \<and> list_all is_word_char n
      \<and> (case ts of Lit (c # _) # _ \<Rightarrow> \<not> is_word_char c | _ \<Rightarrow> True) \<and> route_wf ts)"

fun unparse_route :: "route_tok list \<Rightarrow> string" where
  "unparse_route [] = []"
| "unparse_route (Lit l # ts) = l @ unparse_route ts"
| "unparse_route (Param n # ts) = CHR '':'' # n @ unparse_route ts"

subsection \<open>Lemmas\<close>

lemma first_some_None_iff: "first_some f xs = None \<longleftrightarrow> (\<forall>x \<in> set xs. f x = None)"
  by (induction xs) (auto split: option.split)

lemma first_some_unique:
  "\<forall>x \<in> set xs. x \<noteq> a \<longrightarrow> f x = None \<Longrightarrow> a \<in> set xs \<Longrightarrow> first_some f xs = f a"
proof (induction xs)
  case Nil
  then show ?case by simp
next
  case (Cons x xs)
  show ?case
  proof (cases "x = a")
    case True
    have "first_some f xs = None" if "f a = None"
      using Cons.prems(1) True that by (auto simp: first_some_None_iff)
    with True show ?thesis by (auto split: option.split)
  next
    case False
    with Cons show ?thesis by simp
  qed
qed

lemma ascii_lower_slash [simp]: "ascii_lower CHR ''/'' = CHR ''/''"
  by (simp add: ascii_lower_def)

lemma ascii_lower_slash_iff: "ascii_lower c = CHR ''/'' \<longleftrightarrow> c = CHR ''/''"
proof
  assume eq: "ascii_lower c = CHR ''/''"
  show "c = CHR ''/''"
  proof (cases "65 \<le> (of_char c :: nat) \<and> (of_char c :: nat) \<le> 90")
    case True
    then have "char_of (of_char c + (32::nat)) = CHR ''/''" using eq by (simp add: ascii_lower_def)
    then have "(of_char (char_of (of_char c + (32::nat))) :: nat) = of_char CHR ''/''" by simp
    then have "(of_char c + 32) mod 256 = (47::nat)" by simp
    with True show ?thesis by simp
  next
    case False
    with eq show ?thesis by (simp add: ascii_lower_def)
  qed
qed simp

lemma lit_match_Nil [simp]: "lit_match [] s"
  by (simp add: lit_match_def)

lemma lit_match_Nil_path [simp]: "lit_match (c # l) [] = False"
  by (simp add: lit_match_def)

lemma lit_match_Cons [simp]:
  "lit_match (c # l) (x # s) \<longleftrightarrow> ascii_lower x = ascii_lower c \<and> lit_match l s"
  by (auto simp: lit_match_def)

lemma lit_match_self [simp]: "lit_match l (l @ r)"
  by (induction l) auto

lemma lit_match_refl [simp]: "lit_match l l"
  using lit_match_self [of l "[]"] by simp

lemma lit_match_append:
  "lit_match (a @ b) s \<longleftrightarrow> lit_match a s \<and> lit_match b (drop (length a) s)"
proof (induction a arbitrary: s)
  case Nil
  then show ?case by simp
next
  case (Cons c a)
  then show ?case by (cases s) auto
qed

lemma seg_len_Cons [simp]:
  "seg_len (c # s) = (if c = CHR ''/'' then 0 else Suc (seg_len s))"
  by (simp add: seg_len_def)

lemma seg_len_Nil [simp]: "seg_len [] = 0"
  by (simp add: seg_len_def)

lemma seg_len_append_slash:
  "CHR ''/'' \<notin> set v \<Longrightarrow> seg_len (v @ CHR ''/'' # r) = length v"
  by (induction v) auto

lemma seg_len_no_slash: "CHR ''/'' \<notin> set s \<Longrightarrow> seg_len s = length s"
  by (induction s) auto

lemma lit_match_seg_len:
  "lit_match l s \<Longrightarrow> CHR ''/'' \<notin> set l \<Longrightarrow> length l \<le> seg_len s"
proof (induction l arbitrary: s)
  case Nil
  then show ?case by simp
next
  case (Cons c l)
  then obtain x s' where s: "s = x # s'" by (cases s) auto
  with Cons.prems have x: "ascii_lower x = ascii_lower c" "lit_match l s'" by auto
  have "x \<noteq> CHR ''/''"
  proof
    assume "x = CHR ''/''"
    with x(1) have "ascii_lower c = CHR ''/''" by simp
    with Cons.prems(2) show False by (simp add: ascii_lower_slash_iff)
  qed
  with Cons.IH [OF x(2)] Cons.prems(2) s show ?case by simp
qed

lemma match_lit_append [simp]: "match_route (Lit l # ts) (l @ r) = match_route ts r"
  by simp

lemma match_param_slash:
  assumes "v \<noteq> []" "CHR ''/'' \<notin> set v"
  shows "match_route (Param n # Lit (CHR ''/'' # l) # ts) (v @ CHR ''/'' # r)
         = map_option (Cons (n, v)) (match_route (Lit (CHR ''/'' # l) # ts) (CHR ''/'' # r))"
proof -
  let ?s = "v @ CHR ''/'' # r"
  let ?f = "\<lambda>k. map_option (\<lambda>ps. (n, take k ?s) # ps) (match_route (Lit (CHR ''/'' # l) # ts) (drop k ?s))"
  have none: "?f k = None" if "k \<in> set [1..<Suc (length v)]" "k \<noteq> length v" for k
  proof -
    from that have k: "k < length v" by auto
    then have "drop k ?s = v ! k # drop (Suc k) v @ CHR ''/'' # r" by (simp add: Cons_nth_drop_Suc)
    moreover have "v ! k \<noteq> CHR ''/''" using k assms(2) nth_mem by fastforce
    ultimately have "\<not> lit_match (CHR ''/'' # l) (drop k ?s)" by (simp add: ascii_lower_slash_iff)
    then show ?thesis by simp
  qed
  have "first_some ?f [1..<Suc (seg_len ?s)] = ?f (length v)"
    unfolding seg_len_append_slash [OF assms(2)]
  proof (rule first_some_unique)
    show "\<forall>k \<in> set [1..<Suc (length v)]. k \<noteq> length v \<longrightarrow> ?f k = None" using none by blast
    show "length v \<in> set [1..<Suc (length v)]" using assms(1) by (simp add: Suc_le_eq del: upt_Suc)
  qed
  then show ?thesis by simp
qed

lemma match_param_lit:
  assumes "y \<noteq> []" "CHR ''/'' \<notin> set y" "CHR ''/'' \<notin> set l"
  shows "match_route [Param n, Lit l] (y @ l) = Some [(n, y)]"
proof -
  let ?s = "y @ l"
  let ?f = "\<lambda>k. map_option (\<lambda>ps. (n, take k ?s) # ps) (match_route [Lit l] (drop k ?s))"
  have none: "?f k = None" if "k \<in> set [1..<Suc (length y + length l)]" "k \<noteq> length y" for k
  proof (cases "k < length y")
    case True
    let ?r = "drop (length l) (drop k ?s)"
    have "length ?r = length y - k" by simp
    with True have r1: "?r \<noteq> []" by auto
    have "set ?r \<subseteq> set ?s" by (meson order_trans set_drop_subset)
    then have "CHR ''/'' \<notin> set ?r" using assms(2,3) by auto
    then have r2: "?r \<noteq> ''/''" by (metis list.set_intros(1))
    have "match_route [] ?r = None" using r1 r2 by (simp only: match_route.simps(1) simp_thms if_False)
    then have "match_route [Lit l] (drop k ?s) = None" by (simp only: match_route.simps(2) if_cancel)
    then show ?thesis by (simp only: option.map)
  next
    case False
    with that have "length (drop k ?s) < length l" by auto
    then have "\<not> lit_match l (drop k ?s)" by (simp add: lit_match_def)
    then show ?thesis by simp
  qed
  have seg: "seg_len ?s = length y + length l" using assms(2,3) by (simp add: seg_len_no_slash)
  have "first_some ?f [1..<Suc (seg_len ?s)] = ?f (length y)"
    unfolding seg
  proof (rule first_some_unique)
    show "\<forall>k \<in> set [1..<Suc (length y + length l)]. k \<noteq> length y \<longrightarrow> ?f k = None" using none by blast
    show "length y \<in> set [1..<Suc (length y + length l)]" using assms(1) by (simp add: Suc_le_eq del: upt_Suc)
  qed
  also have "\<dots> = Some [(n, y)]" by simp
  finally show ?thesis by (simp only: match_route.simps(3))
qed

lemma match_two_params:
  assumes "2 \<le> length x" "CHR ''/'' \<notin> set x" "CHR ''/'' \<notin> set l"
  shows "match_route [Param n, Param m, Lit l] (x @ l) = Some [(n, take 1 x), (m, drop 1 x)]"
proof -
  let ?F = "\<lambda>k. map_option (\<lambda>ps. (n, take k (x @ l)) # ps) (match_route [Param m, Lit l] (drop k (x @ l)))"
  have m: "match_route [Param m, Lit l] (drop 1 x @ l) = Some [(m, drop 1 x)]"
    using assms by (intro match_param_lit) (auto dest: in_set_dropD)
  have d: "drop 1 (x @ l) = drop 1 x @ l" and t: "take 1 (x @ l) = take 1 x"
    using assms(1) by simp_all
  have seg: "seg_len (x @ l) = length x + length l"
    using assms(2,3) by (simp add: seg_len_no_slash)
  have upt: "[1..<Suc (length x + length l)] = 1 # [Suc 1..<Suc (length x + length l)]"
    by (intro upt_conv_Cons) (use assms(1) in arith)
  have "match_route [Param n, Param m, Lit l] (x @ l) = first_some ?F (1 # [Suc 1..<Suc (length x + length l)])"
    by (simp only: match_route.simps(3) seg upt)
  also have "\<dots> = Some [(n, take 1 x), (m, drop 1 x)]"
    by (simp only: first_some.simps(2) d t m option.map option.case)
  finally show ?thesis .
qed

lemma match_param_slash_lit:
  assumes "v \<noteq> []" "CHR ''/'' \<notin> set v"
  shows "match_route (Param n # Lit (CHR ''/'' # l) # ts) (v @ (CHR ''/'' # l) @ r)
         = map_option (Cons (n, v)) (match_route ts r)"
  using match_param_slash [OF assms, of n l ts "l @ r"] by simp

lemma match_lit_end:
  "match_route [Lit e] t
   = (if lit_match e t \<and> (drop (length e) t = [] \<or> drop (length e) t = ''/'') then Some [] else None)"
  by simp

lemma match_param_Some:
  "match_route (Param n # ts) s \<noteq> None \<Longrightarrow>
   \<exists>k \<in> set [1..<Suc (seg_len s)]. match_route ts (drop k s) \<noteq> None"
  by (simp only: match_route.simps(3) first_some_None_iff) auto

lemma match_param_lit_suffix:
  assumes "match_route [Param m, Lit e] s \<noteq> None" "e \<noteq> []"
  shows "s \<noteq> [] \<and> (ascii_lower (last s) = ascii_lower (last e) \<or> last s = CHR ''/'')"
proof -
  from match_param_Some [OF assms(1)] obtain k where k: "match_route [Lit e] (drop k s) \<noteq> None"
    by blast
  let ?t = "drop k s"
  from k have lm: "lit_match e ?t" and r: "drop (length e) ?t = [] \<or> drop (length e) ?t = ''/''"
    unfolding match_lit_end by (auto split: if_splits)
  from lm assms(2) have ne: "?t \<noteq> []" by (auto simp: lit_match_def)
  then have s: "s \<noteq> []" and ls: "last s = last ?t" by (auto simp: last_drop)
  from r show ?thesis
  proof
    assume "drop (length e) ?t = []"
    with lm have "map ascii_lower ?t = map ascii_lower e" by (simp add: lit_match_def)
    then have "last (map ascii_lower ?t) = last (map ascii_lower e)" by simp
    with ne assms(2) ls s show ?thesis by (simp add: last_map)
  next
    assume d: "drop (length e) ?t = ''/''"
    have "?t = take (length e) ?t @ drop (length e) ?t" by (rule append_take_drop_id [symmetric])
    with d have "?t = take (length e) ?t @ [CHR ''/'']" by simp
    then have "last ?t = CHR ''/''" by (metis last_snoc)
    with ls s show ?thesis by simp
  qed
qed

lemma match_param_Some_iff:
  "match_route (Param n # ts) s \<noteq> None \<longleftrightarrow>
   (\<exists>k \<in> set [1..<Suc (seg_len s)]. match_route ts (drop k s) \<noteq> None)"
  by (simp only: match_route.simps(3) first_some_None_iff) auto

lemma match_lit_shadow:
  assumes "match_route [Lit (CHR ''/'' # w @ e)] t \<noteq> None" "w \<noteq> []" "CHR ''/'' \<notin> set w"
  shows "match_route [Lit ''/'', Param m, Lit e] t \<noteq> None"
proof -
  from assms(1) have lm: "lit_match ([CHR ''/''] @ w @ e) t"
    and r: "drop (length (CHR ''/'' # w @ e)) t = [] \<or> drop (length (CHR ''/'' # w @ e)) t = ''/''"
    unfolding match_lit_end by (auto split: if_splits)
  from lm have "lit_match [CHR ''/''] t \<and> lit_match w (drop (length [CHR ''/'']) t)
      \<and> lit_match e (drop (length w) (drop (length [CHR ''/'']) t))"
    by (simp only: lit_match_append)
  then have l1: "lit_match [CHR ''/''] t" and lw: "lit_match w (drop 1 t)"
    and le: "lit_match e (drop (length w) (drop 1 t))"
    by simp_all
  have k: "length w \<in> set [1..<Suc (seg_len (drop 1 t))]"
    using lit_match_seg_len [OF lw assms(3)] assms(2) by (simp add: Suc_le_eq del: upt_Suc)
  have "drop (length e) (drop (length w) (drop 1 t)) = drop (length (CHR ''/'' # w @ e)) t"
    by (simp add: add.commute)
  with le r have "match_route [Lit e] (drop (length w) (drop 1 t)) \<noteq> None"
    unfolding match_lit_end by auto
  with k have "match_route [Param m, Lit e] (drop 1 t) \<noteq> None"
    unfolding match_param_Some_iff by blast
  with l1 show ?thesis by simp
qed

lemma match_lit_Some_iff:
  "match_route (Lit l # ts) s \<noteq> None \<longleftrightarrow> lit_match l s \<and> match_route ts (drop (length l) s) \<noteq> None"
  by simp

inductive_simps route_lang_Nil: "route_lang [] s"
inductive_simps route_lang_Lit: "route_lang (Lit l # ts) s"
inductive_simps route_lang_Param: "route_lang (Param n # ts) s"

lemma first_some_upt_Some:
  "first_some f [a..<b] = Some y \<Longrightarrow>
   \<exists>k. a \<le> k \<and> k < b \<and> f k = Some y \<and> (\<forall>j. a \<le> j \<and> j < k \<longrightarrow> f j = None)"
proof (induction "b - a" arbitrary: a)
  case 0
  then show ?case by simp
next
  case (Suc m)
  then have ab: "a < b" by simp
  then have u: "[a..<b] = a # [Suc a..<b]" by (rule upt_conv_Cons)
  show ?case
  proof (cases "f a")
    case (Some z)
    with Suc.prems u ab show ?thesis by auto
  next
    case None
    with Suc.prems u have r: "first_some f [Suc a..<b] = Some y" by simp
    have "m = b - Suc a" using Suc.hyps(2) by simp
    from Suc.hyps(1) [OF this r] obtain k where
      k: "Suc a \<le> k" "k < b" "f k = Some y" "\<forall>j. Suc a \<le> j \<and> j < k \<longrightarrow> f j = None" by blast
    have "\<forall>j. a \<le> j \<and> j < k \<longrightarrow> f j = None"
    proof (intro allI impI)
      fix j assume "a \<le> j \<and> j < k"
      with k(4) None show "f j = None" by (cases "j = a") auto
    qed
    with k show ?thesis by (intro exI [of _ k]) auto
  qed
qed

lemma first_some_upt_eq:
  "a \<le> k \<Longrightarrow> k < b \<Longrightarrow> \<forall>j. a \<le> j \<and> j < k \<longrightarrow> f j = None \<Longrightarrow> f k \<noteq> None \<Longrightarrow>
   first_some f [a..<b] = f k"
proof (induction "k - a" arbitrary: a)
  case 0
  then have "a = k" by simp
  with 0 show ?case by (auto simp add: upt_conv_Cons split: option.split)
next
  case (Suc m)
  then have ak: "a < k" by simp
  with Suc.prems(2) have u: "[a..<b] = a # [Suc a..<b]" by (simp add: upt_conv_Cons)
  from Suc.prems(3) ak have "f a = None" by blast
  moreover have "m = k - Suc a" using Suc.hyps(2) by simp
  then have "first_some f [Suc a..<b] = f k"
    using Suc.hyps(1) Suc.prems ak by simp
  ultimately show ?case by (simp add: u)
qed

lemma match_route_lang: "match_route ts s \<noteq> None \<longleftrightarrow> route_lang ts s"
proof (induction ts arbitrary: s)
  case Nil
  then show ?case by (simp add: route_lang_Nil)
next
  case (Cons t ts)
  then show ?case
  proof (cases t)
    case (Lit l)
    with Cons.IH show ?thesis by (simp add: route_lang_Lit)
  next
    case (Param n)
    have "match_route (Param n # ts) s \<noteq> None \<longleftrightarrow>
          (\<exists>k \<in> set [1..<Suc (seg_len s)]. match_route ts (drop k s) \<noteq> None)"
      by (rule match_param_Some_iff)
    also have "\<dots> \<longleftrightarrow> (\<exists>k. 0 < k \<and> k \<le> seg_len s \<and> route_lang ts (drop k s))"
      using Cons.IH by (force simp del: upt_Suc simp: Suc_le_eq less_Suc_eq_le)
    finally show ?thesis using Param by (simp add: route_lang_Param)
  qed
qed

lemma match_route_sound: "match_route ts s = Some ps \<Longrightarrow> lazy_match ts s ps"
proof (induction ts arbitrary: s ps)
  case Nil
  then show ?case by (auto intro: lazy_end split: if_splits)
next
  case (Cons t ts)
  show ?case
  proof (cases t)
    case (Lit l)
    with Cons show ?thesis by (auto intro: lazy_lit split: if_splits)
  next
    case (Param n)
    let ?f = "\<lambda>k. map_option (\<lambda>ps. (n, take k s) # ps) (match_route ts (drop k s))"
    from Cons.prems Param have "first_some ?f [1..<Suc (seg_len s)] = Some ps" by simp
    from first_some_upt_Some [OF this] obtain k where
      k: "1 \<le> k" "k < Suc (seg_len s)" "?f k = Some ps" and
      before: "\<forall>j. 1 \<le> j \<and> j < k \<longrightarrow> ?f j = None" by blast
    from k(3) obtain ps' where m: "match_route ts (drop k s) = Some ps'" and ps: "ps = (n, take k s) # ps'"
      by auto
    have "\<forall>j. 0 < j \<and> j < k \<longrightarrow> \<not> route_lang ts (drop j s)"
      using before by (auto simp flip: match_route_lang)
    with k Cons.IH [OF m] show ?thesis unfolding Param ps by (intro lazy_param) auto
  qed
qed

lemma match_route_complete: "lazy_match ts s ps \<Longrightarrow> match_route ts s = Some ps"
proof (induction rule: lazy_match.induct)
  case (lazy_end s)
  then show ?case by auto
next
  case (lazy_lit l s ts ps)
  then show ?case by simp
next
  case (lazy_param k s ts ps n)
  let ?f = "\<lambda>k. map_option (\<lambda>ps. (n, take k s) # ps) (match_route ts (drop k s))"
  have "\<forall>j. 1 \<le> j \<and> j < k \<longrightarrow> ?f j = None"
    using lazy_param.hyps(4) by (auto simp flip: match_route_lang)
  then have "first_some ?f [1..<Suc (seg_len s)] = ?f k"
    using lazy_param.hyps(1,2) lazy_param.IH by (intro first_some_upt_eq) auto
  with lazy_param.IH show ?case by simp
qed

lemma lazy_match_unique: "lazy_match ts s ps \<Longrightarrow> lazy_match ts s ps' \<Longrightarrow> ps = ps'"
proof -
  assume a: "lazy_match ts s ps" and b: "lazy_match ts s ps'"
  from match_route_complete [OF a] match_route_complete [OF b] show "ps = ps'" by simp
qed

text \<open>
  Express's backtracking matcher computes exactly the declarative semantics of the
  route pattern: \<open>match_route\<close> returns the parameters \<open>ps\<close> if and only if
  \<open>lazy_match\<close> relates the path to them. The match is unique (\<open>lazy_match_unique\<close>).
\<close>

lemma match_route_refines_lazy: "match_route ts s = Some ps \<longleftrightarrow> lazy_match ts s ps"
  using match_route_sound match_route_complete by blast

inductive_simps lazy_dispatch_Nil: "lazy_dispatch [] p r"
inductive_simps lazy_dispatch_Cons: "lazy_dispatch ((pat, g) # rs) p r"

lemma dispatch_refines_lazy: "dispatch rs p = Some r \<longleftrightarrow> lazy_dispatch rs p r"
proof (induction rs)
  case Nil
  then show ?case by (simp add: lazy_dispatch_Nil)
next
  case (Cons x rs)
  obtain pat g where x: "x = (pat, g)" by fastforce
  show ?case
  proof (cases "match_route (parse_route pat) p")
    case None
    have "\<not> route_lang (parse_route pat) p" using None match_route_lang [of "parse_route pat" p] by simp
    moreover have "\<forall>ps. \<not> lazy_match (parse_route pat) p ps" using None by (auto dest: match_route_complete)
    ultimately show ?thesis using None Cons.IH unfolding x by (auto simp: lazy_dispatch_Cons)
  next
    case (Some ps)
    have "route_lang (parse_route pat) p" using Some match_route_lang [of "parse_route pat" p] by simp
    moreover have "\<forall>ps'. lazy_match (parse_route pat) p ps' \<longleftrightarrow> ps' = ps"
      using Some by (auto simp flip: match_route_refines_lazy)
    ultimately show ?thesis using Some unfolding x by (auto simp: lazy_dispatch_Cons)
  qed
qed

lemma add_lit_head: "\<exists>l ts'. add_lit c ts = Lit (c # l) # ts'"
  by (cases "(c, ts)" rule: add_lit.cases) auto

lemma unparse_add_lit [simp]: "unparse_route (add_lit c ts) = c # unparse_route ts"
  by (cases "(c, ts)" rule: add_lit.cases) auto

lemma route_wf_add_lit: "route_wf ts \<Longrightarrow> route_wf (add_lit c ts)"
  by (cases "(c, ts)" rule: add_lit.cases) (auto split: list.splits route_tok.splits)

lemma parse_route_Lit_head:
  "parse_route s = Lit (c # l) # ts \<Longrightarrow> s \<noteq> [] \<and> c = hd s"
proof (cases s)
  case Nil
  then show "parse_route s = Lit (c # l) # ts \<Longrightarrow> s \<noteq> [] \<and> c = hd s" by simp
next
  case (Cons x xs)
  assume p: "parse_route s = Lit (c # l) # ts"
  obtain l' ts' where "add_lit x (parse_route xs) = Lit (x # l') # ts'" using add_lit_head by blast
  with p Cons show ?thesis by (auto split: if_splits)
qed

lemma unparse_parse_route: "unparse_route (parse_route p) = p"
  by (induction p rule: parse_route.induct) (simp_all)

text \<open>Every pattern string parses to a well-formed pattern.\<close>

lemma parse_route_wf: "route_wf (parse_route p)"
proof (induction p rule: parse_route.induct)
  case 1
  then show ?case by simp
next
  case (2 c cs)
  show ?case
  proof (cases "c = CHR '':'' \<and> takeWhile is_word_char cs \<noteq> []")
    case True
    let ?r = "dropWhile is_word_char cs"
    have next_ok: "\<not> is_word_char c'" if "parse_route ?r = Lit (c' # l) # ts" for c' l ts
    proof -
      from parse_route_Lit_head [OF that] have "?r \<noteq> []" "c' = hd ?r" by auto
      then show ?thesis using hd_dropWhile by metis
    qed
    have "list_all is_word_char (takeWhile is_word_char cs)"
      by (auto simp: list_all_iff dest: set_takeWhileD)
    with True "2.IH"(1) next_ok show ?thesis
      by (auto split: list.splits route_tok.splits)
  next
    case False
    with "2.IH"(2) show ?thesis by (simp add: route_wf_add_lit)
  qed
qed

end
