(* ===== verification/Video_Id.thy ===== *)
theory Video_Id
  imports HLS_Prelude
begin

text \<open>
  The video identifier grammar \<open>/^[a-zA-Z0-9_-]{11}$/\<close> that every on-demand
  server checks before it resolves a video (\<open>getVideoFormats\<close> in
  src/index.js and src/unnamed/part_002, \<open>getVideoUrl\<close> and the route handlers in
  src/unnamed/part_001), and the canonical watch URL built from an identifier.
  Without the \<open>m\<close> flag, JavaScript's \<open>$\<close> matches only at the end of the
  input, so the pattern accepts exactly the strings of eleven characters of the class.
\<close>

definition id_char :: "char \<Rightarrow> bool" where
  "id_char c \<longleftrightarrow>
     is_digit c
     \<or> ((65::nat) \<le> of_char c \<and> of_char c \<le> (90::nat))
     \<or> ((97::nat) \<le> of_char c \<and> of_char c \<le> (122::nat))
     \<or> c = CHR ''_'' \<or> c = CHR ''-''"

definition valid_video_id :: "string \<Rightarrow> bool" where
  "valid_video_id s \<longleftrightarrow> length s = 11 \<and> list_all id_char s"

definition watch_url :: "string \<Rightarrow> string" where
  "watch_url vid = ''https://www.youtube.com/watch?v='' @ vid"

lemmas video_id_simps [js_simps] = valid_video_id_def id_char_def is_digit_def

lemma id_char_not_special:
  "id_char c \<Longrightarrow> c \<notin> {CHR ''/'', CHR ''&'', CHR ''?'', CHR ''.'', CHR 0x0A, CHR '' ''}"
  by (auto simp: id_char_def is_digit_def)

lemma valid_video_id_no_special:
  "valid_video_id s \<Longrightarrow> c \<in> set s \<Longrightarrow>
   c \<notin> {CHR ''/'', CHR ''&'', CHR ''?'', CHR ''.'', CHR 0x0A, CHR '' ''}"
  by (auto simp: valid_video_id_def list_all_iff dest: id_char_not_special)

end
