(* ===== verification/Url_Expiry.thy ===== *)
theory Url_Expiry
  imports HLS_Prelude
begin

text \<open>
  The expiry test on a signed upstream media URL, \<open>isUrlExpired\<close>
  (src/index.js 55--60, src/unnamed/part_001 53--58, src/unnamed/part_002 55--60 with a
  five-minute margin; src/unnamed/part_000 305--310 with a thirty-minute margin).
  The URL carries its expiry instant as a query parameter \<open>expire=<unix seconds>\<close>;
  the first match of \<open>/expire=(\d+)/\<close> is read, scaled to milliseconds and compared
  with \<open>Date.now()\<close> less the margin. A URL without the parameter counts as expired.
\<close>

subsection \<open>The regular expression \<open>/expire=(\d+)/\<close>\<close>

text \<open>
  The leftmost position where \<open>expire=\<close> is followed by at least one digit; the
  group is the longest run of digits there (\<open>\d+\<close> is greedy).
\<close>

fun match_expire :: "string \<Rightarrow> string option" where
  "match_expire [] = None"
| "match_expire (c # cs) =
     (if take 7 (c # cs) = ''expire='' \<and> takeWhile is_digit (drop 7 (c # cs)) \<noteq> []
      then Some (takeWhile is_digit (drop 7 (c # cs)))
      else match_expire cs)"

subsection \<open>\<open>isUrlExpired\<close>\<close>

text \<open>
  \<open>margin\<close> is the safety buffer in milliseconds and \<open>now\<close> is \<open>Date.now()\<close>;
  \<open>parseInt\<close> of the digit group is \<open>nat_of_digits\<close>.
\<close>

definition is_url_expired :: "ms \<Rightarrow> ms \<Rightarrow> string \<Rightarrow> bool" where
  "is_url_expired margin now url =
     (case match_expire url of
        None \<Rightarrow> True
      | Some ds \<Rightarrow> int (nat_of_digits ds) * 1000 - margin \<le> now)"

definition isUrlExpired :: "ms \<Rightarrow> string \<Rightarrow> bool" where
  "isUrlExpired now url = is_url_expired 300000 now url"

text \<open>src/unnamed/part_001 (53--58) has its own copy, with the same margin.\<close>

definition isUrlExpired_p001 :: "ms \<Rightarrow> string \<Rightarrow> bool" where
  "isUrlExpired_p001 now url = is_url_expired 300000 now url"

text \<open>The second server of src/unnamed/part_000 (305--310) allows thirty minutes.\<close>

definition isUrlExpired_p000 :: "ms \<Rightarrow> string \<Rightarrow> bool" where
  "isUrlExpired_p000 now url = is_url_expired 1800000 now url"

text \<open>The expiry instant a URL carries, in milliseconds, when it carries one.\<close>

definition url_expiry :: "string \<Rightarrow> ms option" where
  "url_expiry url = map_option (\<lambda>ds. int (nat_of_digits ds) * 1000) (match_expire url)"

subsection \<open>Lemmas\<close>

lemma match_expire_digits:
  "match_expire s = Some ds \<Longrightarrow> ds \<noteq> [] \<and> (\<forall>c \<in> set ds. is_digit c)"
  by (induction s rule: match_expire.induct)
     (auto split: if_splits dest: set_takeWhileD)

lemma is_url_expired_expiry:
  "is_url_expired margin now url =
     (case url_expiry url of None \<Rightarrow> True | Some t \<Rightarrow> t - margin \<le> now)"
  by (simp add: is_url_expired_def url_expiry_def split: option.split)

lemma match_expire_append_no_match:
  "match_expire p = None \<Longrightarrow> \<not> js_includes p ''expire='' \<Longrightarrow>
   sep \<notin> set ''expire='' \<Longrightarrow> match_expire (p @ sep # s) = match_expire (sep # s)"
proof (induction p)
  case Nil
  then show ?case by simp
next
  case (Cons c p)
  have take7: "take 7 (c # p @ sep # s) \<noteq> ''expire=''"
  proof
    assume eq: "take 7 (c # p @ sep # s) = ''expire=''"
    show False
    proof (cases "length p < 6")
      case True
      then have "sep \<in> set (take 7 (c # p @ sep # s))"
        by (simp add: take_Cons' take_append)
      with eq Cons.prems(3) show False by simp
    next
      case False
      then have "take 7 (c # p @ sep # s) = take 7 (c # p)"
        by (simp add: take_Cons')
      with eq have "take (length ''expire='') (c # p) = ''expire=''"
        by simp
      then have "js_includes (c # p) ''expire=''"
        by (subst js_includes.simps) (rule disjI1)
      with Cons.prems(2) show False by simp
    qed
  qed
  from Cons.prems have "match_expire p = None" "\<not> js_includes p ''expire=''"
    by (auto split: if_splits)
  with Cons.IH Cons.prems(3) have "match_expire (p @ sep # s) = match_expire (sep # s)"
    by blast
  moreover have "match_expire (c # p @ sep # s) = match_expire (p @ sep # s)"
    using take7 by (simp only: match_expire.simps(2) simp_thms if_False)
  ultimately show ?case by simp
qed

lemma match_expire_no_key: "\<not> js_includes p ''expire='' \<Longrightarrow> match_expire p = None"
proof (induction p)
  case Nil
  then show ?case by simp
next
  case (Cons c p)
  have take7: "take 7 (c # p) \<noteq> ''expire=''"
  proof
    assume eq: "take 7 (c # p) = ''expire=''"
    have len: "length ''expire='' = 7" by simp
    have "take (length ''expire='') (c # p) = ''expire=''" by (simp only: len eq)
    then have "js_includes (c # p) ''expire=''" by (subst js_includes.simps) (rule disjI1)
    with Cons.prems show False by simp
  qed
  from Cons.prems have "\<not> js_includes p ''expire=''" by simp
  then have "match_expire p = None" by (rule Cons.IH)
  with take7 show ?case by (simp only: match_expire.simps(2) simp_thms if_False)
qed

lemma match_expire_param:
  assumes "sep \<notin> set ''expire=''" "rest = [] \<or> \<not> is_digit (hd rest)"
  shows "match_expire (sep # ''expire='' @ string_of_nat e @ rest) = Some (string_of_nat e)"
proof -
  have "take 7 (sep # ''expire='' @ string_of_nat e @ rest) \<noteq> ''expire=''"
    using assms(1) by auto
  moreover have "takeWhile is_digit (string_of_nat e @ rest) = string_of_nat e"
    using assms(2) by (rule takeWhile_digits_string_of_nat)
  ultimately show ?thesis by simp
qed

text \<open>
  C16: for a URL carrying \<open>expire=<e>\<close> as its only expiry parameter
  (after a separator, followed by a non-digit or the end), \<open>isUrlExpired\<close> of
  src/index.js holds exactly when \<open>now \<ge> e * 1000 - 300000\<close> milliseconds.
\<close>

theorem isUrlExpired_param:
  assumes "\<not> js_includes base ''expire=''" "sep \<notin> set ''expire=''" "rest = [] \<or> \<not> is_digit (hd rest)"
  shows "isUrlExpired now (base @ sep # ''expire='' @ string_of_nat e @ rest)
         \<longleftrightarrow> int e * 1000 - 300000 \<le> now"
proof -
  have "match_expire (base @ sep # ''expire='' @ string_of_nat e @ rest)
        = match_expire (sep # ''expire='' @ string_of_nat e @ rest)"
    using match_expire_no_key [OF assms(1)] assms(1,2) by (rule match_expire_append_no_match)
  also have "\<dots> = Some (string_of_nat e)" using assms(2,3) by (rule match_expire_param)
  finally show ?thesis by (simp add: isUrlExpired_def is_url_expired_def)
qed

text \<open>
  A URL without an \<open>expire=<digits>\<close> parameter is always treated as
  expired, whatever the margin and the time (fail safe).
\<close>

theorem is_url_expired_no_param:
  "match_expire url = None \<Longrightarrow> is_url_expired margin now url"
  by (simp add: is_url_expired_def)

text \<open>
  A URL that \<open>isUrlExpired\<close> accepts at time \<open>now\<close> carries an expiry
  instant more than the margin ahead of \<open>now\<close>, and it was accepted at every earlier
  instant too: expiry, once reached, is permanent.
\<close>

theorem is_url_expired_margin:
  "\<not> is_url_expired margin now url \<Longrightarrow>
   \<exists>t. url_expiry url = Some t \<and> now + margin < t \<and> (\<forall>now' \<le> now. \<not> is_url_expired margin now' url)"
  by (auto simp: is_url_expired_def url_expiry_def split: option.splits)

end
