(* ===== verification/Resolver.thy ===== *)
theory Resolver
  imports Video_Id Url_Expiry
begin

text \<open>
  The Format Resolver: the upstream resolution API's reply, its validation and
  mapping (\<open>fetchYouTubeData\<close>, with and without retries), the time-boxed cache
  (\<open>node-cache\<close>), the cache-preferring resolution of one video
  (\<open>getVideoFormats\<close> of src/index.js and of src/unnamed/part_002,
  \<open>getVideoUrl\<close> of src/unnamed/part_001 and of the second server in
  src/unnamed/part_000) and the format selection of the handlers. A server's
  state is its cache, its clock (\<open>Date.now()\<close>) and the number of upstream
  calls made so far; the upstream API is an oracle giving the reply to the
  \<open>n\<close>-th call for a watch URL.
\<close>

subsection \<open>Errors\<close>

text \<open>The messages the handlers put in \<open>{error: err.message}\<close>.\<close>

datatype error =
    Invalid_video_id
  | Api_request_failed string
  | Format_not_available
  | Audio_format_not_available
  | No_suitable_format
  | Invalid_segment_number
  | Url_type_error \<comment> \<open>\<open>undefined.match(...)\<close> on a format without URL\<close>
  | Invalid_arg_type \<comment> \<open>\<open>spawn\<close> given \<open>undefined\<close> among its arguments\<close>

fun error_message :: "error \<Rightarrow> string" where
  "error_message Invalid_video_id = ''Invalid YouTube video ID''"
| "error_message (Api_request_failed m) = ''API request failed: '' @ m"
| "error_message Format_not_available = ''Format not available''"
| "error_message Audio_format_not_available = ''Audio format not available''"
| "error_message No_suitable_format = ''No suitable format found''"
| "error_message Invalid_segment_number = ''Invalid segment number''"
| "error_message Url_type_error = ''Cannot read properties of undefined (reading 'match')''"
| "error_message Invalid_arg_type = ''The \"args\" argument must be of type string''"

subsection \<open>The upstream reply and \<open>fetchYouTubeData\<close>\<close>

record api_item =
  item_type :: "string option"
  item_label :: "string option"
  item_ext :: "string option"
  item_extension :: "string option"
  item_url :: "string option"

text \<open>\<open>res.data.data\<close>; the duration is kept in milliseconds.\<close>

record api_data =
  d_title :: "string option"
  d_thumbnail :: "string option"
  d_duration :: "ms option"
  d_items :: "api_item list option"

text \<open>
  An axios failure (network error, error status, timeout) with its message, or a
  reply whose body may lack the \<open>data\<close> member.
\<close>

datatype api_response = Api_failure string | Api_reply "api_data option"

type_synonym upstream = "nat \<Rightarrow> string \<Rightarrow> api_response"

record media_format =
  ftype :: "string option"
  quality :: string
  extension :: string
  furl :: "string option"

record video_data =
  title :: string
  thumbnail :: "string option"
  duration :: "ms option"
  formats :: "media_format list"

definition to_format :: "api_item \<Rightarrow> media_format" where
  "to_format it =
     \<lparr>ftype = item_type it, quality = js_or (item_label it) ''unknown'',
      extension = js_or (item_ext it) (js_or (item_extension it) ''unknown''),
      furl = item_url it\<rparr>"

text \<open>
  The body of the \<open>try\<close> block: the reply is checked
  (\<open>!data || !data.items || !data.title\<close>) and mapped; \<open>Inl\<close> carries the message
  of the error the block throws.
\<close>

definition parse_api_response :: "api_response \<Rightarrow> string + video_data" where
  "parse_api_response r =
     (case r of
        Api_failure m \<Rightarrow> Inl m
      | Api_reply None \<Rightarrow> Inl ''Invalid response from API''
      | Api_reply (Some d) \<Rightarrow>
          (case (d_items d, d_title d) of
             (Some its, Some t) \<Rightarrow>
               if t = [] then Inl ''Invalid response from API''
               else Inr \<lparr>title = t, thumbnail = d_thumbnail d, duration = d_duration d,
                         formats = map to_format its\<rparr>
           | _ \<Rightarrow> Inl ''Invalid response from API''))"

definition fetchYouTubeData :: "api_response \<Rightarrow> error + video_data" where
  "fetchYouTubeData r = (case parse_api_response r of Inl m \<Rightarrow> Inl (Api_request_failed m) | Inr d \<Rightarrow> Inr d)"

text \<open>The other servers each carry a copy of this \<open>fetchYouTubeData\<close>, with the same
  body: src/unnamed/part_001 (15--50), src/unnamed/part_002 (15--50) and the second
  server of src/unnamed/part_000 (267--302).\<close>

definition fetchYouTubeData_p001 :: "api_response \<Rightarrow> error + video_data" where
  "fetchYouTubeData_p001 r = (case parse_api_response r of Inl m \<Rightarrow> Inl (Api_request_failed m) | Inr d \<Rightarrow> Inr d)"

definition fetchYouTubeData_p002 :: "api_response \<Rightarrow> error + video_data" where
  "fetchYouTubeData_p002 r = (case parse_api_response r of Inl m \<Rightarrow> Inl (Api_request_failed m) | Inr d \<Rightarrow> Inr d)"

definition fetchYouTubeData_p000s :: "api_response \<Rightarrow> error + video_data" where
  "fetchYouTubeData_p000s r = (case parse_api_response r of Inl m \<Rightarrow> Inl (Api_request_failed m) | Inr d \<Rightarrow> Inr d)"

subsection \<open>The cache\<close>

text \<open>
  \<open>node-cache\<close> with a standard TTL: an entry stores its value and its expiry
  instant; a read after that instant misses (the library then drops the entry,
  which no later read can observe).
\<close>

type_synonym 'v cache = "string \<rightharpoonup> ('v \<times> ms)"

definition cache_get :: "ms \<Rightarrow> string \<Rightarrow> 'v cache \<Rightarrow> 'v option" where
  "cache_get now k c = (case c k of None \<Rightarrow> None | Some (v, t) \<Rightarrow> if t < now then None else Some v)"

definition cache_set :: "ms \<Rightarrow> ms \<Rightarrow> string \<Rightarrow> 'v \<Rightarrow> 'v cache \<Rightarrow> 'v cache" where
  "cache_set now ttl k v c = c(k \<mapsto> (v, now + ttl))"

record 'v srv =
  cache :: "'v cache"
  clock :: ms
  api_calls :: nat

definition call_upstream :: "upstream \<Rightarrow> string \<Rightarrow> 'v srv \<Rightarrow> api_response \<times> 'v srv" where
  "call_upstream up u s = (up (api_calls s) u, s\<lparr>api_calls := Suc (api_calls s)\<rparr>)"

definition has_url :: "media_format \<Rightarrow> bool" where
  "has_url f = truthy (furl f)"

subsection \<open>Retries\<close>

text \<open>
  The first server of src/unnamed/part_000 retries: attempt \<open>i\<close> of
  \<open>retries\<close> calls the API; a failure of the last attempt is rethrown wrapped, an
  earlier one waits \<open>delay\<close> milliseconds and tries again. When \<open>retries\<close> is
  zero the loop body never runs and the function returns \<open>undefined\<close> (\<open>None\<close>).
\<close>

function fetch_retry ::
  "upstream \<Rightarrow> string \<Rightarrow> nat \<Rightarrow> ms \<Rightarrow> nat \<Rightarrow> 'v srv \<Rightarrow> (error + video_data) option \<times> 'v srv" where
  "fetch_retry up u retries delay i s =
     (if i < retries then
        (let r = up (api_calls s) u; s' = s\<lparr>api_calls := Suc (api_calls s)\<rparr> in
         case parse_api_response r of
           Inr d \<Rightarrow> (Some (Inr d), s')
         | Inl m \<Rightarrow>
             if i = retries - 1 then (Some (Inl (Api_request_failed m)), s')
             else fetch_retry up u retries delay (Suc i) (s'\<lparr>clock := clock s' + delay\<rparr>))
      else (None, s))"
  by pat_completeness auto
termination
  by (relation "measure (\<lambda>(up, u, retries, delay, i, s). retries - i)") auto

declare fetch_retry.simps [simp del]

definition fetchYouTubeData_p000 :: "upstream \<Rightarrow> string \<Rightarrow> 'v srv \<Rightarrow> (error + video_data) option \<times> 'v srv" where
  "fetchYouTubeData_p000 up u s = fetch_retry up u 3 1000 0 s"

text \<open>
  The reference behaviour of the retry loop on the replies of its attempts: the
  first reply that validates, or the last failure, wrapped.
\<close>

fun retry_spec :: "api_response list \<Rightarrow> (error + video_data) option" where
  "retry_spec [] = None"
| "retry_spec (r # rs) =
     (case parse_api_response r of
        Inr d \<Rightarrow> Some (Inr d)
      | Inl m \<Rightarrow> if rs = [] then Some (Inl (Api_request_failed m)) else retry_spec rs)"

subsection \<open>\<open>getVideoFormats\<close> of src/index.js\<close>

text \<open>
  Validates the identifier, returns a cached entry unless \<open>forceRefresh\<close>, and
  otherwise fetches, keeps the formats with a URL and stores the result for five
  hours under \<open><id>_formats\<close>.
\<close>

definition getVideoFormats ::
  "upstream \<Rightarrow> string \<Rightarrow> bool \<Rightarrow> video_data srv \<Rightarrow> (error + video_data) \<times> video_data srv" where
  "getVideoFormats up vid force s =
     (if \<not> valid_video_id vid then (Inl Invalid_video_id, s)
      else
        let key = vid @ ''_formats'' in
        case (if force then None else cache_get (clock s) key (cache s)) of
          Some v \<Rightarrow> (Inr v, s)
        | None \<Rightarrow>
            let (r, s') = call_upstream up (watch_url vid) s in
            case fetchYouTubeData r of
              Inl e \<Rightarrow> (Inl e, s')
            | Inr d \<Rightarrow>
                let d' = d\<lparr>formats := filter has_url (formats d)\<rparr>
                in (Inr d', s'\<lparr>cache := cache_set (clock s) 18000000 key d' (cache s)\<rparr>))"

subsection \<open>\<open>getVideoFormats\<close> of src/unnamed/part_002\<close>

text \<open>
  No \<open>forceRefresh\<close>: the entry is refetched when it is missing or when any of
  its format URLs is expired. \<open>isUrlExpired(f.url)\<close> on a format without URL
  throws a \<open>TypeError\<close>.
\<close>

definition format_expired :: "ms \<Rightarrow> media_format \<Rightarrow> error + bool" where
  "format_expired now f = (case furl f of None \<Rightarrow> Inl Url_type_error | Some u \<Rightarrow> Inr (isUrlExpired now u))"

fun some_expired :: "ms \<Rightarrow> media_format list \<Rightarrow> error + bool" where
  "some_expired now [] = Inr False"
| "some_expired now (f # fs) =
     (case format_expired now f of
        Inl e \<Rightarrow> Inl e
      | Inr True \<Rightarrow> Inr True
      | Inr False \<Rightarrow> some_expired now fs)"

definition getVideoFormats_p002 ::
  "upstream \<Rightarrow> string \<Rightarrow> video_data srv \<Rightarrow> (error + video_data) \<times> video_data srv" where
  "getVideoFormats_p002 up vid s =
     (if \<not> valid_video_id vid then (Inl Invalid_video_id, s)
      else
        let key = vid @ ''_formats'';
            refetch = (\<lambda>s0. let (r, s') = call_upstream up (watch_url vid) s0 in
               case fetchYouTubeData_p002 r of
                 Inl e \<Rightarrow> (Inl e, s')
               | Inr d \<Rightarrow>
                   let d' = d\<lparr>formats := filter has_url (formats d)\<rparr>
                   in (Inr d', s'\<lparr>cache := cache_set (clock s0) 18000000 key d' (cache s0)\<rparr>))
        in case cache_get (clock s) key (cache s) of
             None \<Rightarrow> refetch s
           | Some v \<Rightarrow>
               (case some_expired (clock s) (formats v) of
                  Inl e \<Rightarrow> (Inl e, s)
                | Inr True \<Rightarrow> refetch s
                | Inr False \<Rightarrow> (Inr v, s)))"

subsection \<open>Format selection\<close>

text \<open>
  \<open>formats.find(f => f.quality.includes(q) && f.type === 'video_with_audio')\<close>
  and \<open>formats.find(f => f.type === 'audio')\<close>.
\<close>

definition find_video :: "string \<Rightarrow> media_format list \<Rightarrow> media_format option" where
  "find_video q fs = find (\<lambda>f. js_includes (quality f) q \<and> str_eq (ftype f) ''video_with_audio'') fs"

definition find_audio :: "media_format list \<Rightarrow> media_format option" where
  "find_audio fs = find (\<lambda>f. str_eq (ftype f) ''audio'') fs"

text \<open>With the fallback to the first combined format (\<open>find(...) || find(...)\<close>).\<close>

definition select_format :: "string \<Rightarrow> media_format list \<Rightarrow> media_format option" where
  "select_format q fs =
     (case find_video q fs of
        Some f \<Rightarrow> Some f
      | None \<Rightarrow> find (\<lambda>f. str_eq (ftype f) ''video_with_audio'') fs)"

subsection \<open>\<open>getVideoUrl\<close> of src/unnamed/part_001 and src/unnamed/part_000\<close>

text \<open>
  These servers cache, per \<open><id>_<quality>\<close>, only the selected format's URL with the
  title and duration. A cached entry is used while its URL is not expired; the
  formats are not filtered, so the selected URL may be missing, and
  \<open>isUrlExpired(undefined)\<close> then throws. src/unnamed/part_001 (61--92) validates the
  identifier and uses a five-minute margin; the second server of src/unnamed/part_000
  (313--340) validates nothing and uses thirty minutes. Each passes its own copies of
  \<open>fetchYouTubeData\<close> and \<open>isUrlExpired\<close>.
\<close>

record url_info =
  u_url :: "string option"
  u_title :: string
  u_duration :: "ms option"

definition get_video_url ::
  "(api_response \<Rightarrow> error + video_data) \<Rightarrow> (ms \<Rightarrow> string \<Rightarrow> bool) \<Rightarrow> bool \<Rightarrow> upstream \<Rightarrow> string \<Rightarrow> string
   \<Rightarrow> url_info srv \<Rightarrow> (error + url_info) \<times> url_info srv" where
  "get_video_url fetch expired validate up vid q s =
     (if validate \<and> \<not> valid_video_id vid then (Inl Invalid_video_id, s)
      else
        let key = vid @ ''_'' @ q;
            refetch =
              (let (r, s') = call_upstream up (watch_url vid) s in
               case fetch r of
                 Inl e \<Rightarrow> (Inl e, s')
               | Inr d \<Rightarrow>
                   (case select_format q (formats d) of
                      None \<Rightarrow> (Inl No_suitable_format, s')
                    | Some f \<Rightarrow>
                        let v = \<lparr>u_url = furl f, u_title = title d, u_duration = duration d\<rparr>
                        in (Inr v, s'\<lparr>cache := cache_set (clock s) 18000000 key v (cache s)\<rparr>)))
        in case cache_get (clock s) key (cache s) of
             None \<Rightarrow> refetch
           | Some c \<Rightarrow>
               (case u_url c of
                  None \<Rightarrow> (Inl Url_type_error, s)
                | Some u \<Rightarrow> if expired (clock s) u then refetch else (Inr c, s)))"

definition getVideoUrl_p001 ::
  "upstream \<Rightarrow> string \<Rightarrow> string \<Rightarrow> url_info srv \<Rightarrow> (error + url_info) \<times> url_info srv" where
  "getVideoUrl_p001 = get_video_url fetchYouTubeData_p001 isUrlExpired_p001 True"

definition getVideoUrl_p000 ::
  "upstream \<Rightarrow> string \<Rightarrow> string \<Rightarrow> url_info srv \<Rightarrow> (error + url_info) \<times> url_info srv" where
  "getVideoUrl_p000 = get_video_url fetchYouTubeData_p000s isUrlExpired_p000 False"

text \<open>The invariant of the cache of src/index.js and src/unnamed/part_002.\<close>

definition cache_formats_ok :: "video_data cache \<Rightarrow> bool" where
  "cache_formats_ok c \<longleftrightarrow> (\<forall>(v, t) \<in> ran c. list_all has_url (formats v))"

lemmas resolver_defs = getVideoFormats_def getVideoFormats_p002_def call_upstream_def
  cache_get_def cache_set_def fetchYouTubeData_def parse_api_response_def

subsection \<open>Lemmas\<close>

text \<open>The copies of \<open>fetchYouTubeData\<close> are the function of src/index.js.\<close>

lemma fetchYouTubeData_copies [simp]:
  "fetchYouTubeData_p001 = fetchYouTubeData" "fetchYouTubeData_p002 = fetchYouTubeData"
  "fetchYouTubeData_p000s = fetchYouTubeData"
  by (rule ext, simp add: fetchYouTubeData_p001_def fetchYouTubeData_p002_def fetchYouTubeData_p000s_def
      fetchYouTubeData_def)+

lemma cache_get_set_same [simp]:
  "now \<le> t \<Longrightarrow> t \<le> now + ttl \<Longrightarrow> cache_get t k (cache_set now ttl k v c) = Some v"
  by (simp add: cache_get_def cache_set_def)

lemma cache_get_set_other [simp]:
  "k' \<noteq> k \<Longrightarrow> cache_get t k' (cache_set now ttl k v c) = cache_get t k' c"
  by (simp add: cache_get_def cache_set_def)

lemma cache_get_set_after_ttl:
  "now + ttl < t \<Longrightarrow> cache_get t k (cache_set now ttl k v c) = None"
  by (simp add: cache_get_def cache_set_def)

text \<open>
  C2: \<open>getVideoFormats\<close> of src/index.js rejects an identifier outside
  the grammar \<open>[a-zA-Z0-9_-]{11}\<close> with \<open>Invalid YouTube video ID\<close> before any
  upstream call: the server state is returned unchanged.
\<close>

theorem getVideoFormats_invalid_id:
  "\<not> valid_video_id vid \<Longrightarrow> getVideoFormats up vid force s = (Inl Invalid_video_id, s)"
  by (simp add: getVideoFormats_def)

lemma getVideoFormats_hit:
  "valid_video_id vid \<Longrightarrow> cache_get (clock s) (vid @ ''_formats'') (cache s) = Some v \<Longrightarrow>
   getVideoFormats up vid False s = (Inr v, s)"
  by (simp add: getVideoFormats_def)

lemma getVideoFormats_fetched:
  assumes "getVideoFormats up vid force s = (Inr d, s')" "api_calls s' \<noteq> api_calls s"
  shows "valid_video_id vid \<and> clock s' = clock s \<and>
         cache s' = cache_set (clock s) 18000000 (vid @ ''_formats'') d (cache s)"
  using assms
  by (auto simp: getVideoFormats_def call_upstream_def Let_def
           split: if_splits option.splits sum.splits)

text \<open>
  C1: after \<open>getVideoFormats\<close> of src/index.js has fetched a video, a
  second request for the same identifier within the five-hour TTL returns the same data
  and leaves the server state untouched: it makes no upstream call, whatever the
  upstream would answer.
\<close>

theorem getVideoFormats_cached_within_ttl:
  assumes "getVideoFormats up vid force s = (Inr d, s')" "api_calls s' \<noteq> api_calls s"
    and "clock s \<le> t" "t \<le> clock s + 18000000"
  shows "getVideoFormats up' vid False (s'\<lparr>clock := t\<rparr>) = (Inr d, s'\<lparr>clock := t\<rparr>)"
proof -
  from getVideoFormats_fetched [OF assms(1,2)]
  have "valid_video_id vid" and c: "cache s' = cache_set (clock s) 18000000 (vid @ ''_formats'') d (cache s)"
    by auto
  with assms(3,4) show ?thesis by (simp add: getVideoFormats_hit)
qed

lemma getVideoFormats_calls:
  "getVideoFormats up vid force s = (r, s') \<Longrightarrow> api_calls s' \<le> Suc (api_calls s) \<and> clock s' = clock s"
  by (auto simp: getVideoFormats_def call_upstream_def Let_def
           split: if_splits option.splits sum.splits)

text \<open>
  A forced refresh (\<open>forceRefresh = true\<close>, used by
  \<open>runFFmpeg\<close> when a URL has expired) of a valid identifier always makes exactly one
  upstream call, and its result does not depend on what the cache held.
\<close>

theorem getVideoFormats_force_ignores_cache:
  "valid_video_id vid \<Longrightarrow>
   api_calls (snd (getVideoFormats up vid True s)) = Suc (api_calls s) \<and>
   fst (getVideoFormats up vid True s) = fst (getVideoFormats up vid True (s\<lparr>cache := c\<rparr>))"
  by (simp add: getVideoFormats_def call_upstream_def Let_def split: sum.splits)

lemma cache_formats_ok_set:
  "cache_formats_ok c \<Longrightarrow> list_all has_url (formats v) \<Longrightarrow> cache_formats_ok (cache_set now ttl k v c)"
  by (auto simp: cache_formats_ok_def cache_set_def ran_def)

lemma cache_formats_ok_get:
  "cache_formats_ok c \<Longrightarrow> cache_get now k c = Some v \<Longrightarrow> list_all has_url (formats v)"
  by (cases "c k") (force simp: cache_formats_ok_def cache_get_def ran_def split: if_splits)+

lemma list_all_filter: "list_all P (filter P xs)"
  by (simp add: list_all_iff)

text \<open>
  The cache of src/index.js only ever holds format lists
  in which every format has a direct URL (the \<open>filter(f => f.url)\<close> of line 77), and
  every result \<open>getVideoFormats\<close> returns has that property; the invariant is kept by
  every call.
\<close>

theorem getVideoFormats_cache_inv:
  assumes "cache_formats_ok (cache s)" "getVideoFormats up vid force s = (r, s')"
  shows "cache_formats_ok (cache s') \<and> (\<forall>d. r = Inr d \<longrightarrow> list_all has_url (formats d))"
  using assms
  by (auto simp: getVideoFormats_def call_upstream_def Let_def list_all_filter cache_formats_ok_set
           dest: cache_formats_ok_get
           split: if_splits option.splits sum.splits)

lemma format_expired_has_url:
  "has_url f \<Longrightarrow> format_expired now f = Inr (isUrlExpired now (the (furl f)))"
  by (auto simp: format_expired_def has_url_def truthy_def split: option.splits)

lemma some_expired_has_url:
  "list_all has_url fs \<Longrightarrow> some_expired now fs = Inr (list_ex (\<lambda>f. isUrlExpired now (the (furl f))) fs)"
  by (induction fs) (auto simp: format_expired_has_url split: bool.split)

lemma some_expired_False:
  "some_expired now fs = Inr False \<Longrightarrow> list_all (\<lambda>f. format_expired now f = Inr False) fs"
  by (induction fs) (auto split: sum.splits bool.splits)

text \<open>
  C19: in src/unnamed/part_002, data that \<open>getVideoFormats\<close>
  serves from its cache without an upstream call contains no format whose URL is
  expired at the time of the request.
\<close>

theorem getVideoFormats_p002_cached_fresh:
  assumes "getVideoFormats_p002 up vid s = (Inr d, s')" "api_calls s' = api_calls s"
  shows "list_all (\<lambda>f. format_expired (clock s) f = Inr False) (formats d)"
  using assms
  by (auto simp: getVideoFormats_p002_def call_upstream_def Let_def
           dest: some_expired_False split: if_splits option.splits sum.splits bool.splits)

text \<open>
  C20: in src/unnamed/part_002, a cached entry in which some
  format URL is expired (or within the five-minute margin) is never served: the request
  makes an upstream call.
\<close>

theorem getVideoFormats_p002_expired_refetch:
  assumes "valid_video_id vid" "cache_get (clock s) (vid @ ''_formats'') (cache s) = Some v"
    and "list_all has_url (formats v)" "list_ex (\<lambda>f. isUrlExpired (clock s) (the (furl f))) (formats v)"
  shows "api_calls (snd (getVideoFormats_p002 up vid s)) = Suc (api_calls s)"
  using assms
  by (simp add: getVideoFormats_p002_def call_upstream_def Let_def some_expired_has_url
           split: sum.splits)

lemma fetch_retry_unfold:
  "i < n \<Longrightarrow> fetch_retry up u n delay i s =
     (case parse_api_response (up (api_calls s) u) of
        Inr d \<Rightarrow> (Some (Inr d), s\<lparr>api_calls := Suc (api_calls s)\<rparr>)
      | Inl m \<Rightarrow>
          if i = n - 1 then (Some (Inl (Api_request_failed m)), s\<lparr>api_calls := Suc (api_calls s)\<rparr>)
          else fetch_retry up u n delay (Suc i)
                 (s\<lparr>api_calls := Suc (api_calls s), clock := clock s + delay\<rparr>))"
  by (subst fetch_retry.simps) (simp add: Let_def split: sum.split)

lemma fetch_retry_fst:
  "fst (fetch_retry up u n delay i s) = retry_spec (map (\<lambda>j. up (api_calls s + j) u) [0..<n - i])"
proof (induction up u n delay i s rule: fetch_retry.induct)
  case (1 up u n delay i s)
  show ?case
  proof (cases "i < n")
    case False
    then show ?thesis by (simp add: fetch_retry.simps)
  next
    case True
    then have upt: "[0..<n - i] = 0 # map Suc [0..<n - Suc i]"
      by (simp add: map_Suc_upt Suc_diff_Suc upt_conv_Cons del: upt_Suc)
    show ?thesis
    proof (cases "parse_api_response (up (api_calls s) u)")
      case (Inl m)
      show ?thesis
      proof (cases "i = n - 1")
        case True
        show ?thesis
          unfolding fetch_retry_unfold [OF \<open>i < n\<close>] using Inl True \<open>i < n\<close> by simp
      next
        case False
        with \<open>i < n\<close> Inl "1" show ?thesis
          by (simp add: fetch_retry_unfold [OF \<open>i < n\<close>] upt comp_def)
      qed
    next
      case (Inr d)
      with True show ?thesis by (simp add: fetch_retry_unfold [OF True] upt)
    qed
  qed
qed


lemma fetch_retry_calls:
  "api_calls (snd (fetch_retry up u n delay i s)) \<le> api_calls s + (n - i)"
proof (induction up u n delay i s rule: fetch_retry.induct)
  case (1 up u n delay i s)
  show ?case
  proof (cases "i < n")
    case False
    then show ?thesis by (simp add: fetch_retry.simps)
  next
    case True
    show ?thesis
    proof (cases "parse_api_response (up (api_calls s) u)")
      case (Inl m)
      show ?thesis
      proof (cases "i = n - 1")
        case True
        show ?thesis
          unfolding fetch_retry_unfold [OF \<open>i < n\<close>] using Inl True \<open>i < n\<close> by simp
      next
        case False
        let ?s' = "s\<lparr>api_calls := Suc (api_calls s), clock := clock s + delay\<rparr>"
        have "api_calls (snd (fetch_retry up u n delay (Suc i) ?s')) \<le> api_calls ?s' + (n - Suc i)"
          using "1" \<open>i < n\<close> Inl False by simp
        then show ?thesis
          unfolding fetch_retry_unfold [OF \<open>i < n\<close>] using Inl False \<open>i < n\<close> by simp
      qed
    next
      case (Inr d)
      with True show ?thesis by (simp add: fetch_retry_unfold [OF True])
    qed
  qed
qed

lemma retry_spec_not_None: "rs \<noteq> [] \<Longrightarrow> retry_spec rs \<noteq> None"
  by (induction rs rule: retry_spec.induct) (auto split: sum.split)

text \<open>
  C21: the retry loop of src/unnamed/part_000 (three attempts, one second
  apart) computes what the reference \<open>retry_spec\<close> says of the three successive
  upstream replies: the first valid reply, or the failure of the last attempt.
\<close>

theorem fetchYouTubeData_p000_equiv_spec:
  "fst (fetchYouTubeData_p000 up u s)
   = retry_spec [up (api_calls s) u, up (api_calls s + 1) u, up (api_calls s + 2) u]"
  using fetch_retry_fst [of up u 3 1000 0 s]
  by (simp add: fetchYouTubeData_p000_def upt_rec numeral_eq_Suc del: retry_spec.simps)

text \<open>
  C22: the retrying \<open>fetchYouTubeData\<close> of src/unnamed/part_000 (three
  attempts) always returns a result or an error, never \<open>undefined\<close>, and makes at most
  three upstream calls.
\<close>

theorem fetchYouTubeData_p000_bounded:
  "fst (fetchYouTubeData_p000 up u s) \<noteq> None \<and>
   api_calls (snd (fetchYouTubeData_p000 up u s)) \<le> api_calls s + 3"
proof
  have "fst (fetch_retry up u 3 1000 0 s) = retry_spec (map (\<lambda>j. up (api_calls s + j) u) [0..<3])"
    by (simp only: fetch_retry_fst diff_zero)
  then show "fst (fetchYouTubeData_p000 up u s) \<noteq> None"
    by (simp add: fetchYouTubeData_p000_def retry_spec_not_None del: retry_spec.simps)
  show "api_calls (snd (fetchYouTubeData_p000 up u s)) \<le> api_calls s + 3"
    using fetch_retry_calls [of up u 3 1000 0 s] by (simp add: fetchYouTubeData_p000_def)
qed

end
