(* ===== verification/Manifest.thy ===== *)
theory Manifest
  imports Resolver
begin

text \<open>
  The Manifest Builder: the playlist text the handlers of src/index.js (lines
  141--253) and src/unnamed/part_002 (lines 85--205) build with template literals,
  and the handlers that resolve a video and answer with a playlist or with
  \<open>{error: message}\<close> and status 500. The media playlists (variant and audio)
  declare segments of ten seconds; their count is \<open>Math.ceil(duration / 10)\<close> and
  segment \<open>i\<close> lasts \<open>Math.min(10, duration - i * 10)\<close> seconds, printed with
  \<open>toFixed(3)\<close>. Durations are whole milliseconds. A reader of the playlist text
  (\<open>split_lines\<close>, \<open>playlist_entries\<close>) states what a client parses back.
\<close>

subsection \<open>Segment arithmetic\<close>

definition js_ceil_div :: "int \<Rightarrow> int \<Rightarrow> int" where
  "js_ceil_div a b = - ((- a) div b)"

text \<open>\<open>Math.ceil(duration / segmentDuration)\<close>: no segment for a missing
  (\<open>NaN\<close>), zero or negative duration, as \<open>i < numSegments\<close> then never holds.\<close>

definition num_segments :: "ms option \<Rightarrow> nat" where
  "num_segments dur = (case dur of None \<Rightarrow> 0 | Some d \<Rightarrow> nat (js_ceil_div d 10000))"

definition seg_dur :: "ms \<Rightarrow> nat \<Rightarrow> ms" where
  "seg_dur d i = min 10000 (d - int i * 10000)"

subsection \<open>Playlist text\<close>

definition playlist_header :: string where
  "playlist_header =
     ''#EXTM3U'' @ nl @ ''#EXT-X-VERSION:3'' @ nl @ ''#EXT-X-TARGETDURATION:'' @ string_of_nat 10 @ nl
     @ ''#EXT-X-MEDIA-SEQUENCE:0'' @ nl @ ''#EXT-X-PLAYLIST-TYPE:VOD'' @ nl"

definition extinf_entry :: "(nat \<Rightarrow> string) \<Rightarrow> ms \<Rightarrow> nat \<Rightarrow> string" where
  "extinf_entry uri d i = ''#EXTINF:'' @ fixed3 (seg_dur d i) @ '','' @ nl @ uri i @ nl"

text \<open>The loop \<open>for (let i = 0; i < numSegments; i++) manifest += ...\<close>.\<close>

definition media_playlist :: "(nat \<Rightarrow> string) \<Rightarrow> ms option \<Rightarrow> string" where
  "media_playlist uri dur =
     playlist_header
     @ concat (map (extinf_entry uri (case dur of Some d \<Rightarrow> d | None \<Rightarrow> 0)) [0..<num_segments dur])
     @ ''#EXT-X-ENDLIST'' @ nl"

definition variant_uri :: "string \<Rightarrow> string \<Rightarrow> nat \<Rightarrow> string" where
  "variant_uri vid q i = ''/stream/'' @ vid @ ''/segment'' @ string_of_nat i @ ''_'' @ q @ ''.ts''"

definition audio_uri :: "string \<Rightarrow> nat \<Rightarrow> string" where
  "audio_uri vid i = ''/stream/'' @ vid @ ''/asegment'' @ string_of_nat i @ ''.aac''"

subsection \<open>The master playlist\<close>

fun bandwidth :: "string \<Rightarrow> nat" where
  "bandwidth q =
     (if q = ''360p'' then 800000 else if q = ''480p'' then 1400000
      else if q = ''720p'' then 2800000 else if q = ''1080p'' then 5000000 else 1000000)"

text \<open>\<open>String.prototype.replace\<close> with a one-character pattern: the first occurrence.\<close>

fun js_replace_first :: "char \<Rightarrow> string \<Rightarrow> string \<Rightarrow> string" where
  "js_replace_first c r [] = []"
| "js_replace_first c r (x # xs) = (if x = c then r @ xs else x # js_replace_first c r xs)"

definition stream_inf :: "string \<Rightarrow> string" where
  "stream_inf q =
     ''#EXT-X-STREAM-INF:BANDWIDTH='' @ string_of_nat (bandwidth q)
     @ '',RESOLUTION='' @ js_replace_first (CHR ''p'') '''' q @ ''x'' @ js_num_string (js_parse_int q)
     @ '',CODECS=\"avc1.42e01e,mp4a.40.2\",AUDIO=\"audio\"''"

definition audio_media_line :: "string \<Rightarrow> string" where
  "audio_media_line vid =
     ''#EXT-X-MEDIA:TYPE=AUDIO,GROUP-ID=\"audio\",NAME=\"English\",DEFAULT=YES,AUTOSELECT=YES,URI=\"/stream/''
     @ vid @ ''/audio.m3u8\"''"

definition video_qualities :: "string list" where
  "video_qualities = [''360p'', ''480p'', ''720p'', ''1080p'']"

definition variant_entry :: "string \<Rightarrow> media_format list \<Rightarrow> string \<Rightarrow> string" where
  "variant_entry vid fs q =
     (case find_video q fs of
        None \<Rightarrow> []
      | Some f \<Rightarrow> stream_inf q @ nl @ ''/stream/'' @ vid @ ''/'' @ q @ ''.m3u8'' @ nl)"

definition master_playlist :: "string \<Rightarrow> media_format list \<Rightarrow> string" where
  "master_playlist vid fs =
     ''#EXTM3U'' @ nl @ ''#EXT-X-VERSION:3'' @ nl @ audio_media_line vid @ nl
     @ concat (map (variant_entry vid fs) video_qualities)"

subsection \<open>Handlers\<close>

datatype playlist_response = Playlist string | Json_error nat string

text \<open>\<open>GET /stream/:videoId/master.m3u8\<close> of src/index.js (141--177).\<close>

definition handle_master ::
  "upstream \<Rightarrow> string \<Rightarrow> video_data srv \<Rightarrow> playlist_response \<times> video_data srv" where
  "handle_master up vid s =
     (case getVideoFormats up vid False s of
        (Inl e, s') \<Rightarrow> (Json_error 500 (error_message e), s')
      | (Inr d, s') \<Rightarrow> (Playlist (master_playlist vid (formats d)), s'))"

text \<open>\<open>GET /stream/:videoId/:quality.m3u8\<close> of src/index.js (182--215).\<close>

definition handle_variant ::
  "upstream \<Rightarrow> string \<Rightarrow> string \<Rightarrow> video_data srv \<Rightarrow> playlist_response \<times> video_data srv" where
  "handle_variant up vid q s =
     (case getVideoFormats up vid False s of
        (Inl e, s') \<Rightarrow> (Json_error 500 (error_message e), s')
      | (Inr d, s') \<Rightarrow>
          (case find_video q (formats d) of
             None \<Rightarrow> (Json_error 500 (error_message Format_not_available), s')
           | Some f \<Rightarrow> (Playlist (media_playlist (variant_uri vid q) (duration d)), s')))"

text \<open>\<open>GET /stream/:videoId/audio.m3u8\<close> of src/index.js (220--253).\<close>

definition handle_audio ::
  "upstream \<Rightarrow> string \<Rightarrow> video_data srv \<Rightarrow> playlist_response \<times> video_data srv" where
  "handle_audio up vid s =
     (case getVideoFormats up vid False s of
        (Inl e, s') \<Rightarrow> (Json_error 500 (error_message e), s')
      | (Inr d, s') \<Rightarrow>
          (case find_audio (formats d) of
             None \<Rightarrow> (Json_error 500 (error_message Audio_format_not_available), s')
           | Some f \<Rightarrow> (Playlist (media_playlist (audio_uri vid) (duration d)), s')))"

text \<open>The playlist handlers of src/unnamed/part_002 (85--123, 128--164, 169--205): the
  text of src/index.js, resolved with the expiry-checking \<open>getVideoFormats\<close> of
  that server.\<close>

definition handle_master_p002 ::
  "upstream \<Rightarrow> string \<Rightarrow> video_data srv \<Rightarrow> playlist_response \<times> video_data srv" where
  "handle_master_p002 up vid s =
     (case getVideoFormats_p002 up vid s of
        (Inl e, s') \<Rightarrow> (Json_error 500 (error_message e), s')
      | (Inr d, s') \<Rightarrow> (Playlist (master_playlist vid (formats d)), s'))"

definition handle_variant_p002 ::
  "upstream \<Rightarrow> string \<Rightarrow> string \<Rightarrow> video_data srv \<Rightarrow> playlist_response \<times> video_data srv" where
  "handle_variant_p002 up vid q s =
     (case getVideoFormats_p002 up vid s of
        (Inl e, s') \<Rightarrow> (Json_error 500 (error_message e), s')
      | (Inr d, s') \<Rightarrow>
          (case find_video q (formats d) of
             None \<Rightarrow> (Json_error 500 (error_message Format_not_available), s')
           | Some f \<Rightarrow> (Playlist (media_playlist (variant_uri vid q) (duration d)), s')))"

definition handle_audio_p002 ::
  "upstream \<Rightarrow> string \<Rightarrow> video_data srv \<Rightarrow> playlist_response \<times> video_data srv" where
  "handle_audio_p002 up vid s =
     (case getVideoFormats_p002 up vid s of
        (Inl e, s') \<Rightarrow> (Json_error 500 (error_message e), s')
      | (Inr d, s') \<Rightarrow>
          (case find_audio (formats d) of
             None \<Rightarrow> (Json_error 500 (error_message Audio_format_not_available), s')
           | Some f \<Rightarrow> (Playlist (media_playlist (audio_uri vid) (duration d)), s')))"

text \<open>
  The single-quality playlist of src/unnamed/part_001 (95--136) and of the second
  server of src/unnamed/part_000 (343--379): the header and segments of the variant
  playlist, with segment URIs \<open>/stream/<id>/segment<i>.ts\<close>, built from
  \<open>getVideoUrl(videoId)\<close> at its default quality \<open>720p\<close>. src/unnamed/part_001
  checks the identifier itself first; part_000 does not.
\<close>

definition segment_uri :: "string \<Rightarrow> nat \<Rightarrow> string" where
  "segment_uri vid i = ''/stream/'' @ vid @ ''/segment'' @ string_of_nat i @ ''.ts''"

definition handle_master_p001 ::
  "upstream \<Rightarrow> string \<Rightarrow> url_info srv \<Rightarrow> playlist_response \<times> url_info srv" where
  "handle_master_p001 up vid s =
     (if \<not> valid_video_id vid then (Json_error 500 (error_message Invalid_video_id), s)
      else
        case getVideoUrl_p001 up vid ''720p'' s of
          (Inl e, s') \<Rightarrow> (Json_error 500 (error_message e), s')
        | (Inr v, s') \<Rightarrow> (Playlist (media_playlist (segment_uri vid) (u_duration v)), s'))"

definition handle_master_p000 ::
  "upstream \<Rightarrow> string \<Rightarrow> url_info srv \<Rightarrow> playlist_response \<times> url_info srv" where
  "handle_master_p000 up vid s =
     (case getVideoUrl_p000 up vid ''720p'' s of
        (Inl e, s') \<Rightarrow> (Json_error 500 (error_message e), s')
      | (Inr v, s') \<Rightarrow> (Playlist (media_playlist (segment_uri vid) (u_duration v)), s'))"

subsection \<open>Reading a playlist back\<close>

function split_lines :: "string \<Rightarrow> string list" where
  "split_lines [] = []"
| "split_lines (c # cs) =
     takeWhile (\<lambda>x. x \<noteq> CHR 0x0A) (c # cs) # split_lines (drop 1 (dropWhile (\<lambda>x. x \<noteq> CHR 0x0A) (c # cs)))"
  by pat_completeness auto
termination
proof (relation "measure length")
  fix c :: char and cs :: string
  have "length (dropWhile (\<lambda>x. x \<noteq> CHR 0x0A) (c # cs)) \<le> length (c # cs)"
    by (rule length_dropWhile_le)
  then show "(drop 1 (dropWhile (\<lambda>x. x \<noteq> CHR 0x0A) (c # cs)), c # cs) \<in> measure length"
    by simp
qed simp

text \<open>The lines one quality contributes to the master playlist.\<close>

definition variant_lines :: "string \<Rightarrow> media_format list \<Rightarrow> string \<Rightarrow> string list" where
  "variant_lines vid fs q =
     (if find_video q fs = None then [] else [stream_inf q, ''/stream/'' @ vid @ ''/'' @ q @ ''.m3u8''])"

text \<open>The lines of the playlist header.\<close>

definition playlist_header_lines :: "string list" where
  "playlist_header_lines = [''#EXTM3U'', ''#EXT-X-VERSION:3'', ''#EXT-X-TARGETDURATION:10'',
     ''#EXT-X-MEDIA-SEQUENCE:0'', ''#EXT-X-PLAYLIST-TYPE:VOD'']"

text \<open>The pairs (duration text, URI) of the \<open>#EXTINF:\<close> lines and the line after each.\<close>

fun playlist_entries :: "string list \<Rightarrow> (string \<times> string) list" where
  "playlist_entries (l # u # rest) =
     (if take 8 l = ''#EXTINF:'' then (butlast (drop 8 l), u) # playlist_entries rest
      else playlist_entries (u # rest))"
| "playlist_entries _ = []"

subsection \<open>Segment arithmetic\<close>

lemma int_div_less_iff: "0 < b \<Longrightarrow> (x::int) div b < k \<longleftrightarrow> x < k * b"
proof -
  assume b: "0 < b"
  have e: "x div b * b + x mod b = x" by simp
  have r: "0 \<le> x mod b" "x mod b < b" using b by simp_all
  show ?thesis
  proof
    assume "x div b < k"
    then have "(x div b + 1) * b \<le> k * b" using b by (simp add: mult_right_mono)
    then have "x div b * b + b \<le> k * b" by (simp add: algebra_simps)
    with e r show "x < k * b" by linarith
  next
    assume lt: "x < k * b"
    show "x div b < k"
    proof (rule ccontr)
      assume "\<not> x div b < k"
      then have "k * b \<le> x div b * b" using b by (simp add: mult_right_mono)
      with e r lt show False by linarith
    qed
  qed
qed
lemma lt_js_ceil_div: "int i < js_ceil_div d 10000 \<longleftrightarrow> int i * 10000 < d"
proof -
  have "int i < js_ceil_div d 10000 \<longleftrightarrow> (- d) div 10000 < - int i"
    by (simp add: js_ceil_div_def) linarith
  also have "\<dots> \<longleftrightarrow> - d < - int i * 10000" by (rule int_div_less_iff) simp
  finally show ?thesis by simp
qed

lemma lt_num_segments: "i < num_segments (Some d) \<longleftrightarrow> int i * 10000 < d"
  by (simp add: num_segments_def zless_nat_eq_int_zless lt_js_ceil_div)

lemma num_segments_nonpos: "d \<le> 0 \<Longrightarrow> num_segments (Some d) = 0"
  using lt_num_segments [of 0 d] by simp

lemma num_segments_pos: "0 < d \<Longrightarrow> 0 < num_segments (Some d)"
  using lt_num_segments [of 0 d] by simp

lemma seg_dur_full: "Suc i < num_segments (Some d) \<Longrightarrow> seg_dur d i = 10000"
  by (simp add: lt_num_segments seg_dur_def algebra_simps)

lemma seg_dur_last: "0 < d \<Longrightarrow> seg_dur d (num_segments (Some d) - 1) = d - int (num_segments (Some d) - 1) * 10000"
proof -
  assume "0 < d"
  let ?n = "num_segments (Some d)"
  have "\<not> int ?n * 10000 < d" using lt_num_segments [of ?n d] by simp
  moreover have "0 < ?n" using \<open>0 < d\<close> by (rule num_segments_pos)
  ultimately have "d - int (?n - 1) * 10000 \<le> 10000" by (simp add: of_nat_diff algebra_simps)
  then show ?thesis by (simp add: seg_dur_def)
qed

text \<open>
  C3: for a positive duration \<open>d\<close> (milliseconds), the variant and audio
  playlists of src/index.js declare \<open>ceil(d / 10 s)\<close> segments, each of a duration in
  \<open>(0, 10 s]\<close>; the declared durations add up to \<open>d\<close>, and the last one is
  \<open>d - (count - 1) * 10 s\<close>: no segment overruns the media.
\<close>

theorem segment_durations:
  assumes "0 < d"
  shows "(\<forall>i < num_segments (Some d). 0 < seg_dur d i \<and> seg_dur d i \<le> 10000)
     \<and> sum_list (map (seg_dur d) [0..<num_segments (Some d)]) = d
     \<and> seg_dur d (num_segments (Some d) - 1) = d - int (num_segments (Some d) - 1) * 10000"
proof (intro conjI allI impI)
  let ?n = "num_segments (Some d)"
  fix i assume "i < ?n"
  then show "0 < seg_dur d i" "seg_dur d i \<le> 10000"
    by (simp_all add: lt_num_segments seg_dur_def)
next
  let ?n = "num_segments (Some d)"
  have n: "0 < ?n" using assms by (rule num_segments_pos)
  have "[0..<?n] = [0..<?n - 1] @ [?n - 1]" using n by (metis Suc_diff_1 upt_Suc_append zero_le)
  moreover have "map (seg_dur d) [0..<?n - 1] = replicate (?n - 1) 10000"
    by (rule nth_equalityI) (auto simp: seg_dur_full)
  moreover have "seg_dur d (?n - 1) = d - int (?n - 1) * 10000"
    using assms by (rule seg_dur_last)
  ultimately show "sum_list (map (seg_dur d) [0..<?n]) = d"
    using n by (simp add: sum_list_replicate of_nat_diff algebra_simps)
next
  show "seg_dur d (num_segments (Some d) - 1) = d - int (num_segments (Some d) - 1) * 10000"
    using assms by (rule seg_dur_last)
qed

subsection \<open>The playlist text, line by line\<close>

lemma split_lines_line:
  "no_nl l \<Longrightarrow> split_lines (l @ nl @ rest) = l # split_lines rest"
proof (cases l)
  case Nil
  then show ?thesis by (simp add: nl_def)
next
  case (Cons c cs)
  assume "no_nl l"
  then have "takeWhile (\<lambda>x. x \<noteq> CHR 0x0A) (l @ nl @ rest) = l
    \<and> dropWhile (\<lambda>x. x \<noteq> CHR 0x0A) (l @ nl @ rest) = nl @ rest"
    by (induction l) (auto simp: no_nl_def nl_def)
  with Cons show ?thesis by (simp add: nl_def)
qed

lemma split_lines_lines:
  "list_all no_nl ls \<Longrightarrow> split_lines (concat (map (\<lambda>l. l @ nl) ls)) = ls"
  by (induction ls) (simp_all add: split_lines_line)

lemma playlist_entries_skip:
  "list_all (\<lambda>l. take 8 l \<noteq> ''#EXTINF:'') h \<Longrightarrow> playlist_entries (h @ rest) = playlist_entries rest"
proof (induction h)
  case Nil
  then show ?case by simp
next
  case (Cons l h)
  then show ?case
    by (cases "h @ rest") (auto simp: Cons_eq_append_conv)
qed

lemma playlist_entries_pairs:
  "playlist_entries (concat (map (\<lambda>i. [''#EXTINF:'' @ f i @ '','', u i]) is) @ [''#EXT-X-ENDLIST''])
   = map (\<lambda>i. (f i, u i)) is"
  by (induction "is") simp_all

lemma lines_pairs:
  "concat (map (\<lambda>l. l @ nl) (concat (map (\<lambda>i. [a i, b i]) is))) = concat (map (\<lambda>i. a i @ nl @ b i @ nl) is)"
  by (induction "is") simp_all

lemma string_of_nat_10: "string_of_nat 10 = ''10''"
  by (simp add: string_of_nat.simps js_simps)

lemma media_playlist_lines:
  "media_playlist uri (Some d) = concat (map (\<lambda>l. l @ nl)
     (playlist_header_lines
      @ concat (map (\<lambda>i. [''#EXTINF:'' @ fixed3 (seg_dur d i) @ '','', uri i]) [0..<num_segments (Some d)])
      @ [''#EXT-X-ENDLIST'']))"
  by (simp add: media_playlist_def playlist_header_def playlist_header_lines_def
      extinf_entry_def [abs_def] lines_pairs string_of_nat_10)

lemma no_nl_valid_id: "valid_video_id vid \<Longrightarrow> no_nl vid"
  by (auto simp: no_nl_def dest: valid_video_id_no_special)

lemma media_playlist_entries:
  assumes "\<And>i. no_nl (uri i)"
  shows "playlist_entries (split_lines (media_playlist uri (Some d)))
         = map (\<lambda>i. (fixed3 (seg_dur d i), uri i)) [0..<num_segments (Some d)]"
proof -
  let ?ls = "playlist_header_lines
      @ concat (map (\<lambda>i. [''#EXTINF:'' @ fixed3 (seg_dur d i) @ '','', uri i]) [0..<num_segments (Some d)])
      @ [''#EXT-X-ENDLIST'']"
  have "list_all no_nl ?ls"
    using assms by (auto simp: playlist_header_lines_def list_all_iff)
  then have "split_lines (media_playlist uri (Some d)) = ?ls"
    unfolding media_playlist_lines by (rule split_lines_lines)
  moreover have "list_all (\<lambda>l. take 8 l \<noteq> ''#EXTINF:'') playlist_header_lines"
    by (simp add: playlist_header_lines_def)
  ultimately show ?thesis
    by (simp only: playlist_entries_skip playlist_entries_pairs)
qed

lemma no_nl_variant_uri: "valid_video_id vid \<Longrightarrow> no_nl q \<Longrightarrow> no_nl (variant_uri vid q i)"
  by (simp add: variant_uri_def no_nl_valid_id)

lemma no_nl_audio_uri: "valid_video_id vid \<Longrightarrow> no_nl (audio_uri vid i)"
  by (simp add: audio_uri_def no_nl_valid_id)

text \<open>
  C4: reading back the variant playlist text of src/index.js line by line
  (each \<open>#EXTINF:\<close> line and the URI line after it) gives, in order, one pair per
  segment \<open>i\<close>: its duration printed with \<open>toFixed(3)\<close> and the URI
  \<open>/stream/<id>/segment<i>_<quality>.ts\<close>; no header line is mistaken for an entry.
\<close>

theorem variant_playlist_roundtrip:
  assumes "valid_video_id vid" "CHR 0x0A \<notin> set q"
  shows "playlist_entries (split_lines (media_playlist (variant_uri vid q) (Some d)))
         = map (\<lambda>i. (fixed3 (seg_dur d i), variant_uri vid q i)) [0..<num_segments (Some d)]"
proof -
  have "no_nl q" using assms(2) by (simp add: no_nl_def)
  with assms(1) show ?thesis by (simp add: media_playlist_entries no_nl_variant_uri)
qed

subsection \<open>The master playlist, line by line\<close>

lemma lines_concat:
  "concat (map (\<lambda>l. l @ nl) (concat xss)) = concat (map (\<lambda>ls. concat (map (\<lambda>l. l @ nl) ls)) xss)"
  by (induction xss) simp_all

lemma variant_entry_lines:
  "variant_entry vid fs q = concat (map (\<lambda>l. l @ nl) (variant_lines vid fs q))"
  by (simp add: variant_entry_def variant_lines_def split: option.split)

lemma variant_entry_fun:
  "variant_entry vid fs = (\<lambda>q. concat (map (\<lambda>l. l @ nl) (variant_lines vid fs q)))"
  by (rule ext) (rule variant_entry_lines)

lemma master_playlist_lines:
  "master_playlist vid fs = concat (map (\<lambda>l. l @ nl)
     ([''#EXTM3U'', ''#EXT-X-VERSION:3'', audio_media_line vid]
      @ concat (map (variant_lines vid fs) video_qualities)))"
  by (simp add: master_playlist_def lines_concat variant_entry_fun comp_def)

lemma js_replace_first_first: "c \<notin> set s \<Longrightarrow> js_replace_first c r (s @ c # t) = s @ r @ t"
  by (induction s) auto

lemma no_nl_js_replace_first: "no_nl s \<Longrightarrow> no_nl r \<Longrightarrow> no_nl (js_replace_first c r s)"
  by (induction s) auto

lemma no_nl_string_of_int [simp]: "no_nl (string_of_int i)"
  by (simp add: string_of_int_def)

lemma no_nl_stream_inf: "no_nl q \<Longrightarrow> no_nl (stream_inf q)"
  by (simp add: stream_inf_def no_nl_js_replace_first js_num_string_def split: option.split)

lemma no_nl_audio_media_line: "no_nl vid \<Longrightarrow> no_nl (audio_media_line vid)"
  by (simp add: audio_media_line_def)

lemma video_qualities_no_nl: "q \<in> set video_qualities \<Longrightarrow> no_nl q"
  by (auto simp: video_qualities_def)

text \<open>
  C31: the URIs the master playlist of src/index.js lists are exactly the
  variant playlists \<open>/stream/<id>/<q>.m3u8\<close> of the qualities among 360p, 480p, 720p,
  1080p (in that order) for which a combined audio+video format with that label exists.
\<close>

theorem master_playlist_variants:
  assumes "valid_video_id vid"
  shows "filter (\<lambda>l. take 1 l = ''/'') (split_lines (master_playlist vid fs))
         = map (\<lambda>q. ''/stream/'' @ vid @ ''/'' @ q @ ''.m3u8'') (filter (\<lambda>q. find_video q fs \<noteq> None) video_qualities)"
proof -
  have v: "no_nl vid" using assms by (rule no_nl_valid_id)
  have "list_all no_nl ([''#EXTM3U'', ''#EXT-X-VERSION:3'', audio_media_line vid]
      @ concat (map (variant_lines vid fs) video_qualities))"
    using v by (auto simp: list_all_iff variant_lines_def no_nl_audio_media_line no_nl_stream_inf
        video_qualities_no_nl split: if_splits)
  then have "split_lines (master_playlist vid fs) = [''#EXTM3U'', ''#EXT-X-VERSION:3'', audio_media_line vid]
      @ concat (map (variant_lines vid fs) video_qualities)"
    unfolding master_playlist_lines by (rule split_lines_lines)
  moreover have "filter (\<lambda>l. take 1 l = ''/'') (concat (map (variant_lines vid fs) qs))
      = map (\<lambda>q. ''/stream/'' @ vid @ ''/'' @ q @ ''.m3u8'') (filter (\<lambda>q. find_video q fs \<noteq> None) qs)" for qs
    by (induction qs) (simp_all add: variant_lines_def stream_inf_def)
  ultimately show ?thesis by (simp add: audio_media_line_def)
qed

lemma digits_no_p: "\<forall>c \<in> set s. is_digit c \<Longrightarrow> CHR ''p'' \<notin> set s"
  by (auto simp: is_digit_def)

text \<open>
  C32: for a quality label \<open><h>p\<close>, the master playlist of src/index.js
  declares \<open>RESOLUTION=<h>x<h>\<close>: \<open>q.replace('p','')\<close> and \<open>parseInt(q)\<close> both give
  the height, so the declared resolution is square rather than width by height.
\<close>

theorem stream_inf_square_resolution:
  "js_includes (stream_inf (string_of_nat h @ ''p''))
     (''RESOLUTION='' @ string_of_nat h @ ''x'' @ string_of_nat h @ '','')"
proof -
  have "js_replace_first (CHR ''p'') [] (string_of_nat h @ ''p'') = string_of_nat h"
    using js_replace_first_first [OF digits_no_p [OF string_of_nat_digits [of h]], of "[]" "[]"]
    by simp
  moreover have "js_parse_int (string_of_nat h @ ''p'') = Some (int h)"
    by (rule js_parse_int_string_of_nat_append) (simp add: is_digit_def)
  ultimately have eq: "stream_inf (string_of_nat h @ ''p'') =
      (''#EXT-X-STREAM-INF:BANDWIDTH='' @ string_of_nat (bandwidth (string_of_nat h @ ''p'')) @ '','')
      @ (''RESOLUTION='' @ string_of_nat h @ ''x'' @ string_of_nat h @ '','')
      @ ''CODECS=\"avc1.42e01e,mp4a.40.2\",AUDIO=\"audio\"''"
    by (simp add: stream_inf_def js_num_string_def string_of_int_def)
  show ?thesis unfolding eq by (rule js_includes_append_left)
qed


subsection \<open>Handlers\<close>

lemma handle_variant_branches:
  "getVideoFormats up vid False s = (Inr d, s') \<Longrightarrow>
   handle_variant up vid q s =
     (case find_video q (formats d) of
        None \<Rightarrow> (Json_error 500 ''Format not available'', s')
      | Some f \<Rightarrow> (Playlist (media_playlist (variant_uri vid q) (duration d)), s'))"
  by (simp add: handle_variant_def split: option.split)

text \<open>
  The variant playlist handler of src/index.js answers an identifier
  outside the grammar with status 500 and \<open>Invalid YouTube video ID\<close>, before any
  upstream call; the spec asks for a 400-class \<open>InvalidIdentifier\<close>.
\<close>

theorem handle_variant_invalid_id:
  "\<not> valid_video_id vid \<Longrightarrow>
   handle_variant up vid q s = (Json_error 500 (error_message Invalid_video_id), s)"
  by (simp add: handle_variant_def getVideoFormats_def)

text \<open>
  C35: the variant playlist handler of src/index.js answers 500
  \<open>Format not available\<close> whenever no combined format's label contains the requested
  quality, even when the fallback of the spec's selection policy (the first combined
  format, \<open>select_format\<close>) would find one.
\<close>

theorem handle_variant_no_fallback:
  assumes "getVideoFormats up vid False s = (Inr d, s')" "find_video q (formats d) = None"
    and "select_format q (formats d) = Some f"
  shows "handle_variant up vid q s = (Json_error 500 ''Format not available'', s')"
  using handle_variant_branches [OF assms(1)] assms(2) by simp

lemma media_playlist_None:
  "media_playlist uri None = playlist_header @ ''#EXT-X-ENDLIST'' @ nl"
  by (simp add: media_playlist_def num_segments_def)
end
