(* ===== verification/Segment.thy ===== *)
theory Segment
  imports Resolver
begin

text \<open>
  The Segment Synthesizer up to the spawn of ffmpeg: the segment handlers parse the
  segment number with \<open>parseInt\<close>, resolve the video, select the format, compute
  the start offset \<open>segIndex * 10\<close> and build ffmpeg's argument list. In
  src/index.js, \<open>runFFmpeg\<close> (86--136) first refreshes an expired URL by a forced
  resolution and a search for the format of the same quality and type; in
  src/unnamed/part_002, \<open>runFFmpeg\<close> (210--243) takes the URL as it is; in
  src/unnamed/part_001 the handler (139--245) validates the segment number and the
  identifier first. What happens after the spawn (output, exit, disconnection) is the
  step relation of theory \<open>Lifecycle\<close>.
\<close>

datatype seg_response =
    Seg_error error                      \<comment> \<open>\<open>res.status(500).json({error: err.message})\<close>\<close>
  | Seg_spawn "string list" string       \<comment> \<open>ffmpeg's arguments and the response content type\<close>

subsection \<open>ffmpeg's arguments\<close>

definition ffmpeg_args :: "js_int \<Rightarrow> nat \<Rightarrow> string \<Rightarrow> bool \<Rightarrow> string list" where
  "ffmpeg_args start dur u is_audio =
     [''-hide_banner'', ''-loglevel'', ''error'', ''-ss'', js_num_string start,
      ''-t'', string_of_nat dur, ''-i'', u,
      ''-reconnect'', ''1'', ''-reconnect_streamed'', ''1'', ''-reconnect_delay_max'', ''5'']
     @ (if is_audio then [''-c:a'', ''aac'', ''-vn'', ''-f'', ''adts'', ''pipe:1'']
        else [''-c:v'', ''libx264'', ''-preset'', ''veryfast'', ''-c:a'', ''aac'', ''-f'', ''mpegts'', ''pipe:1''])"

definition origin_headers :: string where
  "origin_headers =
     ''User-Agent: Mozilla/5.0 (Windows NT 10.0; Win64; x64) AppleWebKit/537.36 Chrome/118 Safari/537.36''
     @ [CHR 0x0D, CHR 0x0A] @ ''Referer: https://www.youtube.com/''
     @ [CHR 0x0D, CHR 0x0A] @ ''Origin: https://www.youtube.com/''"

definition ffmpeg_args_p002 :: "js_int \<Rightarrow> nat \<Rightarrow> string \<Rightarrow> bool \<Rightarrow> string list" where
  "ffmpeg_args_p002 start dur u is_audio =
     [''-ss'', js_num_string start, ''-t'', string_of_nat dur, ''-headers'', origin_headers, ''-i'', u]
     @ (if is_audio then [''-c:a'', ''aac'', ''-vn'', ''-f'', ''adts'', ''pipe:1'']
        else [''-c:v'', ''libx264'', ''-preset'', ''veryfast'', ''-c:a'', ''aac'', ''-f'', ''mpegts'', ''pipe:1''])"

definition ffmpeg_args_p001 :: "int \<Rightarrow> string \<Rightarrow> string list" where
  "ffmpeg_args_p001 start u =
     [''-i'', u, ''-ss'', string_of_int start, ''-t'', string_of_nat 10,
      ''-c:v'', ''copy'', ''-c:a'', ''copy'', ''-f'', ''mpegts'', ''pipe:'']"

text \<open>The URL given to ffmpeg: the argument after \<open>-i\<close>.\<close>

fun input_url :: "string list \<Rightarrow> string option" where
  "input_url (a # b # rest) = (if a = ''-i'' then Some b else input_url (b # rest))"
| "input_url _ = None"

text \<open>The start offset given to ffmpeg: the argument after \<open>-ss\<close>.\<close>

fun seek_arg :: "string list \<Rightarrow> string option" where
  "seek_arg (a # b # rest) = (if a = ''-ss'' then Some b else seek_arg (b # rest))"
| "seek_arg _ = None"

text \<open>The length of the clip given to ffmpeg: the argument after \<open>-t\<close>.\<close>

fun clip_arg :: "string list \<Rightarrow> string option" where
  "clip_arg (a # b # rest) = (if a = ''-t'' then Some b else clip_arg (b # rest))"
| "clip_arg _ = None"

subsection \<open>\<open>runFFmpeg\<close> of src/index.js\<close>

text \<open>
  The format of the same quality and type in a refreshed format list
  (\<open>f.quality === format.quality && f.type === format.type\<close>).
\<close>

definition fresh_format :: "media_format \<Rightarrow> media_format list \<Rightarrow> media_format option" where
  "fresh_format fmt fs = find (\<lambda>f. quality f = quality fmt \<and> ftype f = ftype fmt) fs"

text \<open>
  The part of \<open>runFFmpeg\<close> before the spawn: the URL refresh and the arguments. An
  error of the forced resolution propagates to the handler's \<open>catch\<close>.
\<close>

definition runFFmpeg ::
  "upstream \<Rightarrow> string \<Rightarrow> media_format \<Rightarrow> js_int \<Rightarrow> nat \<Rightarrow> bool \<Rightarrow> video_data srv
   \<Rightarrow> (error + string list) \<times> video_data srv" where
  "runFFmpeg up vid fmt start dur is_audio s =
     (case format_expired (clock s) fmt of
        Inl e \<Rightarrow> (Inl e, s)
      | Inr expired \<Rightarrow>
          let (r, s') = (if expired then
                           (case getVideoFormats up vid True s of
                              (Inl e, s1) \<Rightarrow> (Inl e, s1)
                            | (Inr d, s1) \<Rightarrow>
                                (Inr (case fresh_format fmt (formats d) of None \<Rightarrow> fmt | Some f \<Rightarrow> f), s1))
                         else (Inr fmt, s))
          in case r of
               Inl e \<Rightarrow> (Inl e, s')
             | Inr f \<Rightarrow>
                 (case furl f of
                    None \<Rightarrow> (Inl Invalid_arg_type, s')
                  | Some u \<Rightarrow> (Inr (ffmpeg_args start dur u is_audio), s')))"

text \<open>\<open>GET /stream/:videoId/segment:segNum_:quality.ts\<close> of src/index.js (258--274).\<close>

definition handle_segment ::
  "upstream \<Rightarrow> string \<Rightarrow> string \<Rightarrow> string \<Rightarrow> video_data srv \<Rightarrow> seg_response \<times> video_data srv" where
  "handle_segment up vid segNum q s =
     (let segIndex = js_parse_int segNum in
      case getVideoFormats up vid False s of
        (Inl e, s') \<Rightarrow> (Seg_error e, s')
      | (Inr d, s') \<Rightarrow>
          (case find_video q (formats d) of
             None \<Rightarrow> (Seg_error Format_not_available, s')
           | Some f \<Rightarrow>
               (case runFFmpeg up vid f (map_option (\<lambda>i. i * 10) segIndex) 10 False s' of
                  (Inl e, s'') \<Rightarrow> (Seg_error e, s'')
                | (Inr args, s'') \<Rightarrow> (Seg_spawn args ''video/mp2t'', s''))))"

text \<open>\<open>GET /stream/:videoId/asegment:segNum.aac\<close> of src/index.js (276--292).\<close>

definition handle_asegment ::
  "upstream \<Rightarrow> string \<Rightarrow> string \<Rightarrow> video_data srv \<Rightarrow> seg_response \<times> video_data srv" where
  "handle_asegment up vid segNum s =
     (let segIndex = js_parse_int segNum in
      case getVideoFormats up vid False s of
        (Inl e, s') \<Rightarrow> (Seg_error e, s')
      | (Inr d, s') \<Rightarrow>
          (case find_audio (formats d) of
             None \<Rightarrow> (Seg_error Audio_format_not_available, s')
           | Some f \<Rightarrow>
               (case runFFmpeg up vid f (map_option (\<lambda>i. i * 10) segIndex) 10 True s' of
                  (Inl e, s'') \<Rightarrow> (Seg_error e, s'')
                | (Inr args, s'') \<Rightarrow> (Seg_spawn args ''audio/aac'', s''))))"

subsection \<open>The segment handlers of src/unnamed/part_002\<close>

text \<open>
  \<open>runFFmpeg(format.url, ...)\<close> (210--243) spawns at once; the handlers (246--283)
  resolve with the expiry-checking \<open>getVideoFormats\<close> of that server.
\<close>

definition handle_segment_p002 ::
  "upstream \<Rightarrow> string \<Rightarrow> string \<Rightarrow> string \<Rightarrow> video_data srv \<Rightarrow> seg_response \<times> video_data srv" where
  "handle_segment_p002 up vid segNum q s =
     (let segIndex = js_parse_int segNum in
      case getVideoFormats_p002 up vid s of
        (Inl e, s') \<Rightarrow> (Seg_error e, s')
      | (Inr d, s') \<Rightarrow>
          (case find_video q (formats d) of
             None \<Rightarrow> (Seg_error Format_not_available, s')
           | Some f \<Rightarrow>
               (case furl f of
                  None \<Rightarrow> (Seg_error Invalid_arg_type, s')
                | Some u \<Rightarrow>
                    (Seg_spawn (ffmpeg_args_p002 (map_option (\<lambda>i. i * 10) segIndex) 10 u False)
                       ''video/mp2t'', s'))))"

definition handle_asegment_p002 ::
  "upstream \<Rightarrow> string \<Rightarrow> string \<Rightarrow> video_data srv \<Rightarrow> seg_response \<times> video_data srv" where
  "handle_asegment_p002 up vid segNum s =
     (let segIndex = js_parse_int segNum in
      case getVideoFormats_p002 up vid s of
        (Inl e, s') \<Rightarrow> (Seg_error e, s')
      | (Inr d, s') \<Rightarrow>
          (case find_audio (formats d) of
             None \<Rightarrow> (Seg_error Audio_format_not_available, s')
           | Some f \<Rightarrow>
               (case furl f of
                  None \<Rightarrow> (Seg_error Invalid_arg_type, s')
                | Some u \<Rightarrow>
                    (Seg_spawn (ffmpeg_args_p002 (map_option (\<lambda>i. i * 10) segIndex) 10 u True)
                       ''audio/aac'', s'))))"

subsection \<open>The segment handler of src/unnamed/part_001\<close>

text \<open>
  Lines 139--245: the segment number must parse to a non-negative integer and the
  identifier must match the grammar before anything is resolved; the URL comes from
  \<open>getVideoUrl\<close> at its default quality \<open>720p\<close>.
\<close>

definition handle_segment_p001 ::
  "upstream \<Rightarrow> string \<Rightarrow> string \<Rightarrow> url_info srv \<Rightarrow> seg_response \<times> url_info srv" where
  "handle_segment_p001 up vid segNum s =
     (case js_parse_int segNum of
        None \<Rightarrow> (Seg_error Invalid_segment_number, s)
      | Some i \<Rightarrow>
          if i < 0 then (Seg_error Invalid_segment_number, s)
          else if \<not> valid_video_id vid then (Seg_error Invalid_video_id, s)
          else
            (case getVideoUrl_p001 up vid ''720p'' s of
               (Inl e, s') \<Rightarrow> (Seg_error e, s')
             | (Inr v, s') \<Rightarrow>
                 (case u_url v of
                    None \<Rightarrow> (Seg_error Invalid_arg_type, s')
                  | Some u \<Rightarrow> (Seg_spawn (ffmpeg_args_p001 (i * 10) u) ''video/mp2t'', s'))))"

subsection \<open>The segment handler of src/unnamed/part_000\<close>

text \<open>
  The second server of src/unnamed/part_000 (382--440) validates nothing: the
  start offset may be \<open>NaN\<close>, and it spawns \<open>ffmpeg\<close> from the path with its own
  argument list. An absent URL makes \<open>spawn\<close> throw a \<open>TypeError\<close>, answered 500.
\<close>

definition ffmpeg_args_p000 :: "js_int \<Rightarrow> string \<Rightarrow> string list" where
  "ffmpeg_args_p000 start u =
     [''-ss'', js_num_string start, ''-i'', u, ''-t'', string_of_nat 10,
      ''-c:v'', ''copy'', ''-c:a'', ''aac'', ''-b:a'', ''128k'', ''-f'', ''mpegts'',
      ''-avoid_negative_ts'', ''make_zero'', ''pipe:1'']"

definition handle_segment_p000 ::
  "upstream \<Rightarrow> string \<Rightarrow> string \<Rightarrow> url_info srv \<Rightarrow> seg_response \<times> url_info srv" where
  "handle_segment_p000 up vid segNum s =
     (let segIndex = js_parse_int segNum in
      case getVideoUrl_p000 up vid ''720p'' s of
        (Inl e, s') \<Rightarrow> (Seg_error e, s')
      | (Inr v, s') \<Rightarrow>
          (case u_url v of
             None \<Rightarrow> (Seg_error Invalid_arg_type, s')
           | Some u \<Rightarrow>
               (Seg_spawn (ffmpeg_args_p000 (map_option (\<lambda>i. i * 10) segIndex) u) ''video/mp2t'', s')))"

subsection \<open>Lemmas\<close>

lemma string_of_nat_not_flag:
  "string_of_nat n \<noteq> ''-i'' \<and> string_of_nat n \<noteq> ''i'' \<and> string_of_nat n \<noteq> ''-t'' \<and> string_of_nat n \<noteq> ''t''"
  using string_of_nat_digits [of n] by (auto simp: is_digit_def)

lemma js_num_string_not_flag [simp]: "js_num_string x \<noteq> ''-i''" "js_num_string x \<noteq> ''-t''"
  using string_of_nat_not_flag by (auto simp: js_num_string_def string_of_int_def split: option.split)

lemma string_of_nat_not_flag' [simp]: "string_of_nat n \<noteq> ''-i''"
  using string_of_nat_not_flag by blast

lemma input_url_ffmpeg_args [simp]: "input_url (ffmpeg_args start dur u a) = Some u"
  by (simp add: ffmpeg_args_def)

lemma seek_arg_ffmpeg_args [simp]: "seek_arg (ffmpeg_args start dur u a) = Some (js_num_string start)"
  by (simp add: ffmpeg_args_def)

lemma string_of_nat_ten: "string_of_nat 10 = ''10''"
  by (simp add: string_of_nat.simps digit_char_def)

lemma clip_arg_ffmpeg_args [simp]: "clip_arg (ffmpeg_args start dur u a) = Some (string_of_nat dur)"
  by (simp add: ffmpeg_args_def)

lemma runFFmpeg_unexpired:
  "furl fmt = Some u \<Longrightarrow> \<not> isUrlExpired (clock s) u \<Longrightarrow>
   runFFmpeg up vid fmt start dur a s = (Inr (ffmpeg_args start dur u a), s)"
  by (simp add: runFFmpeg_def format_expired_def)

lemma runFFmpeg_expired:
  assumes "furl fmt = Some u" "isUrlExpired (clock s) u" "valid_video_id vid"
    and "fetchYouTubeData (up (api_calls s) (watch_url vid)) = Inr d"
  shows "runFFmpeg up vid fmt start dur a s =
     (let f = (case fresh_format fmt (filter has_url (formats d)) of None \<Rightarrow> fmt | Some f \<Rightarrow> f);
          s' = s\<lparr>api_calls := Suc (api_calls s),
                  cache := cache_set (clock s) 18000000 (vid @ ''_formats'')
                             (d\<lparr>formats := filter has_url (formats d)\<rparr>) (cache s)\<rparr>
      in case furl f of None \<Rightarrow> (Inl Invalid_arg_type, s') | Some u' \<Rightarrow> (Inr (ffmpeg_args start dur u' a), s'))"
  using assms
  by (simp add: runFFmpeg_def format_expired_def getVideoFormats_def call_upstream_def Let_def
      split: option.split)

lemma find_Some_set: "find P xs = Some x \<Longrightarrow> x \<in> set xs"
  by (induction xs) (auto split: if_splits)

text \<open>
  C5: when the URL of the selected format is expired (or within the
  five-minute margin), \<open>runFFmpeg\<close> of src/index.js makes exactly one upstream call and,
  when the refreshed list has a format of the same quality and type, hands that
  format's URL to ffmpeg (the argument after \<open>-i\<close>), not the stale one.
\<close>

theorem runFFmpeg_refreshes_expired:
  assumes "furl fmt = Some u" "isUrlExpired (clock s) u" "valid_video_id vid"
    and "fetchYouTubeData (up (api_calls s) (watch_url vid)) = Inr d"
    and "fresh_format fmt (filter has_url (formats d)) = Some f"
  shows "\<exists>args s'. runFFmpeg up vid fmt start dur a s = (Inr args, s')
           \<and> input_url args = furl f \<and> api_calls s' = Suc (api_calls s)"
proof -
  have "has_url f"
    using find_Some_set [OF assms(5) [unfolded fresh_format_def]] by simp
  then obtain u' where "furl f = Some u'" by (cases "furl f") (auto simp: has_url_def truthy_def)
  with runFFmpeg_expired [where up = up and d = d, OF assms(1-4)] assms(5) show ?thesis by simp
qed

text \<open>
  C23: when the refreshed format list has no format of the same quality and
  type, \<open>runFFmpeg\<close> of src/index.js hands the expired URL to ffmpeg anyway: the
  spec's rule that a stale URL is never used is not enforced on this path.
\<close>

theorem runFFmpeg_keeps_stale_url:
  assumes "furl fmt = Some u" "isUrlExpired (clock s) u" "valid_video_id vid"
    and "fetchYouTubeData (up (api_calls s) (watch_url vid)) = Inr d"
    and "fresh_format fmt (filter has_url (formats d)) = None"
  shows "\<exists>args s'. runFFmpeg up vid fmt start dur a s = (Inr args, s') \<and> input_url args = Some u"
  using runFFmpeg_expired [where up = up and d = d, OF assms(1-4)] assms(1,5) by simp

lemma runFFmpeg_args:
  "runFFmpeg up vid fmt start dur a s = (Inr args, s') \<Longrightarrow> \<exists>u. args = ffmpeg_args start dur u a"
  by (auto simp: runFFmpeg_def Let_def split: sum.splits bool.splits prod.splits option.splits if_splits)

text \<open>What \<open>handle_segment\<close> does once the video resolves to a combined format of
  the requested quality whose URL is not expired.\<close>

lemma handle_segment_resolved:
  assumes "getVideoFormats up vid False s = (Inr d, s1)" "find_video q (formats d) = Some f"
    "furl f = Some u" "\<not> isUrlExpired (clock s1) u"
  shows "handle_segment up vid segNum q s
         = (Seg_spawn (ffmpeg_args (map_option (\<lambda>i. i * 10) (js_parse_int segNum)) 10 u False) ''video/mp2t'', s1)"
  using assms by (simp add: handle_segment_def runFFmpeg_unexpired)

text \<open>
  C24: a video segment request of src/index.js for segment number \<open>i\<close> (the
  decimal numeral, as the playlist writes it), once the video resolves to a format
  of the requested quality with a live URL, spawns ffmpeg on that URL, seeking to
  \<open>10 * i\<close> seconds and clipping 10 seconds, and declares the response
  \<open>video/mp2t\<close>.
\<close>

theorem handle_segment_seek:
  assumes "getVideoFormats up vid False s = (Inr d, s1)" "find_video q (formats d) = Some f"
    "furl f = Some u" "\<not> isUrlExpired (clock s1) u"
  shows "\<exists>args. handle_segment up vid (string_of_nat i) q s = (Seg_spawn args ''video/mp2t'', s1)
           \<and> input_url args = Some u \<and> seek_arg args = Some (string_of_nat (10 * i))
           \<and> clip_arg args = Some ''10''"
  using handle_segment_resolved [OF assms]
  by (simp add: js_num_string_def string_of_int_def mult.commute nat_mult_distrib string_of_nat_ten)

lemma handle_asegment_seek:
  "handle_asegment up vid (string_of_nat i) s = (Seg_spawn args ct, s') \<Longrightarrow>
   seek_arg args = Some (string_of_nat (10 * i)) \<and> ct = ''audio/aac''"
  by (auto simp: handle_asegment_def js_num_string_def string_of_int_def mult.commute nat_mult_distrib
      dest!: runFFmpeg_args split: prod.splits sum.splits option.splits)

text \<open>
  C25: src/index.js does not validate the segment number: for a number that
  \<open>parseInt\<close> cannot read, once the video resolves to a format with a live URL,
  the handler still spawns ffmpeg, with \<open>-ss NaN\<close>, where the spec asks for
  \<open>InvalidSegmentIndex\<close>.
\<close>

theorem handle_segment_nan_seek:
  assumes "js_parse_int segNum = None"
    "getVideoFormats up vid False s = (Inr d, s1)" "find_video q (formats d) = Some f"
    "furl f = Some u" "\<not> isUrlExpired (clock s1) u"
  shows "\<exists>args. handle_segment up vid segNum q s = (Seg_spawn args ''video/mp2t'', s1)
           \<and> seek_arg args = Some ''NaN''"
  using handle_segment_resolved [OF assms(2-5), of segNum] assms(1) by (simp add: js_num_string_def)

text \<open>
  C26: the segment handler of src/unnamed/part_001 rejects a segment
  number that is not a number or is negative with \<open>Invalid segment number\<close>, before
  any validation of the identifier or upstream call.
\<close>

theorem handle_segment_p001_rejects_index:
  "(case js_parse_int segNum of None \<Rightarrow> True | Some i \<Rightarrow> i < 0) \<Longrightarrow>
   handle_segment_p001 up vid segNum s = (Seg_error Invalid_segment_number, s)"
  by (simp add: handle_segment_p001_def split: option.splits)

end
