(* ===== verification/Router.thy ===== *)
theory Router
  imports Route_Match Manifest Segment
begin

text \<open>
  The HTTP surface: the route tables of the servers (the \<open>app.get\<close> calls of
  src/index.js, src/unnamed/part_002, src/unnamed/part_001 and the second server of
  src/unnamed/part_000, in registration order), dispatched with Express's matcher of
  \<open>Route_Match\<close>, and a whole request of each server: the handler of the first
  matching route applied to the route parameters it reads. \<open>req.params.x\<close> of a
  name the pattern does not declare is \<open>undefined\<close>, which \<open>parseInt\<close> reads as the
  string \<open>"undefined"\<close>. Percent-decoding of parameters and query strings are not
  modelled: the URIs the servers generate contain neither.
\<close>

subsection \<open>The route tables\<close>

datatype handler = H_master | H_variant | H_audio | H_segment | H_asegment | H_info | H_home

text \<open>src/index.js (141, 182, 220, 258, 276, 297); src/unnamed/part_002 registers the
  same patterns in the same order (85, 128, 169, 246, 266, 288).\<close>

definition routes_index :: "(string \<times> handler) list" where
  "routes_index =
     [(''/stream/:videoId/master.m3u8'', H_master),
      (''/stream/:videoId/:quality.m3u8'', H_variant),
      (''/stream/:videoId/audio.m3u8'', H_audio),
      (''/stream/:videoId/segment:segNum_:quality.ts'', H_segment),
      (''/stream/:videoId/asegment:segNum.aac'', H_asegment),
      (''/'', H_home)]"

text \<open>src/unnamed/part_001 (95, 139, 248, 265) and the second server of
  src/unnamed/part_000 (343, 382, 443, 455).\<close>

definition routes_p001 :: "(string \<times> handler) list" where
  "routes_p001 =
     [(''/stream/:videoId/master.m3u8'', H_master),
      (''/stream/:videoId/segment:segNum.ts'', H_segment),
      (''/api/info/:videoId'', H_info),
      (''/'', H_home)]"

subsection \<open>Serving a request\<close>

datatype http_response =
  Resp_playlist playlist_response
| Resp_segment seg_response
| Resp_info "error + url_info"
| Resp_home
| Resp_not_found

text \<open>A request of src/index.js: the handler of the first matching route, with the
  route parameters it reads; no match is Express's 404.\<close>

definition serve_index ::
  "upstream \<Rightarrow> string \<Rightarrow> video_data srv \<Rightarrow> http_response \<times> video_data srv" where
  "serve_index up p s =
     (case dispatch routes_index p of
        None \<Rightarrow> (Resp_not_found, s)
      | Some (H_master, ps) \<Rightarrow> apfst Resp_playlist (handle_master up (param ps ''videoId'') s)
      | Some (H_variant, ps) \<Rightarrow>
          apfst Resp_playlist (handle_variant up (param ps ''videoId'') (param ps ''quality'') s)
      | Some (H_audio, ps) \<Rightarrow> apfst Resp_playlist (handle_audio up (param ps ''videoId'') s)
      | Some (H_segment, ps) \<Rightarrow>
          apfst Resp_segment
            (handle_segment up (param ps ''videoId'') (param ps ''segNum'') (param ps ''quality'') s)
      | Some (H_asegment, ps) \<Rightarrow>
          apfst Resp_segment (handle_asegment up (param ps ''videoId'') (param ps ''segNum'') s)
      | Some (H_home, ps) \<Rightarrow> (Resp_home, s)
      | Some (H_info, ps) \<Rightarrow> (Resp_not_found, s))"

text \<open>\<open>GET /api/info/:videoId\<close> of src/unnamed/part_001 (248--263): the identifier
  check, then what \<open>getVideoUrl\<close> returns.\<close>

definition handle_info_p001 ::
  "upstream \<Rightarrow> string \<Rightarrow> url_info srv \<Rightarrow> (error + url_info) \<times> url_info srv" where
  "handle_info_p001 up vid s =
     (if \<not> valid_video_id vid then (Inl Invalid_video_id, s) else getVideoUrl_p001 up vid ''720p'' s)"

text \<open>A request of src/unnamed/part_001.\<close>

definition serve_p001 ::
  "upstream \<Rightarrow> string \<Rightarrow> url_info srv \<Rightarrow> http_response \<times> url_info srv" where
  "serve_p001 up p s =
     (case dispatch routes_p001 p of
        None \<Rightarrow> (Resp_not_found, s)
      | Some (H_master, ps) \<Rightarrow> apfst Resp_playlist (handle_master_p001 up (param ps ''videoId'') s)
      | Some (H_segment, ps) \<Rightarrow>
          apfst Resp_segment (handle_segment_p001 up (param ps ''videoId'') (param ps ''segNum'') s)
      | Some (H_info, ps) \<Rightarrow> apfst Resp_info (handle_info_p001 up (param ps ''videoId'') s)
      | Some (H_home, ps) \<Rightarrow> (Resp_home, s)
      | Some (_, ps) \<Rightarrow> (Resp_not_found, s))"

text \<open>A request of src/unnamed/part_002: the route table of src/index.js with that
  server's handlers.\<close>

definition serve_p002 ::
  "upstream \<Rightarrow> string \<Rightarrow> video_data srv \<Rightarrow> http_response \<times> video_data srv" where
  "serve_p002 up p s =
     (case dispatch routes_index p of
        None \<Rightarrow> (Resp_not_found, s)
      | Some (H_master, ps) \<Rightarrow> apfst Resp_playlist (handle_master_p002 up (param ps ''videoId'') s)
      | Some (H_variant, ps) \<Rightarrow>
          apfst Resp_playlist (handle_variant_p002 up (param ps ''videoId'') (param ps ''quality'') s)
      | Some (H_audio, ps) \<Rightarrow> apfst Resp_playlist (handle_audio_p002 up (param ps ''videoId'') s)
      | Some (H_segment, ps) \<Rightarrow>
          apfst Resp_segment
            (handle_segment_p002 up (param ps ''videoId'') (param ps ''segNum'') (param ps ''quality'') s)
      | Some (H_asegment, ps) \<Rightarrow>
          apfst Resp_segment (handle_asegment_p002 up (param ps ''videoId'') (param ps ''segNum'') s)
      | Some (H_home, ps) \<Rightarrow> (Resp_home, s)
      | Some (H_info, ps) \<Rightarrow> (Resp_not_found, s))"

text \<open>A request of the second server of src/unnamed/part_000, whose routes have the
  patterns of src/unnamed/part_001; its \<open>/api/info/:videoId\<close> (443--452) answers what
  \<open>getVideoUrl\<close> returns, without checking the identifier.\<close>

definition serve_p000 ::
  "upstream \<Rightarrow> string \<Rightarrow> url_info srv \<Rightarrow> http_response \<times> url_info srv" where
  "serve_p000 up p s =
     (case dispatch routes_p001 p of
        None \<Rightarrow> (Resp_not_found, s)
      | Some (H_master, ps) \<Rightarrow> apfst Resp_playlist (handle_master_p000 up (param ps ''videoId'') s)
      | Some (H_segment, ps) \<Rightarrow>
          apfst Resp_segment (handle_segment_p000 up (param ps ''videoId'') (param ps ''segNum'') s)
      | Some (H_info, ps) \<Rightarrow> apfst Resp_info (getVideoUrl_p000 up (param ps ''videoId'') ''720p'' s)
      | Some (H_home, ps) \<Rightarrow> (Resp_home, s)
      | Some (_, ps) \<Rightarrow> (Resp_not_found, s))"

subsection \<open>Rejecting malformed identifiers\<close>

text \<open>An answer that is an error: a JSON error of a playlist, segment or info
  handler, or Express's 404.\<close>

fun error_response :: "http_response \<Rightarrow> bool" where
  "error_response (Resp_playlist (Json_error _ _)) = True"
| "error_response (Resp_segment (Seg_error _)) = True"
| "error_response (Resp_info (Inl _)) = True"
| "error_response Resp_not_found = True"
| "error_response _ = False"

text \<open>What the spec asks of every endpoint: a request routed to a handler that
  reads \<open>videoId\<close>, with an identifier outside the grammar, is answered with an error
  and leaves the server state (cache, clock, upstream call count) as it was.\<close>

definition validates_ids :: "(string \<times> handler) list \<Rightarrow> (string \<Rightarrow> 's \<Rightarrow> http_response \<times> 's) \<Rightarrow> bool" where
  "validates_ids rs serve \<longleftrightarrow>
     (\<forall>p h ps s. dispatch rs p = Some (h, ps) \<longrightarrow> h \<noteq> H_home \<longrightarrow> \<not> valid_video_id (param ps ''videoId'')
        \<longrightarrow> snd (serve p s) = s \<and> error_response (fst (serve p s)))"

subsection \<open>Lemmas\<close>

lemma valid_video_id_path: "valid_video_id vid \<Longrightarrow> vid \<noteq> [] \<and> CHR ''/'' \<notin> set vid"
  by (auto simp: valid_video_id_def list_all_iff id_char_def js_simps)

lemma parse_master: "parse_route ''/stream/:videoId/master.m3u8''
    = [Lit ''/stream/'', Param ''videoId'', Lit ''/master.m3u8'']"
  by (simp add: is_word_char_def id_char_def js_simps)

lemma parse_variant: "parse_route ''/stream/:videoId/:quality.m3u8''
    = [Lit ''/stream/'', Param ''videoId'', Lit ''/'', Param ''quality'', Lit ''.m3u8'']"
  by (simp add: is_word_char_def id_char_def js_simps)

lemma parse_audio: "parse_route ''/stream/:videoId/audio.m3u8''
    = [Lit ''/stream/'', Param ''videoId'', Lit ''/audio.m3u8'']"
  by (simp add: is_word_char_def id_char_def js_simps)

lemma parse_segment: "parse_route ''/stream/:videoId/segment:segNum_:quality.ts''
    = [Lit ''/stream/'', Param ''videoId'', Lit ''/segment'', Param ''segNum_'', Param ''quality'', Lit ''.ts'']"
  by (simp add: is_word_char_def id_char_def js_simps)

lemma parse_asegment: "parse_route ''/stream/:videoId/asegment:segNum.aac''
    = [Lit ''/stream/'', Param ''videoId'', Lit ''/asegment'', Param ''segNum'', Lit ''.aac'']"
  by (simp add: is_word_char_def id_char_def js_simps)

lemma parse_segment_p001: "parse_route ''/stream/:videoId/segment:segNum.ts''
    = [Lit ''/stream/'', Param ''videoId'', Lit ''/segment'', Param ''segNum'', Lit ''.ts'']"
  by (simp add: is_word_char_def id_char_def js_simps)

lemma parse_info: "parse_route ''/api/info/:videoId'' = [Lit ''/api/info/'', Param ''videoId'']"
  by (simp add: is_word_char_def id_char_def js_simps)

lemma parse_home: "parse_route ''/'' = [Lit ''/'']"
  by simp

declare parse_route.simps [simp del]

lemma string_of_nat_no_slash: "CHR ''/'' \<notin> set (string_of_nat i)"
  using string_of_nat_digits [of i] by (auto simp: is_digit_def)

lemma audio_route_implies_variant:
  assumes "match_route (parse_route ''/stream/:videoId/audio.m3u8'') p \<noteq> None"
  shows "match_route (parse_route ''/stream/:videoId/:quality.m3u8'') p \<noteq> None"
proof -
  have sh: "match_route [Lit ''/'', Param m, Lit ''.m3u8''] t \<noteq> None"
    if "match_route [Lit ''/audio.m3u8''] t \<noteq> None" for t m
    using match_lit_shadow [of "''audio''" "''.m3u8''" t m] that by simp
  let ?p = "drop (length ''/stream/'') p"
  from assms have a: "lit_match ''/stream/'' p"
    "match_route [Param ''videoId'', Lit ''/audio.m3u8''] ?p \<noteq> None"
    unfolding parse_audio match_lit_Some_iff by blast+
  from a(2) obtain k where k: "k \<in> set [1..<Suc (seg_len ?p)]"
    and m: "match_route [Lit ''/audio.m3u8''] (drop k ?p) \<noteq> None"
    unfolding match_param_Some_iff by blast
  have "match_route [Lit ''/'', Param ''quality'', Lit ''.m3u8''] (drop k ?p) \<noteq> None"
    by (rule sh [OF m])
  with k have "match_route [Param ''videoId'', Lit ''/'', Param ''quality'', Lit ''.m3u8''] ?p \<noteq> None"
    unfolding match_param_Some_iff by blast
  with a(1) show ?thesis unfolding parse_variant match_lit_Some_iff by blast
qed

lemma match_stream_param:
  assumes "valid_video_id vid"
  shows "match_route (Lit ''/stream/'' # Param ''videoId'' # Lit (CHR ''/'' # l) # ts) (''/stream/'' @ vid @ CHR ''/'' # r)
         = map_option (Cons (''videoId'', vid)) (match_route (Lit (CHR ''/'' # l) # ts) (CHR ''/'' # r))"
proof -
  from valid_video_id_path [OF assms] have v: "vid \<noteq> []" "CHR ''/'' \<notin> set vid" by auto
  have "match_route (Lit ''/stream/'' # Param ''videoId'' # Lit (CHR ''/'' # l) # ts) (''/stream/'' @ vid @ CHR ''/'' # r)
      = match_route (Param ''videoId'' # Lit (CHR ''/'' # l) # ts) (vid @ CHR ''/'' # r)"
    by (rule match_lit_append)
  also have "\<dots> = map_option (Cons (''videoId'', vid)) (match_route (Lit (CHR ''/'' # l) # ts) (CHR ''/'' # r))"
    by (rule match_param_slash [OF v])
  finally show ?thesis .
qed

lemma match_master_segment:
  "valid_video_id vid \<Longrightarrow>
   match_route (parse_route ''/stream/:videoId/master.m3u8'') (''/stream/'' @ vid @ CHR ''/'' # ''segment'' @ r) = None"
  unfolding parse_master by (simp only: match_stream_param) (simp add: ascii_lower_def)

lemma match_audio_segment:
  "valid_video_id vid \<Longrightarrow>
   match_route (parse_route ''/stream/:videoId/audio.m3u8'') (''/stream/'' @ vid @ CHR ''/'' # ''segment'' @ r) = None"
  unfolding parse_audio by (simp only: match_stream_param) (simp add: ascii_lower_def)

lemma match_variant_segment:
  assumes "valid_video_id vid"
  shows "match_route (parse_route ''/stream/:videoId/:quality.m3u8'') (''/stream/'' @ vid @ CHR ''/'' # ''segment'' @ x @ ''.ts'') = None"
proof -
  have "match_route [Param ''quality'', Lit ''.m3u8''] (''segment'' @ x @ ''.ts'') = None"
  proof (rule ccontr)
    assume "match_route [Param ''quality'', Lit ''.m3u8''] (''segment'' @ x @ ''.ts'') \<noteq> None"
    from match_param_lit_suffix [OF this] show False by (simp add: ascii_lower_def)
  qed
  then show ?thesis unfolding parse_variant by (simp only: match_stream_param [OF assms]) simp
qed

lemma match_segment_route:
  assumes "valid_video_id vid" "2 \<le> length x" "CHR ''/'' \<notin> set x"
  shows "match_route (parse_route ''/stream/:videoId/segment:segNum_:quality.ts'')
           (''/stream/'' @ vid @ ''/segment'' @ x @ ''.ts'')
         = Some [(''videoId'', vid), (''segNum_'', take 1 x), (''quality'', drop 1 x)]"
proof -
  from valid_video_id_path [OF assms(1)] have v: "vid \<noteq> []" "CHR ''/'' \<notin> set vid" by auto
  have "match_route (parse_route ''/stream/:videoId/segment:segNum_:quality.ts'')
           (''/stream/'' @ vid @ ''/segment'' @ x @ ''.ts'')
      = match_route [Param ''videoId'', Lit ''/segment'', Param ''segNum_'', Param ''quality'', Lit ''.ts'']
           (vid @ ''/segment'' @ x @ ''.ts'')"
    unfolding parse_segment by (rule match_lit_append)
  also have "\<dots> = map_option (Cons (''videoId'', vid))
      (match_route [Param ''segNum_'', Param ''quality'', Lit ''.ts''] (x @ ''.ts''))"
    by (rule match_param_slash_lit [OF v])
  also have "\<dots> = Some [(''videoId'', vid), (''segNum_'', take 1 x), (''quality'', drop 1 x)]"
    using match_two_params [OF assms(2,3), of "''.ts''" "''segNum_''" "''quality''"] by simp
  finally show ?thesis .
qed

lemma match_segment_p001_route:
  assumes "valid_video_id vid" "y \<noteq> []" "CHR ''/'' \<notin> set y"
  shows "match_route (parse_route ''/stream/:videoId/segment:segNum.ts'')
           (''/stream/'' @ vid @ ''/segment'' @ y @ ''.ts'')
         = Some [(''videoId'', vid), (''segNum'', y)]"
proof -
  from valid_video_id_path [OF assms(1)] have v: "vid \<noteq> []" "CHR ''/'' \<notin> set vid" by auto
  have "match_route (parse_route ''/stream/:videoId/segment:segNum.ts'')
           (''/stream/'' @ vid @ ''/segment'' @ y @ ''.ts'')
      = match_route [Param ''videoId'', Lit ''/segment'', Param ''segNum'', Lit ''.ts''] (vid @ ''/segment'' @ y @ ''.ts'')"
    unfolding parse_segment_p001 by (rule match_lit_append)
  also have "\<dots> = map_option (Cons (''videoId'', vid)) (match_route [Param ''segNum'', Lit ''.ts''] (y @ ''.ts''))"
    by (rule match_param_slash_lit [OF v])
  also have "\<dots> = Some [(''videoId'', vid), (''segNum'', y)]"
    using match_param_lit [OF assms(2,3), of "''.ts''" "''segNum''"] by simp
  finally show ?thesis .
qed

lemma index_segment_dispatch:
  assumes "valid_video_id vid" "CHR ''/'' \<notin> set q"
  shows "dispatch routes_index (variant_uri vid q i)
         = Some (H_segment, [(''videoId'', vid), (''segNum_'', take 1 (string_of_nat i @ ''_'' @ q)),
                             (''quality'', drop 1 (string_of_nat i @ ''_'' @ q))])"
proof -
  let ?x = "string_of_nat i @ ''_'' @ q"
  have x: "2 \<le> length ?x" "CHR ''/'' \<notin> set ?x"
    using string_of_nat_not_Nil [of i] string_of_nat_no_slash [of i] assms(2)
    by (cases "string_of_nat i"; auto)+
  have p: "variant_uri vid q i = ''/stream/'' @ vid @ CHR ''/'' # ''segment'' @ ?x @ ''.ts''"
    and p': "variant_uri vid q i = ''/stream/'' @ vid @ ''/segment'' @ ?x @ ''.ts''"
    by (simp_all add: variant_uri_def)
  have m1: "match_route (parse_route ''/stream/:videoId/master.m3u8'') (variant_uri vid q i) = None"
    unfolding p by (rule match_master_segment [OF assms(1)])
  have m2: "match_route (parse_route ''/stream/:videoId/:quality.m3u8'') (variant_uri vid q i) = None"
    unfolding p by (rule match_variant_segment [OF assms(1)])
  have m3: "match_route (parse_route ''/stream/:videoId/audio.m3u8'') (variant_uri vid q i) = None"
    unfolding p by (rule match_audio_segment [OF assms(1)])
  have m4: "match_route (parse_route ''/stream/:videoId/segment:segNum_:quality.ts'') (variant_uri vid q i)
      = Some [(''videoId'', vid), (''segNum_'', take 1 ?x), (''quality'', drop 1 ?x)]"
    unfolding p' by (rule match_segment_route [OF assms(1) x])
  show ?thesis by (simp add: routes_index_def m1 m2 m3 m4)
qed

lemma match_stream_lit_fail:
  "valid_video_id vid \<Longrightarrow> \<not> lit_match (CHR ''/'' # l) (CHR ''/'' # r) \<Longrightarrow>
   match_route (Lit ''/stream/'' # Param ''videoId'' # Lit (CHR ''/'' # l) # ts) (''/stream/'' @ vid @ CHR ''/'' # r) = None"
  by (simp only: match_stream_param) simp

lemma index_asegment_dispatch:
  assumes "valid_video_id vid"
  shows "dispatch routes_index (audio_uri vid i)
         = Some (H_asegment, [(''videoId'', vid), (''segNum'', string_of_nat i)])"
proof -
  from valid_video_id_path [OF assms] have v: "vid \<noteq> []" "CHR ''/'' \<notin> set vid" by auto
  let ?r = "''asegment'' @ string_of_nat i @ ''.aac''"
  have p: "audio_uri vid i = ''/stream/'' @ vid @ CHR ''/'' # ?r"
    and p': "audio_uri vid i = ''/stream/'' @ vid @ ''/asegment'' @ string_of_nat i @ ''.aac''"
    by (simp_all add: audio_uri_def)
  have m1: "match_route (parse_route ''/stream/:videoId/master.m3u8'') (audio_uri vid i) = None"
    unfolding p parse_master by (rule match_stream_lit_fail [OF assms]) (simp add: ascii_lower_def)
  have m3: "match_route (parse_route ''/stream/:videoId/audio.m3u8'') (audio_uri vid i) = None"
    unfolding p parse_audio by (rule match_stream_lit_fail [OF assms]) (simp add: ascii_lower_def)
  have m4: "match_route (parse_route ''/stream/:videoId/segment:segNum_:quality.ts'') (audio_uri vid i) = None"
    unfolding p parse_segment by (rule match_stream_lit_fail [OF assms]) (simp add: ascii_lower_def)
  have "match_route [Param ''quality'', Lit ''.m3u8''] ?r = None"
  proof (rule ccontr)
    assume "match_route [Param ''quality'', Lit ''.m3u8''] ?r \<noteq> None"
    from match_param_lit_suffix [OF this] show False by (simp add: ascii_lower_def)
  qed
  then have m2: "match_route (parse_route ''/stream/:videoId/:quality.m3u8'') (audio_uri vid i) = None"
    unfolding p parse_variant by (simp only: match_stream_param [OF assms]) simp
  have "match_route (parse_route ''/stream/:videoId/asegment:segNum.aac'') (audio_uri vid i)
      = match_route [Param ''videoId'', Lit ''/asegment'', Param ''segNum'', Lit ''.aac'']
          (vid @ ''/asegment'' @ string_of_nat i @ ''.aac'')"
    unfolding p' parse_asegment by (rule match_lit_append)
  also have "\<dots> = map_option (Cons (''videoId'', vid))
      (match_route [Param ''segNum'', Lit ''.aac''] (string_of_nat i @ ''.aac''))"
    by (rule match_param_slash_lit [OF v])
  also have "\<dots> = Some [(''videoId'', vid), (''segNum'', string_of_nat i)]"
    using match_param_lit [of "string_of_nat i" "''.aac''" "''segNum''"] string_of_nat_no_slash [of i]
    by simp
  finally have m5: "match_route (parse_route ''/stream/:videoId/asegment:segNum.aac'') (audio_uri vid i)
      = Some [(''videoId'', vid), (''segNum'', string_of_nat i)]" .
  show ?thesis by (simp add: routes_index_def m1 m2 m3 m4 m5)
qed

lemma p001_segment_dispatch:
  assumes "valid_video_id vid"
  shows "dispatch routes_p001 (segment_uri vid i) = Some (H_segment, [(''videoId'', vid), (''segNum'', string_of_nat i)])"
proof -
  have p: "segment_uri vid i = ''/stream/'' @ vid @ CHR ''/'' # ''segment'' @ string_of_nat i @ ''.ts''"
    and p': "segment_uri vid i = ''/stream/'' @ vid @ ''/segment'' @ string_of_nat i @ ''.ts''"
    by (simp_all add: segment_uri_def)
  have m1: "match_route (parse_route ''/stream/:videoId/master.m3u8'') (segment_uri vid i) = None"
    unfolding p by (rule match_master_segment [OF assms])
  have m2: "match_route (parse_route ''/stream/:videoId/segment:segNum.ts'') (segment_uri vid i)
      = Some [(''videoId'', vid), (''segNum'', string_of_nat i)]"
    unfolding p' by (rule match_segment_p001_route [OF assms string_of_nat_not_Nil string_of_nat_no_slash])
  show ?thesis by (simp add: routes_p001_def m1 m2)
qed

text \<open>
  C10: in src/index.js (and src/unnamed/part_002, whose route table is
  the same) no request path is ever dispatched to the audio playlist handler: every path
  that \<open>/stream/:videoId/audio.m3u8\<close> matches is matched first by
  \<open>/stream/:videoId/:quality.m3u8\<close>, registered before it, with quality \<open>audio\<close>.
\<close>

theorem index_audio_route_unreachable: "dispatch routes_index p \<noteq> Some (H_audio, ps)"
proof
  assume d: "dispatch routes_index p = Some (H_audio, ps)"
  let ?m = "\<lambda>pat. match_route (parse_route pat) p"
  have "?m ''/stream/:videoId/:quality.m3u8'' = None" "?m ''/stream/:videoId/audio.m3u8'' \<noteq> None"
    using d by (auto simp: routes_index_def split: option.splits)
  with audio_route_implies_variant show False by blast
qed

lemma find_video_underscore:
  assumes "CHR ''_'' \<in> set q'" "\<forall>f \<in> set fs. CHR ''_'' \<notin> set (quality f)"
  shows "find_video q' fs = None"
proof -
  have "\<not> js_includes (quality f) q'" if "f \<in> set fs" for f
  proof
    assume "js_includes (quality f) q'"
    then have "set q' \<subseteq> set (quality f)" by (simp add: js_includes_sublist set_mono_sublist)
    with assms that show False by blast
  qed
  then show ?thesis by (auto simp: find_video_def find_None_iff)
qed

text \<open>
  C8: in src/index.js every segment URI a variant playlist lists,
  \<open>/stream/<id>/segment<i>_<q>.ts\<close>, is routed with \<open>segNum_\<close> (the parameter name
  \<open>\w+\<close> takes the underscore) bound to the first digit and \<open>quality\<close> to the rest,
  which starts with a digit or \<open>_\<close>; when no format label contains \<open>_\<close>, the
  request is answered 500 \<open>Format not available\<close>.
\<close>

theorem variant_segment_not_served:
  assumes "valid_video_id vid" "CHR ''/'' \<notin> set q"
    and "getVideoFormats up vid False s = (Inr d, s')"
    and "\<forall>f \<in> set (formats d). CHR ''_'' \<notin> set (quality f)"
  shows "serve_index up (variant_uri vid q i) s = (Resp_segment (Seg_error Format_not_available), s')"
proof -
  let ?x = "string_of_nat i @ ''_'' @ q"
  have "CHR ''_'' \<in> set (drop 1 ?x)"
    using string_of_nat_not_Nil [of i] by (cases "string_of_nat i") auto
  then have "find_video (drop 1 ?x) (formats d) = None"
    using assms(4) by (rule find_video_underscore)
  then show ?thesis
    using assms(3)
    by (simp add: serve_index_def index_segment_dispatch [OF assms(1,2)] param_def handle_segment_def)
qed

text \<open>
  C9: src/unnamed/part_002 registers the same video segment
  route: its variant playlists' segment URIs are answered 500 \<open>Format not available\<close>
  as well.
\<close>

theorem p002_variant_segment_not_served:
  assumes "valid_video_id vid" "CHR ''/'' \<notin> set q"
    and "getVideoFormats_p002 up vid s = (Inr d, s')"
    and "\<forall>f \<in> set (formats d). CHR ''_'' \<notin> set (quality f)"
  shows "serve_p002 up (variant_uri vid q i) s = (Resp_segment (Seg_error Format_not_available), s')"
proof -
  let ?x = "string_of_nat i @ ''_'' @ q"
  have "CHR ''_'' \<in> set (drop 1 ?x)"
    using string_of_nat_not_Nil [of i] by (cases "string_of_nat i") auto
  then have "find_video (drop 1 ?x) (formats d) = None"
    using assms(4) by (rule find_video_underscore)
  then show ?thesis
    using assms(3)
    by (simp add: serve_p002_def index_segment_dispatch [OF assms(1,2)] param_def handle_segment_p002_def)
qed

text \<open>
  C27: in src/unnamed/part_001 the segment URI \<open>/stream/<id>/segment<i>.ts\<close>
  of its playlist reaches the segment handler with segment number \<open>i\<close>, which spawns
  ffmpeg on the resolved URL at offset \<open>10 * i\<close> seconds.
\<close>

theorem p001_segment_uri_served:
  assumes "valid_video_id vid" "getVideoUrl_p001 up vid ''720p'' s = (Inr v, s')" "u_url v = Some u"
  shows "serve_p001 up (segment_uri vid i) s
         = (Resp_segment (Seg_spawn (ffmpeg_args_p001 (int i * 10) u) ''video/mp2t''), s')"
  using assms
  by (simp add: serve_p001_def p001_segment_dispatch param_def handle_segment_p001_def)

text \<open>
  In src/index.js the audio segment URI
  \<open>/stream/<id>/asegment<i>.aac\<close> of the audio playlist reaches the audio segment
  handler with segment number \<open>i\<close>.
\<close>

lemma index_audio_segment_uri_served:
  assumes "valid_video_id vid"
  shows "serve_index up (audio_uri vid i) s = apfst Resp_segment (handle_asegment up vid (string_of_nat i) s)"
  by (simp add: serve_index_def index_asegment_dispatch [OF assms] param_def)

text \<open>
  The scenario of the specification: \<open>GET /api/info/bad id!\<close> on
  src/unnamed/part_001 is routed to the info endpoint with identifier \<open>bad id!\<close> and
  answered with \<open>Invalid YouTube video ID\<close>, without an upstream call.
\<close>

lemma info_bad_id_rejected:
  "serve_p001 up ''/api/info/bad id!'' s = (Resp_info (Inl Invalid_video_id), s)"
  by (simp add: serve_p001_def routes_p001_def parse_master parse_segment_p001 parse_info
      param_def handle_info_p001_def seg_len_def ascii_lower_def js_simps)

lemma dispatch_info_bad_id:
  "dispatch routes_p001 ''/api/info/bad id!'' = Some (H_info, [(''videoId'', ''bad id!'')])"
  by (simp add: routes_p001_def parse_master parse_segment_p001 parse_info seg_len_def ascii_lower_def)

text \<open>
  C30: the second server of src/unnamed/part_000 does not check the
  identifier: \<open>GET /api/info/bad id!\<close>, when nothing is cached for it, makes an
  upstream call with the watch URL of \<open>bad id!\<close>.
\<close>

theorem p000_info_bad_id_calls_upstream:
  assumes "cache_get (clock s) ''bad id!_720p'' (cache s) = None"
  shows "api_calls (snd (serve_p000 up ''/api/info/bad id!'' s)) = Suc (api_calls s)"
  using assms
  by (simp add: serve_p000_def dispatch_info_bad_id param_def getVideoUrl_p000_def get_video_url_def
      call_upstream_def Let_def split: prod.split sum.split option.split)

lemma dispatch_master_index:
  assumes "valid_video_id vid"
  shows "dispatch routes_index (''/stream/'' @ vid @ ''/master.m3u8'') = Some (H_master, [(''videoId'', vid)])"
  unfolding routes_index_def dispatch.simps parse_master
  by (simp only: match_stream_param [OF assms]) simp

lemma dispatch_master_p001:
  assumes "valid_video_id vid"
  shows "dispatch routes_p001 (''/stream/'' @ vid @ ''/master.m3u8'') = Some (H_master, [(''videoId'', vid)])"
  unfolding routes_p001_def dispatch.simps parse_master
  by (simp only: match_stream_param [OF assms]) simp

text \<open>
  C17: src/index.js, src/unnamed/part_002 and src/unnamed/part_001 reject a
  malformed identifier on every endpoint before any upstream call: whatever route a
  request reaches, other than the home page, an identifier outside the grammar is
  answered with an error (status 500 \<open>Invalid YouTube video ID\<close>, or, in part_001's
  segment route, a check of the segment number that comes first) and the server
  state is unchanged. The second server of src/unnamed/part_000 does not: its
  \<open>getVideoUrl\<close> calls the upstream API with any identifier.
\<close>

theorem servers_validate_ids:
  "validates_ids routes_index (serve_index up) \<and> validates_ids routes_index (serve_p002 up)
   \<and> validates_ids routes_p001 (serve_p001 up)"
  unfolding validates_ids_def
  by (auto simp: serve_index_def serve_p002_def serve_p001_def handle_master_def handle_variant_def
      handle_audio_def handle_segment_def handle_asegment_def handle_master_p002_def
      handle_variant_p002_def handle_audio_p002_def handle_segment_p002_def handle_asegment_p002_def
      handle_master_p001_def handle_segment_p001_def handle_info_p001_def getVideoFormats_def
      getVideoFormats_p002_def Let_def
      split: handler.splits option.splits)

end
