(* ===== verification/Batch.thy ===== *)
theory Batch
  imports Router
begin

text \<open>
  The batch pre-conversion server, lines 1--254 of src/unnamed/part_000: \<open>POST
  /api/process\<close> resolves a YouTube URL with the retrying \<open>fetchYouTubeData\<close>, has
  ffmpeg convert the selected format into an HLS directory \<open>hls-content/<videoId>\<close>
  beside the script, and caches the title, thumbnail and duration for a day;
  \<open>GET /stream/:videoId/master.m3u8\<close> and \<open>GET /stream/:videoId/:segment\<close> serve the
  files of that directory and \<open>GET /api/info/:videoId\<close> the cached metadata.
  Paths are lists of components and \<open>path.join\<close> is Node's normalising join; the file
  system is a map from paths to directories and files; ffmpeg is an oracle that
  either writes the playlist and the segments or fails.
\<close>

subsection \<open>Paths\<close>

text \<open>An absolute path as its list of components; \<open>[]\<close> is the root.\<close>

type_synonym path = "string list"

text \<open>\<open>s.split(c)\<close>.\<close>

fun split_on :: "char \<Rightarrow> string \<Rightarrow> string list" where
  "split_on c [] = [[]]"
| "split_on c (x # xs) =
     (if x = c then [] # split_on c xs
      else (let r = split_on c xs in (x # hd r) # tl r))"

text \<open>Node's \<open>normalizeString\<close> for an absolute path: empty and \<open>.\<close> components vanish,
  \<open>..\<close> drops the component before it and stays at the root. The components read so
  far are kept reversed in \<open>acc\<close>.\<close>

fun norm_comps :: "string list \<Rightarrow> string list \<Rightarrow> path" where
  "norm_comps acc [] = rev acc"
| "norm_comps acc (c # cs) =
     (if c = [] \<or> c = ''.'' then norm_comps acc cs
      else if c = ''..'' then norm_comps (tl acc) cs
      else norm_comps (c # acc) cs)"

text \<open>\<open>path.join(base, ...parts)\<close> with an absolute \<open>base\<close>: the arguments joined by
  \<open>/\<close>, then normalised.\<close>

definition path_join :: "path \<Rightarrow> string list \<Rightarrow> path" where
  "path_join base parts = norm_comps (rev base) (concat (map (split_on CHR ''/'') parts))"

text \<open>A component of a normalised path.\<close>

definition plain_comp :: "string \<Rightarrow> bool" where
  "plain_comp c \<longleftrightarrow> c \<noteq> [] \<and> c \<noteq> ''.'' \<and> c \<noteq> ''..'' \<and> CHR ''/'' \<notin> set c"

definition norm_path :: "path \<Rightarrow> bool" where
  "norm_path p \<longleftrightarrow> list_all plain_comp p"

text \<open>\<open>HLS_DIR = path.join(__dirname, 'hls-content')\<close> (line 15), for the directory
  \<open>dirname\<close> of the script.\<close>

definition HLS_DIR :: "path \<Rightarrow> path" where
  "HLS_DIR dirname = path_join dirname [''hls-content'']"

subsection \<open>The file system\<close>

datatype fs_node = Dir | File string

type_synonym fs = "path \<rightharpoonup> fs_node"

text \<open>\<open>fs.pathExists\<close>.\<close>

definition path_exists :: "path \<Rightarrow> fs \<Rightarrow> bool" where
  "path_exists p f \<longleftrightarrow> f p \<noteq> None"

text \<open>\<open>fs.ensureDir\<close> (\<open>mkdir -p\<close>): every missing prefix of the path becomes a
  directory; a file on the way fails (\<open>None\<close>, \<open>ENOTDIR\<close> or \<open>EEXIST\<close>).\<close>

definition ensure_dir :: "path \<Rightarrow> fs \<Rightarrow> fs option" where
  "ensure_dir d f =
     (if list_ex (\<lambda>p. f p \<noteq> None \<and> f p \<noteq> Some Dir) (prefixes d) then None
      else Some (fold (\<lambda>p g. if g p = None then g(p \<mapsto> Dir) else g) (prefixes d) f))"

text \<open>\<open>fs.remove\<close> (\<open>rm -rf\<close>): the path and everything below it.\<close>

definition remove_tree :: "path \<Rightarrow> fs \<Rightarrow> fs" where
  "remove_tree d f = (\<lambda>p. if prefix d p then None else f p)"

text \<open>\<open>fs.readFile(p, 'utf8')\<close>: the contents of a file; a directory or a missing path
  throws (\<open>None\<close>).\<close>

definition read_file :: "path \<Rightarrow> fs \<Rightarrow> string option" where
  "read_file p f = (case f p of Some (File c) \<Rightarrow> Some c | _ \<Rightarrow> None)"

text \<open>\<open>fs.ensureDirSync(HLS_DIR)\<close> at start-up (line 23); \<open>None\<close> is a crash.\<close>

definition batch_boot :: "path \<Rightarrow> fs \<Rightarrow> fs option" where
  "batch_boot dirname f = ensure_dir (HLS_DIR dirname) f"

subsection \<open>\<open>convertToHLS\<close> (lines 74--121)\<close>

text \<open>
  What ffmpeg does with the input URL: it writes the playlist and the segments, or
  fails with a message. Partial output of a failed run is not modelled: the error
  handler removes the whole directory.
\<close>

datatype conv_outcome = Conv_ok string "string list" | Conv_fail string

type_synonym converter = "string option \<Rightarrow> conv_outcome"

text \<open>\<open>segment_%04d.ts\<close>.\<close>

definition segment_name :: "nat \<Rightarrow> string" where
  "segment_name i =
     (let d = string_of_nat i in ''segment_'' @ replicate (4 - length d) CHR ''0'' @ d @ ''.ts'')"

definition hls_outputs :: "path \<Rightarrow> path \<Rightarrow> string \<Rightarrow> string list \<Rightarrow> fs \<Rightarrow> fs" where
  "hls_outputs dir out m segs f =
     (f ++ map_of (zip (map (\<lambda>i. path_join dir [segment_name i]) [0..<length segs]) (map File segs)))
       (out \<mapsto> File m)"

text \<open>
  The directory is \<open>path.join(HLS_DIR, videoId)\<close>; an existing \<open>master.m3u8\<close> there
  ends the conversion at once. Otherwise the directory is created and ffmpeg runs;
  on its \<open>error\<close> event the directory is removed (\<open>fs.remove(videoDir)\<close>, not awaited,
  taken as done) and the promise rejects. \<open>Inl\<close> is the message of the rejection.
\<close>

definition convertToHLS ::
  "converter \<Rightarrow> path \<Rightarrow> string option \<Rightarrow> string \<Rightarrow> fs \<Rightarrow> (string + path) \<times> fs" where
  "convertToHLS conv dirname videoUrl videoId f =
     (let videoDir = path_join (HLS_DIR dirname) [videoId];
          outputPath = path_join videoDir [''master.m3u8''] in
      if path_exists outputPath f then (Inr outputPath, f)
      else
        (case ensure_dir videoDir f of
           None \<Rightarrow> (Inl ''ENOTDIR: not a directory'', f)
         | Some f1 \<Rightarrow>
             (case conv videoUrl of
                Conv_ok m segs \<Rightarrow> (Inr outputPath, hls_outputs videoDir outputPath m segs f1)
              | Conv_fail e \<Rightarrow> (Inl (''HLS conversion failed: '' @ e), remove_tree videoDir f1))))"

subsection \<open>The server state and its replies\<close>

text \<open>What \<open>cache.set(videoId, ...)\<close> stores (lines 169--173).\<close>

record meta =
  m_title :: string
  m_thumbnail :: "string option"
  m_duration :: "ms option"

definition meta_of :: "video_data \<Rightarrow> meta" where
  "meta_of d = \<lparr>m_title = title d, m_thumbnail = thumbnail d, m_duration = duration d\<rparr>"

text \<open>The cache with its one-day standard TTL (line 14), the clock and the upstream
  call count, and the file system.\<close>

record bstate =
  bsrv :: "meta srv"
  files :: fs

definition batch_ttl :: ms where
  "batch_ttl = 86400000"

text \<open>The JSON replies: the processing result (\<open>cached\<close> present only on a cache hit),
  an error with its status, a playlist, a streamed file, the cached metadata, a
  static file, Express's 404, and a read stream that fails after the headers
  (\<open>createReadStream\<close> of a directory).\<close>

datatype batch_response =
  B_process string string bool meta
| B_error nat string
| B_playlist string
| B_stream path string
| B_stream_error path
| B_info meta
| B_static string
| B_not_found

text \<open>\<open>errorHandler\<close> (lines 26--29): every error passed to \<open>next\<close>.\<close>

definition errorHandler :: batch_response where
  "errorHandler = B_error 500 ''Internal server error''"

definition stream_url :: "string \<Rightarrow> string" where
  "stream_url vid = ''/stream/'' @ vid @ ''/master.m3u8''"

text \<open>\<open>youtubeUrl.match(/[?&]v=([^&]+)/)[1]\<close>: the leftmost \<open>?v=\<close> or \<open>&v=\<close> followed by at
  least one character other than \<open>&\<close>, and the longest such run.\<close>

fun match_v :: "string \<Rightarrow> string option" where
  "match_v [] = None"
| "match_v (c # cs) =
     (let v = takeWhile (\<lambda>x. x \<noteq> CHR ''&'') (drop 2 cs) in
      if (c = CHR ''?'' \<or> c = CHR ''&'') \<and> take 2 cs = ''v='' \<and> v \<noteq> [] then Some v
      else match_v cs)"

subsection \<open>The handlers\<close>

text \<open>
  \<open>POST /api/process\<close> (lines 124--185) with the body's \<open>youtubeUrl\<close> and \<open>quality\<close>
  (\<open>None\<close> when absent; \<open>quality\<close> defaults to \<open>720p\<close>): an absent or empty URL and a
  URL without \<open>v=\<close> are 400; a cached identifier answers at once; otherwise the URL
  itself is resolved with three attempts, the format is selected as by
  \<open>find(...) || find(...)\<close>, converted, and the metadata cached. A thrown error
  (failed resolution, failed conversion) reaches \<open>errorHandler\<close>.
\<close>

definition handle_process ::
  "converter \<Rightarrow> upstream \<Rightarrow> path \<Rightarrow> string option \<Rightarrow> string option \<Rightarrow> bstate
   \<Rightarrow> batch_response \<times> bstate" where
  "handle_process conv up dirname youtubeUrl q st =
     (case youtubeUrl of
        None \<Rightarrow> (B_error 400 ''YouTube URL is required'', st)
      | Some u \<Rightarrow>
          if u = [] then (B_error 400 ''YouTube URL is required'', st)
          else
            (case match_v u of
               None \<Rightarrow> (B_error 400 ''Invalid YouTube URL'', st)
             | Some videoId \<Rightarrow>
                 (let s = bsrv st; quality = (case q of None \<Rightarrow> ''720p'' | Some x \<Rightarrow> x) in
                  case cache_get (clock s) videoId (cache s) of
                    Some md \<Rightarrow> (B_process videoId (stream_url videoId) True md, st)
                  | None \<Rightarrow>
                      (case fetchYouTubeData_p000 up u s of
                         (Some (Inr d), s1) \<Rightarrow>
                           (case select_format quality (formats d) of
                              None \<Rightarrow> (B_error 404 ''No suitable video format found'', st\<lparr>bsrv := s1\<rparr>)
                            | Some f \<Rightarrow>
                                (case convertToHLS conv dirname (furl f) videoId (files st) of
                                   (Inl e, f') \<Rightarrow> (errorHandler, \<lparr>bsrv = s1, files = f'\<rparr>)
                                 | (Inr _, f') \<Rightarrow>
                                     (B_process videoId (stream_url videoId) False (meta_of d),
                                      \<lparr>bsrv = s1\<lparr>cache := cache_set (clock s1) batch_ttl videoId (meta_of d) (cache s1)\<rparr>,
                                       files = f'\<rparr>)))
                       | (_, s1) \<Rightarrow> (errorHandler, st\<lparr>bsrv := s1\<rparr>)))))"

text \<open>\<open>GET /stream/:videoId/master.m3u8\<close> (lines 188--208).\<close>

definition handle_bmaster :: "path \<Rightarrow> string \<Rightarrow> bstate \<Rightarrow> batch_response" where
  "handle_bmaster dirname videoId st =
     (let manifestPath = path_join (HLS_DIR dirname) [videoId, ''master.m3u8''] in
      if \<not> path_exists manifestPath (files st) then B_error 404 ''Video not found''
      else (case read_file manifestPath (files st) of
              Some c \<Rightarrow> B_playlist c
            | None \<Rightarrow> errorHandler))"

text \<open>\<open>GET /stream/:videoId/:segment\<close> (lines 211--230): the file is piped to the
  reply.\<close>

definition handle_bsegment :: "path \<Rightarrow> string \<Rightarrow> string \<Rightarrow> bstate \<Rightarrow> batch_response" where
  "handle_bsegment dirname videoId segment st =
     (let segmentPath = path_join (HLS_DIR dirname) [videoId, segment] in
      if \<not> path_exists segmentPath (files st) then B_error 404 ''Segment not found''
      else (case files st segmentPath of
              Some (File c) \<Rightarrow> B_stream segmentPath c
            | _ \<Rightarrow> B_stream_error segmentPath))"

text \<open>\<open>GET /api/info/:videoId\<close> (lines 233--245).\<close>

definition handle_binfo :: "string \<Rightarrow> bstate \<Rightarrow> batch_response" where
  "handle_binfo videoId st =
     (case cache_get (clock (bsrv st)) videoId (cache (bsrv st)) of
        Some md \<Rightarrow> B_info md
      | None \<Rightarrow> B_error 404 ''Video info not found'')"

subsection \<open>Serving a request\<close>

text \<open>The GET routes in registration order (lines 188, 211, 233).\<close>

definition routes_batch :: "(string \<times> handler) list" where
  "routes_batch =
     [(''/stream/:videoId/master.m3u8'', H_master),
      (''/stream/:videoId/:segment'', H_segment),
      (''/api/info/:videoId'', H_info)]"

datatype batch_request =
  Get string
| Post string "string option" "string option" \<comment> \<open>path, \<open>youtubeUrl\<close>, \<open>quality\<close>\<close>

text \<open>
  A request: \<open>express.static('public')\<close> (line 20) answers a GET for which the
  public directory has a file, given as the map \<open>pub\<close> from request paths to contents;
  then the routes. A POST reaches only \<open>/api/process\<close>.
\<close>

definition serve_batch ::
  "converter \<Rightarrow> upstream \<Rightarrow> (string \<rightharpoonup> string) \<Rightarrow> path \<Rightarrow> batch_request \<Rightarrow> bstate
   \<Rightarrow> batch_response \<times> bstate" where
  "serve_batch conv up pub dirname req st =
     (case req of
        Get p \<Rightarrow>
          (case pub p of
             Some c \<Rightarrow> (B_static c, st)
           | None \<Rightarrow>
               (case dispatch routes_batch p of
                  Some (H_master, ps) \<Rightarrow> (handle_bmaster dirname (param ps ''videoId'') st, st)
                | Some (H_segment, ps) \<Rightarrow>
                    (handle_bsegment dirname (param ps ''videoId'') (param ps ''segment'') st, st)
                | Some (H_info, ps) \<Rightarrow> (handle_binfo (param ps ''videoId'') st, st)
                | _ \<Rightarrow> (B_not_found, st)))
      | Post p u q \<Rightarrow>
          (if match_route (parse_route ''/api/process'') p \<noteq> None
           then handle_process conv up dirname u q st
           else (B_not_found, st)))"

text \<open>A sequence of requests, each served in the state the previous one left.\<close>

fun batch_run ::
  "converter \<Rightarrow> upstream \<Rightarrow> (string \<rightharpoonup> string) \<Rightarrow> path \<Rightarrow> batch_request list \<Rightarrow> bstate
   \<Rightarrow> batch_response list \<times> bstate" where
  "batch_run conv up pub dirname [] st = ([], st)"
| "batch_run conv up pub dirname (r # rs) st =
     (let (x, st1) = serve_batch conv up pub dirname r st;
          (xs, st2) = batch_run conv up pub dirname rs st1 in (x # xs, st2))"

subsection \<open>Lemmas\<close>

lemma split_on_not_Nil [simp]: "split_on c s \<noteq> []"
  by (induction s) (auto simp: Let_def)

lemma split_on_no_sep [simp]: "c \<notin> set s \<Longrightarrow> split_on c s = [s]"
  by (induction s) auto

lemma split_on_sep_free: "x \<in> set (split_on c s) \<Longrightarrow> c \<notin> set x"
proof (induction s arbitrary: x)
  case Nil
  then show ?case by simp
next
  case (Cons y ys)
  then show ?case
    by (cases "split_on c ys") (auto simp: Let_def split: if_splits)
qed

lemma norm_comps_append:
  "norm_comps acc (xs @ ys) = norm_comps (rev (norm_comps acc xs)) ys"
  by (induction acc xs rule: norm_comps.induct) auto

lemma norm_comps_plain:
  "list_all plain_comp cs \<Longrightarrow> norm_comps acc cs = rev acc @ cs"
  by (induction cs arbitrary: acc) (auto simp: plain_comp_def)

lemma norm_comps_norm:
  "list_all plain_comp acc \<Longrightarrow> \<forall>c \<in> set cs. CHR ''/'' \<notin> set c \<Longrightarrow> norm_path (norm_comps acc cs)"
proof (induction acc cs rule: norm_comps.induct)
  case (1 acc)
  then show ?case by (simp add: norm_path_def)
next
  case (2 acc c cs)
  then show ?case by (cases acc) (auto simp: plain_comp_def)
qed

lemma concat_split_plain:
  "list_all plain_comp cs \<Longrightarrow> concat (map (split_on CHR ''/'') cs) = cs"
  by (induction cs) (auto simp: plain_comp_def)

lemma path_join_norm: "norm_path base \<Longrightarrow> norm_path (path_join base parts)"
  unfolding path_join_def
  by (rule norm_comps_norm) (auto simp: norm_path_def dest: split_on_sep_free)

lemma path_join_plain:
  "norm_path base \<Longrightarrow> list_all plain_comp parts \<Longrightarrow> path_join base parts = base @ parts"
  by (simp add: path_join_def concat_split_plain norm_comps_plain norm_path_def)

lemma path_join_assoc:
  assumes "norm_path base"
  shows "path_join (path_join base xs) ys = path_join base (xs @ ys)"
proof -
  have "norm_path (path_join base xs)" using path_join_norm [OF assms] .
  then have "concat (map (split_on CHR ''/'') (path_join base xs)) = path_join base xs"
    by (simp add: concat_split_plain norm_path_def)
  then show ?thesis
    by (simp add: path_join_def norm_comps_append)
qed

lemma path_join_dotdot:
  "path_join (base @ [x]) (''..'' # parts) = path_join base parts"
  by (simp add: path_join_def)

lemma HLS_DIR_eq: "norm_path dirname \<Longrightarrow> HLS_DIR dirname = dirname @ [''hls-content'']"
  by (simp add: HLS_DIR_def path_join_plain plain_comp_def)


lemma parse_bsegment: "parse_route ''/stream/:videoId/:segment''
    = [Lit ''/stream/'', Param ''videoId'', Lit ''/'', Param ''segment'']"
  by (simp add: parse_route.simps is_word_char_def id_char_def js_simps)

lemma parse_process: "parse_route ''/api/process'' = [Lit ''/api/process'']"
  by (simp add: parse_route.simps)

lemma match_param_last:
  assumes "w \<noteq> []" "CHR ''/'' \<notin> set w"
  shows "match_route [Param m] w = Some [(m, w)]"
proof -
  let ?f = "\<lambda>k. map_option (\<lambda>ps. (m, take k w) # ps) (match_route [] (drop k w))"
  have none: "\<forall>j. 1 \<le> j \<and> j < length w \<longrightarrow> ?f j = None"
  proof (intro allI impI)
    fix j assume j: "1 \<le> j \<and> j < length w"
    then have "drop j w \<noteq> []" by simp
    moreover have "drop j w \<noteq> ''/''"
      using assms(2) set_drop_subset [of j w] by (metis insert_subset list.set(2) in_mono)
    ultimately show "?f j = None" by simp
  qed
  have "first_some ?f [1..<Suc (seg_len w)] = ?f (length w)"
    using assms none by (intro first_some_upt_eq) (auto simp: seg_len_no_slash Suc_le_eq)
  then show ?thesis by simp
qed

lemma match_bsegment:
  assumes "v \<noteq> []" "CHR ''/'' \<notin> set v" "w \<noteq> []" "CHR ''/'' \<notin> set w"
  shows "match_route (parse_route ''/stream/:videoId/:segment'') (''/stream/'' @ v @ CHR ''/'' # w)
         = Some [(''videoId'', v), (''segment'', w)]"
proof -
  have "match_route [Lit ''/'', Param ''segment''] (CHR ''/'' # w) = Some [(''segment'', w)]"
    using match_lit_append [of "''/''" "[Param ''segment'']" w] match_param_last [OF assms(3,4)] by simp
  then show ?thesis
    unfolding parse_bsegment match_lit_append using match_param_slash [OF assms(1,2), of "''videoId''" "[]"]
    by simp
qed

lemma match_lit_end_Some:
  assumes "match_route [Lit e] t \<noteq> None" "CHR ''/'' \<notin> set (drop (length e) t)"
  shows "map ascii_lower t = map ascii_lower e"
proof -
  from assms(1) have l: "lit_match e t" and d: "drop (length e) t = [] \<or> drop (length e) t = ''/''"
    by (simp_all split: if_splits)
  from d assms(2) have "drop (length e) t = []" by auto
  with l show ?thesis by (simp add: lit_match_def)
qed

lemma match_bmaster_other:
  assumes "CHR ''/'' \<notin> set w" "map ascii_lower w \<noteq> ''master.m3u8''"
  shows "match_route [Lit ''/master.m3u8''] (CHR ''/'' # w) = None"
proof (rule ccontr)
  assume m: "match_route [Lit ''/master.m3u8''] (CHR ''/'' # w) \<noteq> None"
  have "CHR ''/'' \<notin> set (drop (length ''/master.m3u8'') (CHR ''/'' # w))"
    using assms(1) by (auto dest: in_set_dropD)
  from match_lit_end_Some [OF m this] assms(2) show False by (simp add: ascii_lower_def)
qed

lemma dispatch_batch_segment:
  assumes "v \<noteq> []" "CHR ''/'' \<notin> set v" "w \<noteq> []" "CHR ''/'' \<notin> set w"
    "map ascii_lower w \<noteq> ''master.m3u8''"
  shows "dispatch routes_batch (''/stream/'' @ v @ CHR ''/'' # w)
         = Some (H_segment, [(''videoId'', v), (''segment'', w)])"
proof -
  have "match_route (parse_route ''/stream/:videoId/master.m3u8'') (''/stream/'' @ v @ CHR ''/'' # w) = None"
    unfolding parse_master match_lit_append
    using match_param_slash [OF assms(1,2), of "''videoId''" "''master.m3u8''" "[]" w]
      match_bmaster_other [OF assms(4,5)] by simp
  with match_bsegment [OF assms(1-4)] show ?thesis by (simp add: routes_batch_def)
qed


lemma serve_batch_get:
  "pub p = None \<Longrightarrow> dispatch routes_batch p = Some (h, ps) \<Longrightarrow>
   serve_batch conv up pub dirname (Get p) st
   = ((case h of H_master \<Rightarrow> handle_bmaster dirname (param ps ''videoId'') st
       | H_segment \<Rightarrow> handle_bsegment dirname (param ps ''videoId'') (param ps ''segment'') st
       | H_info \<Rightarrow> handle_binfo (param ps ''videoId'') st
       | _ \<Rightarrow> B_not_found), st)"
  by (cases h) (simp_all add: serve_batch_def)

text \<open>
  C11: the batch server serves files outside its HLS directory. The
  request \<open>GET /stream/../<name>\<close> matches \<open>/stream/:videoId/:segment\<close> with
  \<open>videoId = ..\<close>, and \<open>path.join(HLS_DIR, '..', name)\<close> is \<open>name\<close> in the script's own
  directory: any file there (the server's source, its configuration) is streamed.
\<close>

theorem batch_stream_traversal:
  assumes "norm_path dirname" "plain_comp name" "name \<noteq> ''hls-content''"
    "map ascii_lower name \<noteq> ''master.m3u8''"
    "pub (''/stream/../'' @ name) = None" "files st (dirname @ [name]) = Some (File c)"
  shows "serve_batch conv up pub dirname (Get (''/stream/../'' @ name)) st = (B_stream (dirname @ [name]) c, st)
         \<and> \<not> prefix (HLS_DIR dirname) (dirname @ [name])"
proof
  have n: "name \<noteq> []" "CHR ''/'' \<notin> set name" using assms(2) by (auto simp: plain_comp_def)
  have d: "dispatch routes_batch (''/stream/../'' @ name) = Some (H_segment, [(''videoId'', ''..''), (''segment'', name)])"
    using dispatch_batch_segment [of "''..''" name, OF _ _ n assms(4)] by simp
  have j: "path_join (HLS_DIR dirname) [''..'', name] = dirname @ [name]"
    using assms(1,2) by (simp add: HLS_DIR_eq path_join_dotdot path_join_plain)
  show "serve_batch conv up pub dirname (Get (''/stream/../'' @ name)) st = (B_stream (dirname @ [name]) c, st)"
    unfolding serve_batch_get [where pub = pub and p = "''/stream/../'' @ name", OF assms(5) d]
    by (simp add: param_def handle_bsegment_def j path_exists_def assms(6))
  show "\<not> prefix (HLS_DIR dirname) (dirname @ [name])"
    using assms(1,3) by (simp add: HLS_DIR_eq)
qed


lemma match_v_Nil: "match_v u = Some v \<Longrightarrow> u \<noteq> []"
  by auto

lemma process_route: "match_route (parse_route ''/api/process'') ''/api/process'' = Some []"
  by (simp add: parse_process)

lemma remove_tree_below: "{p. prefix d p} \<inter> dom (remove_tree d f) = {}"
  by (auto simp: remove_tree_def)

lemma path_join_HLS_dotdot:
  "norm_path dirname \<Longrightarrow> path_join (HLS_DIR dirname) [''..''] = dirname"
  using path_join_plain [of dirname "[]"] by (simp add: HLS_DIR_eq path_join_dotdot)

text \<open>
  C12: \<open>POST /api/process\<close> with a URL whose \<open>v=\<close> parameter is \<open>..\<close> converts
  into \<open>path.join(HLS_DIR, '..')\<close>, the script's own directory; when ffmpeg then fails,
  \<open>fs.remove(videoDir)\<close> deletes that directory with everything below it (the
  sources and all converted videos), and the reply is the generic 500.
\<close>

theorem batch_process_dotdot_wipes_app_dir:
  assumes "norm_path dirname" "match_v u = Some ''..''"
    "cache_get (clock (bsrv st)) ''..'' (cache (bsrv st)) = None"
    "fetchYouTubeData_p000 up u (bsrv st) = (Some (Inr d), s1)"
    "select_format (case q of None \<Rightarrow> ''720p'' | Some x \<Rightarrow> x) (formats d) = Some f"
    "files st (dirname @ [''master.m3u8'']) = None"
    "ensure_dir dirname (files st) = Some f1"
    "conv (furl f) = Conv_fail e"
  shows "\<exists>st'. serve_batch conv up pub dirname (Post ''/api/process'' (Some u) q) st = (errorHandler, st')
           \<and> {p. prefix dirname p} \<inter> dom (files st') = {}"
proof -
  have out: "path_join dirname [''master.m3u8''] = dirname @ [''master.m3u8'']"
    using assms(1) by (simp add: path_join_plain plain_comp_def)
  have c: "convertToHLS conv dirname (furl f) ''..'' (files st)
      = (Inl (''HLS conversion failed: '' @ e), remove_tree dirname f1)"
    using assms(6-8) by (simp add: convertToHLS_def path_join_HLS_dotdot [OF assms(1)] out path_exists_def)
  have "serve_batch conv up pub dirname (Post ''/api/process'' (Some u) q) st
      = (errorHandler, \<lparr>bsrv = s1, files = remove_tree dirname f1\<rparr>)"
    using match_v_Nil [OF assms(2)] assms(2-5) c
    by (simp add: serve_batch_def process_route handle_process_def)
  then show ?thesis using remove_tree_below by auto
qed


lemma match_v_not_Nil: "match_v u = Some v \<Longrightarrow> v \<noteq> []"
  by (induction u) (auto simp: Let_def split: if_splits)

lemma serve_batch_post:
  "serve_batch conv up pub dirname (Post p u q) st = (B_process vid url c md, st1) \<Longrightarrow>
   handle_process conv up dirname u q st = (B_process vid url c md, st1)"
  by (simp add: serve_batch_def split: if_splits)

lemma handle_process_converted:
  "handle_process conv up dirname (Some u) q st = (B_process vid url False md, st1) \<Longrightarrow>
   \<exists>x out. match_v u = Some vid \<and> url = stream_url vid
     \<and> convertToHLS conv dirname x vid (files st) = (Inr out, files st1)"
  by (auto simp: handle_process_def errorHandler_def Let_def
      split: if_splits option.splits sum.splits prod.splits; blast)

lemma convertToHLS_readable:
  assumes "convertToHLS conv dirname x vid f = (Inr out, f')"
    "f (path_join (path_join (HLS_DIR dirname) [vid]) [''master.m3u8'']) \<noteq> Some Dir"
  shows "\<exists>m. read_file (path_join (path_join (HLS_DIR dirname) [vid]) [''master.m3u8'']) f' = Some m"
  using assms
  by (cases "f (path_join (path_join (HLS_DIR dirname) [vid]) [''master.m3u8''])")
     (auto simp: convertToHLS_def Let_def path_exists_def read_file_def hls_outputs_def
      split: if_splits option.splits conv_outcome.splits fs_node.splits)

lemma norm_path_HLS_DIR: "norm_path dirname \<Longrightarrow> norm_path (HLS_DIR dirname)"
  by (simp add: HLS_DIR_eq norm_path_def plain_comp_def)

lemma dispatch_batch_master:
  assumes "vid \<noteq> []" "CHR ''/'' \<notin> set vid"
  shows "dispatch routes_batch (stream_url vid) = Some (H_master, [(''videoId'', vid)])"
proof -
  have "match_route (parse_route ''/stream/:videoId/master.m3u8'') (stream_url vid) = Some [(''videoId'', vid)]"
    unfolding parse_master stream_url_def match_lit_append
    using match_param_slash_lit [OF assms, of "''videoId''" "''master.m3u8''" "[]" "[]"] by simp
  then show ?thesis by (simp add: routes_batch_def)
qed

text \<open>
  C13: a successful, uncached \<open>POST /api/process\<close> leaves a playlist
  that its \<open>streamUrl\<close> serves: the next \<open>GET\<close> of that URL answers the contents of
  \<open>master.m3u8\<close>, provided the identifier has no slash (otherwise no route matches the
  URL) and \<open>master.m3u8\<close> was not a directory.
\<close>

theorem batch_process_then_stream:
  assumes "norm_path dirname" "CHR ''/'' \<notin> set vid"
    "serve_batch conv up pub dirname (Post p (Some u) q) st = (B_process vid url False md, st1)"
    "files st (path_join (HLS_DIR dirname) [vid, ''master.m3u8'']) \<noteq> Some Dir"
    "pub url = None"
  shows "\<exists>m. serve_batch conv up pub dirname (Get url) st1 = (B_playlist m, st1)"
proof -
  obtain x out where v: "match_v u = Some vid" and url: "url = stream_url vid"
    and c: "convertToHLS conv dirname x vid (files st) = (Inr out, files st1)"
    using handle_process_converted [OF serve_batch_post [OF assms(3)]] by blast
  have j: "path_join (path_join (HLS_DIR dirname) [vid]) [''master.m3u8'']
      = path_join (HLS_DIR dirname) [vid, ''master.m3u8'']"
    using path_join_assoc [OF norm_path_HLS_DIR [OF assms(1)]] by simp
  obtain m where m: "read_file (path_join (HLS_DIR dirname) [vid, ''master.m3u8'']) (files st1) = Some m"
    using convertToHLS_readable [OF c] assms(4) unfolding j by blast
  have d: "dispatch routes_batch url = Some (H_master, [(''videoId'', vid)])"
    unfolding url by (rule dispatch_batch_master [OF match_v_not_Nil [OF v] assms(2)])
  have "serve_batch conv up pub dirname (Get url) st1 = (B_playlist m, st1)"
    unfolding serve_batch_get [where pub = pub and p = url, OF assms(5) d] using m
    by (simp add: param_def handle_bmaster_def path_exists_def read_file_def split: option.splits fs_node.splits)
  then show ?thesis by blast
qed

end
