(* ===== verification/Batch_Concurrency.thy ===== *)
theory Batch_Concurrency
  imports Batch
begin

text \<open>
  Interleaved \<open>POST /api/process\<close> requests of the batch server of
  src/unnamed/part_000. The handler (124--185) suspends in \<open>convertToHLS\<close> while
  ffmpeg runs (85--120): what it does before (validation, cache lookup, resolution,
  format choice, the \<open>pathExists\<close> check and \<open>ensureDir\<close>) is one step, what the
  ffmpeg \<open>end\<close> or \<open>error\<close> event does (write the output or remove the directory,
  then \<open>cache.set\<close> and the reply) is another, and Node may run other requests in
  between. The split is coarser than Node's (which also suspends at the fetch and
  at each file-system call), so every interleaving of this model is one Node can
  take. Run one request at a time, the split is \<open>handle_process\<close>, and the server
  keeps the playlist of every cached identifier that is a plain directory name on
  disk. Interleaved, it does not.
\<close>

subsection \<open>The two halves of \<open>/api/process\<close>\<close>

text \<open>Where a request is after a step: answered, or waiting for ffmpeg on the format
  URL, with the identifier, the metadata to cache, the video directory and the
  playlist path.\<close>

datatype pphase =
    Pp_done batch_response
  | Pp_convert string meta "string option" path path

text \<open>Lines 168--183: \<open>cache.set(videoId, ...)\<close> under the clock of that moment and
  the reply.\<close>

definition process_store :: "string \<Rightarrow> meta \<Rightarrow> bstate \<Rightarrow> batch_response \<times> bstate" where
  "process_store videoId md st =
     (B_process videoId (stream_url videoId) False md,
      st\<lparr>bsrv := (bsrv st)\<lparr>cache := cache_set (clock (bsrv st)) batch_ttl videoId md (cache (bsrv st))\<rparr>\<rparr>)"

text \<open>Lines 124--166 and 74--83: up to the start of ffmpeg.\<close>

definition process_start ::
  "upstream \<Rightarrow> path \<Rightarrow> string option \<Rightarrow> string option \<Rightarrow> bstate \<Rightarrow> pphase \<times> bstate" where
  "process_start up dirname youtubeUrl q st =
     (case youtubeUrl of
        None \<Rightarrow> (Pp_done (B_error 400 ''YouTube URL is required''), st)
      | Some u \<Rightarrow>
          if u = [] then (Pp_done (B_error 400 ''YouTube URL is required''), st)
          else
            (case match_v u of
               None \<Rightarrow> (Pp_done (B_error 400 ''Invalid YouTube URL''), st)
             | Some videoId \<Rightarrow>
                 (let s = bsrv st; quality = (case q of None \<Rightarrow> ''720p'' | Some x \<Rightarrow> x) in
                  case cache_get (clock s) videoId (cache s) of
                    Some md \<Rightarrow> (Pp_done (B_process videoId (stream_url videoId) True md), st)
                  | None \<Rightarrow>
                      (case fetchYouTubeData_p000 up u s of
                         (Some (Inr d), s1) \<Rightarrow>
                           (case select_format quality (formats d) of
                              None \<Rightarrow> (Pp_done (B_error 404 ''No suitable video format found''), st\<lparr>bsrv := s1\<rparr>)
                            | Some f \<Rightarrow>
                                (let videoDir = path_join (HLS_DIR dirname) [videoId];
                                     outputPath = path_join videoDir [''master.m3u8''] in
                                 if path_exists outputPath (files st)
                                 then apfst Pp_done (process_store videoId (meta_of d) (st\<lparr>bsrv := s1\<rparr>))
                                 else
                                   (case ensure_dir videoDir (files st) of
                                      None \<Rightarrow> (Pp_done errorHandler, st\<lparr>bsrv := s1\<rparr>)
                                    | Some f1 \<Rightarrow>
                                        (Pp_convert videoId (meta_of d) (furl f) videoDir outputPath,
                                         \<lparr>bsrv = s1, files = f1\<rparr>))))
                       | (_, s1) \<Rightarrow> (Pp_done errorHandler, st\<lparr>bsrv := s1\<rparr>)))))"

text \<open>Lines 85--120 and 168--183: ffmpeg's \<open>end\<close> (the output is written, the
  metadata cached) or \<open>error\<close> (\<open>fs.remove(videoDir)\<close>, the generic 500).\<close>

definition process_finish ::
  "string \<Rightarrow> meta \<Rightarrow> path \<Rightarrow> path \<Rightarrow> conv_outcome \<Rightarrow> bstate \<Rightarrow> batch_response \<times> bstate" where
  "process_finish videoId md videoDir outputPath r st =
     (case r of
        Conv_ok m segs \<Rightarrow> process_store videoId md (st\<lparr>files := hls_outputs videoDir outputPath m segs (files st)\<rparr>)
      | Conv_fail e \<Rightarrow> (errorHandler, st\<lparr>files := remove_tree videoDir (files st)\<rparr>))"

subsection \<open>Interleaved requests\<close>

datatype preq = Pr_new "string option" "string option" | Pr_at pphase

type_synonym bconc = "bstate \<times> preq list"

text \<open>One step of the server: a POST arrives with its \<open>youtubeUrl\<close> and \<open>quality\<close>;
  a new request runs up to ffmpeg; a conversion ends, with the outcome the
  converter gives for its input URL; or time passes.\<close>

inductive bconc_step :: "converter \<Rightarrow> upstream \<Rightarrow> path \<Rightarrow> bconc \<Rightarrow> bconc \<Rightarrow> bool"
  for conv :: converter and up :: upstream and dirname :: path where
  arrive: "bconc_step conv up dirname (st, rs) (st, rs @ [Pr_new u q])"
| start: "i < length rs \<Longrightarrow> rs ! i = Pr_new u q \<Longrightarrow> process_start up dirname u q st = (p, st') \<Longrightarrow>
    bconc_step conv up dirname (st, rs) (st', rs[i := Pr_at p])"
| finish: "i < length rs \<Longrightarrow> rs ! i = Pr_at (Pp_convert v md x dir out) \<Longrightarrow>
    process_finish v md dir out (conv x) st = (b, st') \<Longrightarrow>
    bconc_step conv up dirname (st, rs) (st', rs[i := Pr_at (Pp_done b)])"
| tick: "0 \<le> d \<Longrightarrow>
    bconc_step conv up dirname (st, rs) (st\<lparr>bsrv := (bsrv st)\<lparr>clock := clock (bsrv st) + d\<rparr>\<rparr>, rs)"

subsection \<open>What the server promises\<close>

text \<open>Every identifier with a cache entry (live or expired) that names a plain
  directory has its \<open>master.m3u8\<close> on disk, so the \<open>streamUrl\<close> of a cached reply
  can be served.\<close>

definition batch_files_ok :: "path \<Rightarrow> bstate \<Rightarrow> bool" where
  "batch_files_ok dirname st \<longleftrightarrow>
     (\<forall>k \<in> dom (cache (bsrv st)). plain_comp k \<longrightarrow>
        path_exists (path_join (HLS_DIR dirname) [k, ''master.m3u8'']) (files st))"

text \<open>A request whose \<open>v=\<close> value, if any, is a plain path component.\<close>

definition plain_request :: "batch_request \<Rightarrow> bool" where
  "plain_request req =
     (case req of
        Post _ (Some u) _ \<Rightarrow> (case match_v u of Some v \<Rightarrow> plain_comp v | None \<Rightarrow> True)
      | _ \<Rightarrow> True)"

subsection \<open>Lemmas\<close>

lemma fetch_retry_cache [simp]: "cache (snd (fetch_retry up u n delay i s)) = cache s"
proof (induction up u n delay i s rule: fetch_retry.induct)
  case (1 up u n delay i s)
  show ?case
  proof (cases "i < n")
    case False
    then show ?thesis by (simp add: fetch_retry.simps)
  next
    case True
    with "1" show ?thesis by (subst fetch_retry.simps) (auto simp: Let_def split: sum.split)
  qed
qed

lemma fetchYouTubeData_p000_cache [simp]: "cache (snd (fetchYouTubeData_p000 up u s)) = cache s"
  by (simp add: fetchYouTubeData_p000_def)

text \<open>Run without interruption, the two halves are \<open>handle_process\<close>.\<close>

lemma process_split:
  "handle_process conv up dirname yu q st =
     (case process_start up dirname yu q st of
        (Pp_done r, st1) \<Rightarrow> (r, st1)
      | (Pp_convert v md x dir out, st1) \<Rightarrow> process_finish v md dir out (conv x) st1)"
  by (auto simp: handle_process_def process_start_def process_finish_def process_store_def
      convertToHLS_def Let_def split: option.splits prod.splits sum.splits conv_outcome.splits)

subsubsection \<open>The file system only grows, except under \<open>fs.remove\<close>\<close>

lemma fold_mkdir_keeps:
  "f p \<noteq> None \<Longrightarrow> fold (\<lambda>p g. if g p = None then g(p \<mapsto> Dir) else g) ps f p \<noteq> None"
  by (induction ps arbitrary: f) auto

lemma ensure_dir_keeps:
  assumes "ensure_dir d f = Some f'" "f p \<noteq> None"
  shows "f' p \<noteq> None"
  using assms fold_mkdir_keeps [of f p "prefixes d"] unfolding ensure_dir_def by (auto split: if_splits)

lemma hls_outputs_keeps: "f p \<noteq> None \<Longrightarrow> hls_outputs dir out m segs f p \<noteq> None"
  by (simp add: hls_outputs_def map_add_def split: option.split)

lemma hls_outputs_out: "hls_outputs dir out m segs f out = Some (File m)"
  by (simp add: hls_outputs_def)

lemma plain_master [simp]: "plain_comp ''master.m3u8''"
  by (simp add: plain_comp_def)

lemma output_path:
  "norm_path dirname \<Longrightarrow>
   path_join (path_join (HLS_DIR dirname) [v]) [''master.m3u8''] = path_join (HLS_DIR dirname) [v, ''master.m3u8'']"
  using path_join_assoc [OF norm_path_HLS_DIR] by simp

text \<open>Removing one plain video directory keeps every other plain video's playlist.\<close>

lemma remove_tree_other_video:
  assumes "norm_path dirname" "plain_comp v" "plain_comp k" "k \<noteq> v"
  shows "remove_tree (path_join (HLS_DIR dirname) [v]) f (path_join (HLS_DIR dirname) [k, ''master.m3u8''])
         = f (path_join (HLS_DIR dirname) [k, ''master.m3u8''])"
  using assms norm_path_HLS_DIR [OF assms(1)]
  by (simp add: remove_tree_def path_join_plain)

subsubsection \<open>The invariant under each half\<close>

lemma batch_files_ok_grow:
  "batch_files_ok dirname st \<Longrightarrow> cache s = cache (bsrv st) \<Longrightarrow> (\<And>p. files st p \<noteq> None \<Longrightarrow> f p \<noteq> None) \<Longrightarrow>
   batch_files_ok dirname \<lparr>bsrv = s, files = f\<rparr>"
  by (simp add: batch_files_ok_def path_exists_def)

lemma process_store_ok:
  "batch_files_ok dirname st \<Longrightarrow> path_exists (path_join (HLS_DIR dirname) [v, ''master.m3u8'']) (files st) \<Longrightarrow>
   batch_files_ok dirname (snd (process_store v md st))"
  by (simp add: batch_files_ok_def process_store_def cache_set_def)

lemma fetchYouTubeData_p000_cache_eq: "fetchYouTubeData_p000 up u s = (r, s1) \<Longrightarrow> cache s1 = cache s"
  using fetchYouTubeData_p000_cache [of up u s] by simp

lemma batch_files_ok_bsrv [simp]:
  "cache s = cache (bsrv st) \<Longrightarrow> batch_files_ok dirname (st\<lparr>bsrv := s\<rparr>) = batch_files_ok dirname st"
  by (simp add: batch_files_ok_def)

lemma apfst_process_store [simp]:
  "apfst Pp_done (process_store v md st) = (Pp_done (B_process v (stream_url v) False md), snd (process_store v md st))"
  by (simp add: process_store_def)

lemma process_start_ok:
  assumes "norm_path dirname" "batch_files_ok dirname st" "process_start up dirname yu q st = (p, st')"
  shows "batch_files_ok dirname st'"
  using assms
  by (auto simp: process_start_def Let_def output_path path_exists_def
      dest!: fetchYouTubeData_p000_cache_eq intro!: batch_files_ok_grow process_store_ok dest: ensure_dir_keeps
      split: option.splits prod.splits sum.splits if_splits)

text \<open>A request suspended at ffmpeg converts into its own directory, its
  identifier comes from its URL, and, if plain, it is not cached.\<close>

lemma process_start_convert:
  assumes "norm_path dirname" "batch_files_ok dirname st"
    "process_start up dirname yu q st = (Pp_convert v md x dir out, st')"
  shows "(\<exists>u. yu = Some u \<and> match_v u = Some v) \<and> dir = path_join (HLS_DIR dirname) [v]
    \<and> out = path_join (HLS_DIR dirname) [v, ''master.m3u8'']
    \<and> (plain_comp v \<longrightarrow> v \<notin> dom (cache (bsrv st')))"
  using assms
  by (auto simp: process_start_def Let_def output_path batch_files_ok_def
      dest!: fetchYouTubeData_p000_cache_eq split: option.splits prod.splits sum.splits if_splits)

lemma process_finish_ok:
  assumes "norm_path dirname" "batch_files_ok dirname st" "plain_comp v" "v \<notin> dom (cache (bsrv st))"
    "dir = path_join (HLS_DIR dirname) [v]" "out = path_join (HLS_DIR dirname) [v, ''master.m3u8'']"
  shows "batch_files_ok dirname (snd (process_finish v md dir out r st))"
proof (cases r)
  case (Conv_ok m segs)
  have "batch_files_ok dirname (st\<lparr>files := hls_outputs dir out m segs (files st)\<rparr>)"
    using assms(2) by (simp add: batch_files_ok_def path_exists_def hls_outputs_keeps)
  moreover have "path_exists out (hls_outputs dir out m segs (files st))"
    by (simp add: path_exists_def hls_outputs_out)
  ultimately show ?thesis
    using Conv_ok assms(6) by (simp add: process_finish_def process_store_ok)
next
  case (Conv_fail e)
  have "\<forall>k \<in> dom (cache (bsrv st)). plain_comp k \<longrightarrow>
      path_exists (path_join (HLS_DIR dirname) [k, ''master.m3u8'']) (remove_tree dir (files st))"
  proof (intro ballI impI)
    fix k assume k: "k \<in> dom (cache (bsrv st))" "plain_comp k"
    then have "k \<noteq> v" using assms(4) by blast
    with k assms(2) show "path_exists (path_join (HLS_DIR dirname) [k, ''master.m3u8'']) (remove_tree dir (files st))"
      unfolding assms(5) by (simp add: batch_files_ok_def path_exists_def remove_tree_other_video [OF assms(1,3)])
  qed
  then show ?thesis using Conv_fail by (simp add: process_finish_def batch_files_ok_def)
qed

text \<open>The interleaved system, running one request alone, reaches the answer and the
  state of \<open>handle_process\<close>.\<close>

lemma bconc_solo_run:
  "(bconc_step conv up dirname)\<^sup>*\<^sup>* (st, [])
     (snd (handle_process conv up dirname yu q st), [Pr_at (Pp_done (fst (handle_process conv up dirname yu q st)))])"
proof -
  obtain p st1 where s: "process_start up dirname yu q st = (p, st1)" by fastforce
  have "bconc_step conv up dirname (st, []) (st, [Pr_new yu q])"
    using bconc_step.arrive [of conv up dirname st "[]"] by simp
  moreover have "bconc_step conv up dirname (st, [Pr_new yu q]) (st1, [Pr_at p])"
    using bconc_step.start [of 0 "[Pr_new yu q]" yu q up dirname st p st1 conv] s by simp
  ultimately have run: "(bconc_step conv up dirname)\<^sup>*\<^sup>* (st, []) (st1, [Pr_at p])" by auto
  show ?thesis
  proof (cases p)
    case (Pp_done r)
    with run s show ?thesis by (simp add: process_split)
  next
    case (Pp_convert v md x dir out)
    obtain b st2 where f: "process_finish v md dir out (conv x) st1 = (b, st2)" by fastforce
    have "bconc_step conv up dirname (st1, [Pr_at p]) (st2, [Pr_at (Pp_done b)])"
      using bconc_step.finish [of 0 "[Pr_at p]" v md x dir out conv st1 b st2 up dirname] f Pp_convert by simp
    with run s f Pp_convert show ?thesis by (simp add: process_split rtranclp.rtrancl_into_rtrancl)
  qed
qed

subsubsection \<open>Requests served one at a time\<close>

lemma handle_process_ok:
  assumes "norm_path dirname" "batch_files_ok dirname st"
    "\<forall>u v. yu = Some u \<longrightarrow> match_v u = Some v \<longrightarrow> plain_comp v"
  shows "batch_files_ok dirname (snd (handle_process conv up dirname yu q st))"
proof (cases "process_start up dirname yu q st")
  case (Pair p st1)
  have ok1: "batch_files_ok dirname st1" using process_start_ok [OF assms(1,2) Pair] .
  show ?thesis
  proof (cases p)
    case (Pp_done r)
    then show ?thesis using Pair ok1 by (simp add: process_split)
  next
    case (Pp_convert v md x dir out)
    then have c: "(\<exists>u. yu = Some u \<and> match_v u = Some v) \<and> dir = path_join (HLS_DIR dirname) [v]
        \<and> out = path_join (HLS_DIR dirname) [v, ''master.m3u8'']
        \<and> (plain_comp v \<longrightarrow> v \<notin> dom (cache (bsrv st1)))"
      using process_start_convert [OF assms(1,2)] Pair by blast
    then have "plain_comp v" using assms(3) by blast
    with c have "batch_files_ok dirname (snd (process_finish v md dir out (conv x) st1))"
      using process_finish_ok [OF assms(1) ok1] by blast
    then show ?thesis using Pair Pp_convert by (simp add: process_split)
  qed
qed

lemma serve_batch_ok:
  assumes "norm_path dirname" "plain_request req" "batch_files_ok dirname st"
  shows "batch_files_ok dirname (snd (serve_batch conv up pub dirname req st))"
proof (cases req)
  case (Get p)
  then show ?thesis using assms(3)
    by (simp add: serve_batch_def split: option.split prod.split handler.split)
next
  case (Post p yu q)
  have "\<forall>u v. yu = Some u \<longrightarrow> match_v u = Some v \<longrightarrow> plain_comp v"
    using assms(2) Post by (auto simp: plain_request_def)
  then show ?thesis using Post assms(3) handle_process_ok [OF assms(1) assms(3)]
    by (simp add: serve_batch_def)
qed

text \<open>
  C29: served one request at a time, the batch server of src/unnamed/part_000 keeps
  its cache honest: after any sequence of requests whose \<open>v=\<close> values are plain
  directory names, every cached identifier that is a plain name still has its
  \<open>master.m3u8\<close> on disk, so the \<open>streamUrl\<close> of a cached reply can be served. (A
  \<open>v=\<close> of \<open>..\<close> breaks this: the failed conversion removes the whole application
  directory.)
\<close>

theorem batch_run_files_ok:
  assumes "norm_path dirname" "list_all plain_request reqs" "batch_files_ok dirname st"
  shows "batch_files_ok dirname (snd (batch_run conv up pub dirname reqs st))"
  using assms(2,3)
proof (induction reqs arbitrary: st)
  case Nil
  then show ?case by simp
next
  case (Cons r rs)
  obtain x st1 where s1: "serve_batch conv up pub dirname r st = (x, st1)" by fastforce
  have "batch_files_ok dirname st1"
    using serve_batch_ok [OF assms(1), of r st conv up pub] Cons.prems s1 by simp
  with Cons.IH Cons.prems s1 show ?case by (simp add: case_prod_beta)
qed

end
