(* ===== verification/Lifecycle.thy ===== *)
theory Lifecycle
  imports HLS_Prelude
begin

text \<open>
  The lifecycle of one segment request once its handler runs: the awaited
  resolution completes (and ffmpeg is spawned) or fails, ffmpeg writes to its
  standard output, which is piped to the response, its output ends, it exits, and
  the client may disconnect at any moment. Node runs each of these as an event; the
  model is a step function on a request's state, a predicate saying which events
  can occur in a state, and the reachable states as an inductive predicate.
  \<^item> In src/index.js (\<open>runFFmpeg\<close>, 117--135) and src/unnamed/part_002 (231--242)
    the kill-on-close listener (\<open>res.on('close', () => ffmpeg.kill('SIGTERM'))\<close>) is
    registered when ffmpeg is spawned, no \<open>'error'\<close> listener exists, and a non-zero
    exit is only logged.
  \<^item> In src/unnamed/part_001 (199--237) and the second server of src/unnamed/part_000
    (399--433) an \<open>'error'\<close> listener and the \<open>'close'\<close> listener answer 500 when no
    header has been sent yet.
  A listener registered after its event has fired never runs: a client that
  disconnects while the handler awaits the resolution is never noticed. Node emits
  a child's \<open>'close'\<close> only after its standard output has ended, and the pipe ends
  the response when the output ends; the enabling condition of \<open>Proc_close\<close>
  says so. A response the client has closed is destroyed: when ffmpeg's first
  chunk reaches it through \<open>ffmpeg.stdout.pipe(res)\<close> (src/index.js 119), the write
  fails and returns \<open>false\<close>, so the pipe pauses ffmpeg's output waiting for a
  \<open>'drain'\<close> that never comes; once the operating system's pipe buffer is full (a
  ten-second segment is far larger) ffmpeg blocks on its write. Unless SIGTERM was
  sent, the request is then stalled: its output never ends and ffmpeg never exits.
\<close>

datatype proc_state = No_proc | Running | Exited int

datatype lc_event =
    Resolve_ok          \<comment> \<open>the awaited resolution returns; ffmpeg is spawned, listeners attached\<close>
  | Resolve_fail        \<comment> \<open>it throws; the \<open>catch\<close> answers 500\<close>
  | Client_close        \<comment> \<open>the connection closes\<close>
  | Stdout_data nat     \<comment> \<open>ffmpeg writes bytes, piped to the response\<close>
  | Stdout_end          \<comment> \<open>ffmpeg's output ends; the pipe ends the response\<close>
  | Proc_close int      \<comment> \<open>the child's \<open>'close'\<close> event with its exit code\<close>
  | Spawn_error         \<comment> \<open>the child's \<open>'error'\<close> event (the binary cannot be started)\<close>

record lc =
  client_open :: bool
  resolved :: bool
  proc :: proc_state
  kill_on_close :: bool
  kill_sent :: bool
  stdout_ended :: bool
  headers_sent :: bool
  bytes_out :: nat
  res_ended :: bool
  status :: nat
  crashed :: bool
  stalled :: bool

text \<open>What distinguishes the servers' process handling.\<close>

record lc_cfg =
  has_error_listener :: bool
  error_on_exit :: bool

definition cfg_index :: lc_cfg where
  "cfg_index = \<lparr>has_error_listener = False, error_on_exit = False\<rparr>"

text \<open>\<open>runFFmpeg\<close> of src/unnamed/part_002 (231--245) attaches the same listeners as
  src/index.js: output piped, exit code only logged, no \<open>'error'\<close> listener, the kill
  on the response's \<open>'close'\<close>.\<close>

definition cfg_p002 :: lc_cfg where
  "cfg_p002 = \<lparr>has_error_listener = False, error_on_exit = False\<rparr>"

definition cfg_p001 :: lc_cfg where
  "cfg_p001 = \<lparr>has_error_listener = True, error_on_exit = True\<rparr>"

definition lc_init :: lc where
  "lc_init = \<lparr>client_open = True, resolved = False, proc = No_proc, kill_on_close = False,
     kill_sent = False, stdout_ended = False, headers_sent = False, bytes_out = 0,
     res_ended = False, status = 200, crashed = False, stalled = False\<rparr>"

fun lc_enabled :: "lc \<Rightarrow> lc_event \<Rightarrow> bool" where
  "lc_enabled s Resolve_ok = (\<not> resolved s)"
| "lc_enabled s Resolve_fail = (\<not> resolved s)"
| "lc_enabled s Client_close = client_open s"
| "lc_enabled s (Stdout_data n) = (proc s = Running \<and> \<not> stdout_ended s \<and> \<not> stalled s \<and> 0 < n)"
| "lc_enabled s Stdout_end = (proc s = Running \<and> \<not> stdout_ended s \<and> \<not> stalled s)"
| "lc_enabled s (Proc_close c) = (proc s = Running \<and> stdout_ended s)"
| "lc_enabled s Spawn_error = (proc s = Running \<and> \<not> stdout_ended s \<and> \<not> stalled s \<and> bytes_out s = 0)"

fun lc_step :: "lc_cfg \<Rightarrow> lc \<Rightarrow> lc_event \<Rightarrow> lc" where
  "lc_step cfg s Resolve_ok = s\<lparr>resolved := True, proc := Running, kill_on_close := True\<rparr>"
| "lc_step cfg s Resolve_fail =
     s\<lparr>resolved := True, headers_sent := True, res_ended := True, status := 500\<rparr>"
| "lc_step cfg s Client_close = s\<lparr>client_open := False, kill_sent := (kill_sent s \<or> kill_on_close s)\<rparr>"
| "lc_step cfg s (Stdout_data n) =
     (if client_open s then s\<lparr>headers_sent := True, bytes_out := bytes_out s + n\<rparr>
      else if kill_sent s then s
      else s\<lparr>stalled := True\<rparr>)"
| "lc_step cfg s Stdout_end = s\<lparr>stdout_ended := True, headers_sent := True, res_ended := True\<rparr>"
| "lc_step cfg s (Proc_close c) =
     (if error_on_exit cfg \<and> c \<noteq> 0 \<and> \<not> headers_sent s
      then s\<lparr>proc := Exited c, headers_sent := True, res_ended := True, status := 500\<rparr>
      else s\<lparr>proc := Exited c\<rparr>)"
| "lc_step cfg s Spawn_error =
     (if has_error_listener cfg
      then (if headers_sent s then s\<lparr>proc := Exited (-2), stdout_ended := True\<rparr>
            else s\<lparr>proc := Exited (-2), stdout_ended := True, headers_sent := True,
                   res_ended := True, status := 500\<rparr>)
      else s\<lparr>crashed := True\<rparr>)"

text \<open>A run of events, each enabled where it occurs.\<close>

fun lc_run :: "lc_cfg \<Rightarrow> lc \<Rightarrow> lc_event list \<Rightarrow> lc option" where
  "lc_run cfg s [] = Some s"
| "lc_run cfg s (e # es) = (if lc_enabled s e then lc_run cfg (lc_step cfg s e) es else None)"

inductive lc_reach :: "lc_cfg \<Rightarrow> lc \<Rightarrow> bool" for cfg :: lc_cfg where
  init: "lc_reach cfg lc_init"
| step: "lc_reach cfg s \<Longrightarrow> lc_enabled s e \<Longrightarrow> lc_reach cfg (lc_step cfg s e)"

text \<open>What every reachable state satisfies: the kill listener exists only once the
  resolution has returned, SIGTERM is sent only through it, and an ended output has
  sent the headers.\<close>

definition lc_inv :: "lc \<Rightarrow> bool" where
  "lc_inv s \<longleftrightarrow> (kill_on_close s \<longrightarrow> resolved s) \<and> (kill_sent s \<longrightarrow> kill_on_close s)
     \<and> (stdout_ended s \<longrightarrow> headers_sent s)"



subsection \<open>Lemmas\<close>

lemma lc_run_append:
  "lc_run cfg s (xs @ ys) = (case lc_run cfg s xs of None \<Rightarrow> None | Some t \<Rightarrow> lc_run cfg t ys)"
  by (induction xs arbitrary: s) auto

lemma lc_run_reach: "lc_reach cfg s \<Longrightarrow> lc_run cfg s es = Some t \<Longrightarrow> lc_reach cfg t"
  by (induction es arbitrary: s) (auto split: if_splits intro: lc_reach.step)

lemma lc_inv_step: "lc_inv s \<Longrightarrow> lc_enabled s e \<Longrightarrow> lc_inv (lc_step cfg s e)"
  by (cases e) (auto simp: lc_inv_def)

lemma lc_reach_inv: "lc_reach cfg s \<Longrightarrow> lc_inv s"
proof (induction rule: lc_reach.induct)
  case init
  show ?case by (simp add: lc_inv_def lc_init_def)
next
  case (step s e)
  from step.IH step.hyps(2) show ?case by (rule lc_inv_step)
qed

lemma lc_step_kill_sent: "kill_sent s \<Longrightarrow> kill_sent (lc_step cfg s e)"
  by (cases e) auto

lemma lc_run_kill_sent_mono: "lc_run cfg s es = Some t \<Longrightarrow> kill_sent s \<Longrightarrow> kill_sent t"
  by (induction es arbitrary: s) (auto split: if_splits dest: lc_step_kill_sent)

lemma lc_run_kill_after_close:
  "kill_on_close s \<Longrightarrow> lc_run cfg s es = Some t \<Longrightarrow> Client_close \<in> set es \<Longrightarrow> kill_sent t"
proof (induction es arbitrary: s)
  case Nil
  then show ?case by simp
next
  case (Cons e es)
  from Cons.prems(2) have en: "lc_enabled s e" and run: "lc_run cfg (lc_step cfg s e) es = Some t"
    by (auto split: if_splits)
  have koc: "kill_on_close (lc_step cfg s e)"
    using Cons.prems(1) by (cases e) auto
  show ?case
  proof (cases "e = Client_close")
    case True
    then have "kill_sent (lc_step cfg s e)" using Cons.prems(1) by simp
    with run show ?thesis by (rule lc_run_kill_sent_mono)
  next
    case False
    with Cons.prems(3) have "Client_close \<in> set es" by simp
    with koc run show ?thesis by (rule Cons.IH)
  qed
qed

text \<open>
  C6: in every run of a segment request, if the client disconnects after
  ffmpeg was spawned, SIGTERM is sent to ffmpeg (the \<open>res.on('close')\<close> listener
  fires), whichever events came in between.
\<close>

theorem kill_on_disconnect_after_spawn:
  assumes "lc_run cfg lc_init (es1 @ Resolve_ok # es2) = Some t" "Client_close \<in> set es2"
  shows "kill_sent t"
proof -
  from assms(1) obtain a where a: "lc_run cfg lc_init es1 = Some a"
    and en: "lc_enabled a Resolve_ok" and run: "lc_run cfg (lc_step cfg a Resolve_ok) es2 = Some t"
    by (auto simp: lc_run_append split: option.splits if_splits)
  have "kill_on_close (lc_step cfg a Resolve_ok)" by simp
  from this run assms(2) show ?thesis by (rule lc_run_kill_after_close)
qed

lemma lc_run_closed_no_kill:
  "\<not> client_open s \<Longrightarrow> lc_run cfg s es = Some t \<Longrightarrow> kill_sent t = kill_sent s"
proof (induction es arbitrary: s)
  case Nil
  then show ?case by simp
next
  case (Cons e es)
  from Cons.prems(2) have en: "lc_enabled s e" and run: "lc_run cfg (lc_step cfg s e) es = Some t"
    by (auto split: if_splits)
  with Cons.prems(1) have "e \<noteq> Client_close" by auto
  then have "\<not> client_open (lc_step cfg s e) \<and> kill_sent (lc_step cfg s e) = kill_sent s"
    using Cons.prems(1) by (cases e) auto
  with run Cons.IH show ?case by auto
qed

lemma lc_step_resolved: "resolved s \<Longrightarrow> resolved (lc_step cfg s e)"
  by (cases e) auto

lemma lc_step_client_open: "client_open (lc_step cfg s e) \<Longrightarrow> client_open s"
  by (cases e) (auto split: if_splits)

lemma lc_run_client_open: "lc_run cfg s es = Some t \<Longrightarrow> client_open t \<Longrightarrow> client_open s"
  by (induction es arbitrary: s) (auto split: if_splits dest: lc_step_client_open)

lemma lc_run_closed:
  "lc_run cfg s es = Some t \<Longrightarrow> Client_close \<in> set es \<Longrightarrow> \<not> client_open t"
proof (induction es arbitrary: s)
  case Nil
  then show ?case by simp
next
  case (Cons e es)
  from Cons.prems(1) have run: "lc_run cfg (lc_step cfg s e) es = Some t" by (auto split: if_splits)
  show ?case
  proof (cases "e = Client_close")
    case True
    then have "\<not> client_open (lc_step cfg s e)" by simp
    with run show ?thesis by (blast dest: lc_run_client_open)
  next
    case False
    with Cons.prems(2) have "Client_close \<in> set es" by simp
    with run show ?thesis by (rule Cons.IH)
  qed
qed

text \<open>
  C7: if the client disconnects while the handler is still awaiting the
  resolution, the close listener is attached after the event and never runs: ffmpeg
  is spawned anyway and is never signalled, whatever happens later.
\<close>

theorem no_kill_on_disconnect_before_spawn:
  assumes "lc_run cfg lc_init (es1 @ Resolve_ok # es2) = Some t" "Client_close \<in> set es1"
  shows "\<not> kill_sent t"
proof -
  from assms(1) obtain a where a: "lc_run cfg lc_init es1 = Some a"
    and en: "lc_enabled a Resolve_ok" and run: "lc_run cfg (lc_step cfg a Resolve_ok) es2 = Some t"
    by (auto simp: lc_run_append split: option.splits if_splits)
  have "lc_inv a" using lc_reach.init a by (blast intro: lc_run_reach lc_reach_inv)
  with en have "\<not> kill_sent a" by (auto simp: lc_inv_def)
  moreover have "\<not> client_open a" using a assms(2) by (rule lc_run_closed)
  ultimately have c: "\<not> client_open (lc_step cfg a Resolve_ok)"
    and k: "\<not> kill_sent (lc_step cfg a Resolve_ok)"
    by simp_all
  from lc_run_closed_no_kill [OF c run] k show ?thesis by simp
qed

text \<open>
  C33: in every reachable state, the child's \<open>'close'\<close> event never changes the
  response status: Node ends the piped response when ffmpeg's output ends, before
  \<open>'close'\<close>, so the 500 answer of src/unnamed/part_001 for a non-zero exit is dead
  code, and a transcode failure is answered 200 with whatever was written.
\<close>

theorem exit_status_not_reported:
  "lc_reach cfg s \<Longrightarrow> lc_enabled s (Proc_close c) \<Longrightarrow> status (lc_step cfg s (Proc_close c)) = status s"
  by (auto dest!: lc_reach_inv simp: lc_inv_def)

text \<open>In src/index.js and in src/unnamed/part_002 nothing listens for the child's
  \<open>'error'\<close> event, so an ffmpeg binary that cannot be started makes the event an
  uncaught exception and the server process crashes; src/unnamed/part_001 answers
  500 instead.\<close>

lemma spawn_error_crashes_index:
  "(\<exists>t. lc_run cfg_index lc_init [Resolve_ok, Spawn_error] = Some t \<and> crashed t \<and> status t = 200)
   \<and> (\<exists>t. lc_run cfg_p002 lc_init [Resolve_ok, Spawn_error] = Some t \<and> crashed t \<and> status t = 200)
   \<and> (\<exists>t. lc_run cfg_p001 lc_init [Resolve_ok, Spawn_error] = Some t \<and> \<not> crashed t \<and> status t = 500)"
  by (simp add: lc_init_def cfg_index_def cfg_p002_def cfg_p001_def)







end
