(* ===== verification/Concurrency.thy ===== *)
theory Concurrency
  imports Resolver
begin

text \<open>
  Concurrent requests of src/index.js sharing the format cache. \<open>getVideoFormats\<close>
  (62--81) suspends at \<open>await fetchYouTubeData(...)\<close> (73): what it does before the
  await (validation, cache lookup, issuing the upstream call) runs as one step,
  what it does after (filtering the formats, \<open>cache.set\<close>, returning) as another,
  and Node may run any other request's step, or let time pass, in between. The
  state of the system is the shared server state and the list of in-flight
  requests, each at its own phase; a step relation chooses the request that runs
  next, in the style of an open automaton with a global and local states.
\<close>

subsection \<open>The two halves of \<open>getVideoFormats\<close>\<close>

text \<open>Where a request is after a step: finished with its result, or suspended at
  the await with the upstream reply it will receive.\<close>

datatype gvf_phase = Ph_done "error + video_data" | Ph_await string api_response

text \<open>Lines 62--73: the identifier check, the cache lookup (skipped by
  \<open>forceRefresh\<close>) and the upstream call.\<close>

definition gvf_start ::
  "upstream \<Rightarrow> string \<Rightarrow> bool \<Rightarrow> video_data srv \<Rightarrow> gvf_phase \<times> video_data srv" where
  "gvf_start up vid force s =
     (if \<not> valid_video_id vid then (Ph_done (Inl Invalid_video_id), s)
      else
        let key = vid @ ''_formats'' in
        case (if force then None else cache_get (clock s) key (cache s)) of
          Some v \<Rightarrow> (Ph_done (Inr v), s)
        | None \<Rightarrow>
            let (r, s') = call_upstream up (watch_url vid) s in (Ph_await vid r, s'))"

text \<open>Lines 73--81, when the reply arrives: a failed reply is thrown, a valid one
  is filtered and stored under the clock of that moment.\<close>

definition gvf_finish ::
  "string \<Rightarrow> api_response \<Rightarrow> video_data srv \<Rightarrow> (error + video_data) \<times> video_data srv" where
  "gvf_finish vid r s =
     (case fetchYouTubeData r of
        Inl e \<Rightarrow> (Inl e, s)
      | Inr d \<Rightarrow>
          let d' = d\<lparr>formats := filter has_url (formats d)\<rparr>
          in (Inr d', s\<lparr>cache := cache_set (clock s) 18000000 (vid @ ''_formats'') d' (cache s)\<rparr>))"

subsection \<open>Interleaved requests\<close>

text \<open>An in-flight request: arrived with its identifier and \<open>forceRefresh\<close> and
  not yet run, or at a phase.\<close>

datatype req = Req_new string bool | Req_at gvf_phase

type_synonym conc = "video_data srv \<times> req list"

text \<open>One step of the system: a request arrives; a new request runs up to its
  await; a suspended request receives its reply and finishes; or time passes.\<close>

inductive conc_step :: "upstream \<Rightarrow> conc \<Rightarrow> conc \<Rightarrow> bool" for up :: upstream where
  arrive: "conc_step up (s, rs) (s, rs @ [Req_new vid force])"
| start: "i < length rs \<Longrightarrow> rs ! i = Req_new vid force \<Longrightarrow> gvf_start up vid force s = (q, s') \<Longrightarrow>
    conc_step up (s, rs) (s', rs[i := Req_at q])"
| finish: "i < length rs \<Longrightarrow> rs ! i = Req_at (Ph_await vid r) \<Longrightarrow> gvf_finish vid r s = (x, s') \<Longrightarrow>
    conc_step up (s, rs) (s', rs[i := Req_at (Ph_done x)])"
| tick: "0 \<le> d \<Longrightarrow> conc_step up (s, rs) (s\<lparr>clock := clock s + d\<rparr>, rs)"

inductive_cases conc_step_cases: "conc_step up c c'"

text \<open>What every state reached by interleaving keeps: the cache holds only formats
  with a URL, and so does every result already returned.\<close>

definition req_ok :: "req \<Rightarrow> bool" where
  "req_ok q \<longleftrightarrow> (case q of Req_at (Ph_done (Inr d)) \<Rightarrow> list_all has_url (formats d) | _ \<Rightarrow> True)"

definition conc_inv :: "conc \<Rightarrow> bool" where
  "conc_inv c \<longleftrightarrow> cache_formats_ok (cache (fst c)) \<and> list_all req_ok (snd c)"

subsection \<open>Lemmas\<close>

lemma list_all_update: "list_all P xs \<Longrightarrow> P x \<Longrightarrow> list_all P (xs[i := x])"
  by (induction xs arbitrary: i) (auto split: nat.split)

lemma gvf_start_ok:
  "cache_formats_ok (cache s) \<Longrightarrow> gvf_start up vid force s = (q, s') \<Longrightarrow>
   cache_formats_ok (cache s') \<and> req_ok (Req_at q)"
  by (auto simp: gvf_start_def call_upstream_def req_ok_def Let_def dest: cache_formats_ok_get
      split: if_splits option.splits)

lemma gvf_finish_ok:
  "cache_formats_ok (cache s) \<Longrightarrow> gvf_finish vid r s = (x, s') \<Longrightarrow>
   cache_formats_ok (cache s') \<and> req_ok (Req_at (Ph_done x))"
  by (auto simp: gvf_finish_def req_ok_def Let_def list_all_filter cache_formats_ok_set split: sum.splits)

lemma conc_step_inv: "conc_step up c c' \<Longrightarrow> conc_inv c \<Longrightarrow> conc_inv c'"
proof (induction rule: conc_step.induct)
  case (arrive s rs vid force)
  then show ?case by (simp add: conc_inv_def req_ok_def)
next
  case (start i rs vid force s q s')
  then show ?case by (auto simp: conc_inv_def intro: list_all_update dest: gvf_start_ok)
next
  case (finish i rs vid r s x s')
  then show ?case by (auto simp: conc_inv_def intro: list_all_update dest: gvf_finish_ok)
next
  case (tick d s rs)
  then show ?case by (simp add: conc_inv_def)
qed

text \<open>
  C18: however Node interleaves concurrent requests of src/index.js, and however
  much time passes between their steps, the shared cache only ever holds format
  lists in which every format has a URL, and every result a request has returned
  has that property: the invariant of the sequential model survives the
  suspension point.
\<close>

theorem conc_cache_inv:
  assumes "(conc_step up)\<^sup>*\<^sup>* c c'" "conc_inv c"
  shows "conc_inv c'"
  using assms by (induction rule: rtranclp_induct) (auto intro: conc_step_inv)

lemma call_upstream_clock [simp]: "clock (snd (call_upstream up u s)) = clock s"
  by (simp add: call_upstream_def)

lemma conc_solo_run:
  assumes "gvf_start up vid force s = (q, s1)"
  shows "(conc_step up)\<^sup>*\<^sup>* (s, []) (s1, [Req_at q])"
proof -
  have "conc_step up (s, []) (s, [Req_new vid force])" using conc_step.arrive [of up s "[]"] by simp
  moreover have "conc_step up (s, [Req_new vid force]) (s1, [Req_at q])"
    using conc_step.start [of 0 "[Req_new vid force]" vid force up s q s1] assms by simp
  ultimately show ?thesis by auto
qed

text \<open>
  Splitting \<open>getVideoFormats\<close> at its await refines the sequential model:
  its first half followed at once by its second half is \<open>getVideoFormats\<close>, and
  the concurrent system, running the request alone, reaches exactly the state and
  the result \<open>getVideoFormats\<close> gives.
\<close>

lemma getVideoFormats_split:
  "getVideoFormats up vid force s =
     (case gvf_start up vid force s of
        (Ph_done x, s1) \<Rightarrow> (x, s1)
      | (Ph_await v r, s1) \<Rightarrow> gvf_finish v r s1)
   \<and> (conc_step up)\<^sup>*\<^sup>* (s, [])
       (snd (getVideoFormats up vid force s), [Req_at (Ph_done (fst (getVideoFormats up vid force s)))])"
proof -
  have eq: "getVideoFormats up vid force s =
     (case gvf_start up vid force s of
        (Ph_done x, s1) \<Rightarrow> (x, s1)
      | (Ph_await v r, s1) \<Rightarrow> gvf_finish v r s1)"
    by (auto simp: getVideoFormats_def gvf_start_def gvf_finish_def call_upstream_def Let_def
        split: option.splits prod.splits sum.splits)
  obtain q s1 where g: "gvf_start up vid force s = (q, s1)" by fastforce
  have run: "(conc_step up)\<^sup>*\<^sup>* (s, []) (s1, [Req_at q])" using g by (rule conc_solo_run)
  have "(conc_step up)\<^sup>*\<^sup>* (s, [])
       (snd (getVideoFormats up vid force s), [Req_at (Ph_done (fst (getVideoFormats up vid force s)))])"
  proof (cases q)
    case (Ph_done x)
    with run g eq show ?thesis by simp
  next
    case (Ph_await v r)
    obtain x s2 where f: "gvf_finish v r s1 = (x, s2)" by fastforce
    have "conc_step up (s1, [Req_at q]) (s2, [Req_at (Ph_done x)])"
      using conc_step.finish [of 0 "[Req_at q]" v r s1 x s2 up] f Ph_await by simp
    with run g eq f Ph_await show ?thesis by (simp add: rtranclp.rtrancl_into_rtrancl)
  qed
  with eq show ?thesis by blast
qed

text \<open>No single-flight deduplication: while one request for an identifier waits
  for its reply, a second request for it misses the cache as well and makes its
  own upstream call (the spec allows this, recommending deduplication).\<close>

lemma conc_no_single_flight:
  assumes "gvf_start up vid False s = (Ph_await vid r, s1)"
  shows "gvf_start up vid False s1
         = (Ph_await vid (up (api_calls s1) (watch_url vid)), s1\<lparr>api_calls := Suc (api_calls s1)\<rparr>)"
  using assms by (auto simp: gvf_start_def call_upstream_def Let_def split: if_splits option.splits)

end
