(* ===== verification/Player.thy ===== *)
theory Player
  imports Router
begin

text \<open>
  The HTML players the servers send for \<open>GET /\<close>: a page with a text field
  pre-filled with \<open>tTPk-fSx5gc\<close> and a button whose \<open>loadVideo()\<close> trims the field,
  builds the stream URL \<open>/stream/<id>/master.m3u8\<close> and hands it to hls.js, or to
  the browser's native HLS support, or reports that HLS is not supported. The page
  markup is static text; \<open>loadVideo\<close> is modelled as the list of effects it has on
  the page, in order, for a browser described by what it supports. The listeners it
  attaches (playback on \<open>MANIFEST_PARSED\<close>, messages on hls.js errors) act on later
  events and are not modelled.
\<close>

subsection \<open>The browser side\<close>

text \<open>\<open>s.trim()\<close>: leading and trailing white space removed (the white space
  \<open>parseInt\<close> skips).\<close>

definition js_trim :: "string \<Rightarrow> string" where
  "js_trim s = rev (dropWhile is_js_space (rev (dropWhile is_js_space s)))"

text \<open>\<open>Hls.isSupported()\<close> and \<open>video.canPlayType('application/vnd.apple.mpegurl')\<close>.\<close>

record browser =
  hls_supported :: bool
  native_hls :: bool

datatype player_effect =
    Hls_load string      \<comment> \<open>\<open>new Hls()\<close>, \<open>hls.loadSource(url)\<close>, \<open>hls.attachMedia(video)\<close>\<close>
  | Native_src string    \<comment> \<open>\<open>video.src = url\<close>\<close>
  | Show_error string    \<comment> \<open>\<open>errorDiv.textContent = msg\<close>\<close>
  | Alert string         \<comment> \<open>\<open>alert(msg)\<close>\<close>

text \<open>The value of the text field when the page loads.\<close>

definition player_default_id :: string where
  "player_default_id = ''tTPk-fSx5gc''"

definition player_stream_url :: "string \<Rightarrow> string" where
  "player_stream_url videoId = ''/stream/'' @ videoId @ ''/master.m3u8''"

text \<open>\<open>loadVideo\<close> of src/index.js (315--331): no check of the field.\<close>

definition loadVideo_index :: "browser \<Rightarrow> string \<Rightarrow> player_effect list" where
  "loadVideo_index b v =
     (let url = player_stream_url (js_trim v) in
      if hls_supported b then [Hls_load url]
      else if native_hls b then [Native_src url]
      else [Show_error ''HLS not supported''])"

text \<open>src/unnamed/part_002 (306--322) has the same function.\<close>

definition loadVideo_p002 :: "browser \<Rightarrow> string \<Rightarrow> player_effect list" where
  "loadVideo_p002 b v =
     (let url = player_stream_url (js_trim v) in
      if hls_supported b then [Hls_load url]
      else if native_hls b then [Native_src url]
      else [Show_error ''HLS not supported''])"

text \<open>src/unnamed/part_001 (291--329): an empty field is reported; otherwise the
  message is cleared first.\<close>

definition loadVideo_p001 :: "browser \<Rightarrow> string \<Rightarrow> player_effect list" where
  "loadVideo_p001 b v =
     (let videoId = js_trim v; url = player_stream_url videoId in
      if videoId = [] then [Show_error ''Please enter a valid YouTube video ID'']
      else Show_error [] #
        (if hls_supported b then [Hls_load url]
         else if native_hls b then [Native_src url]
         else [Show_error ''HLS is not supported in this browser'']))"

text \<open>The second server of src/unnamed/part_000 (479--500): the same checks, reported
  with \<open>alert\<close>.\<close>

definition loadVideo_p000 :: "browser \<Rightarrow> string \<Rightarrow> player_effect list" where
  "loadVideo_p000 b v =
     (let videoId = js_trim v; url = player_stream_url videoId in
      if videoId = [] then [Alert ''Please enter a valid YouTube video ID'']
      else if hls_supported b then [Hls_load url]
      else if native_hls b then [Native_src url]
      else [Alert ''HLS is not supported in this browser''])"

text \<open>The URLs a run of \<open>loadVideo\<close> makes the browser request.\<close>

fun loaded_urls :: "player_effect list \<Rightarrow> string list" where
  "loaded_urls [] = []"
| "loaded_urls (Hls_load u # es) = u # loaded_urls es"
| "loaded_urls (Native_src u # es) = u # loaded_urls es"
| "loaded_urls (_ # es) = loaded_urls es"

subsection \<open>Lemmas\<close>

lemma valid_video_id_Nil: "valid_video_id v \<Longrightarrow> v \<noteq> []"
  by (auto simp: valid_video_id_def)

lemma player_loads:
  "hls_supported b \<or> native_hls b \<Longrightarrow>
   loaded_urls (if hls_supported b then [Hls_load u] else if native_hls b then [Native_src u] else [e]) = [u]"
  by auto

text \<open>
  C34: every server's player and the server agree: for a browser that can play
  HLS and a field whose trimmed text is a valid identifier, \<open>loadVideo\<close> requests
  exactly one URL, \<open>/stream/<id>/master.m3u8\<close> for the trimmed identifier, and the
  server that sent the page routes it to its master playlist handler for that
  identifier.
\<close>

theorem player_requests_master:
  assumes "valid_video_id (js_trim v)" "hls_supported b \<or> native_hls b"
  shows "loaded_urls (loadVideo_index b v) = [player_stream_url (js_trim v)]
      \<and> serve_index up (player_stream_url (js_trim v)) s = apfst Resp_playlist (handle_master up (js_trim v) s)
      \<and> loaded_urls (loadVideo_p002 b v) = [player_stream_url (js_trim v)]
      \<and> serve_p002 up (player_stream_url (js_trim v)) s = apfst Resp_playlist (handle_master_p002 up (js_trim v) s)
      \<and> loaded_urls (loadVideo_p001 b v) = [player_stream_url (js_trim v)]
      \<and> serve_p001 up (player_stream_url (js_trim v)) s' = apfst Resp_playlist (handle_master_p001 up (js_trim v) s')
      \<and> loaded_urls (loadVideo_p000 b v) = [player_stream_url (js_trim v)]
      \<and> serve_p000 up (player_stream_url (js_trim v)) s' = apfst Resp_playlist (handle_master_p000 up (js_trim v) s')"
proof -
  have ne: "js_trim v \<noteq> []" using assms(1) by (rule valid_video_id_Nil)
  have di: "dispatch routes_index (player_stream_url (js_trim v)) = Some (H_master, [(''videoId'', js_trim v)])"
    unfolding player_stream_url_def using assms(1) by (rule dispatch_master_index)
  have dp: "dispatch routes_p001 (player_stream_url (js_trim v)) = Some (H_master, [(''videoId'', js_trim v)])"
    unfolding player_stream_url_def using assms(1) by (rule dispatch_master_p001)
  show ?thesis
    using assms(2) ne
    by (simp add: loadVideo_index_def loadVideo_p002_def loadVideo_p001_def loadVideo_p000_def Let_def
        player_loads serve_index_def serve_p002_def serve_p001_def serve_p000_def di dp param_def)
qed

text \<open>A blank field: the player of src/index.js requests \<open>/stream//master.m3u8\<close>,
  which no route matches (Express answers its HTML 404, not a JSON error), while
  the player of src/unnamed/part_001 reports the empty field and requests nothing.\<close>

lemma player_blank_field:
  "loaded_urls (loadVideo_index b ''  '') = (if hls_supported b \<or> native_hls b then [''/stream//master.m3u8''] else [])
   \<and> dispatch routes_index ''/stream//master.m3u8'' = None
   \<and> loadVideo_p001 b ''  '' = [Show_error ''Please enter a valid YouTube video ID'']"
  by (simp add: loadVideo_index_def loadVideo_p001_def js_trim_def is_js_space_def player_stream_url_def
      Let_def routes_index_def parse_master parse_variant parse_audio parse_segment parse_asegment parse_home
      seg_len_def ascii_lower_def)

end
