(* ===== verification/Spec2Isabelle.thy ===== *)
theory Spec2Isabelle
  imports Batch_Concurrency Lifecycle Concurrency Player
begin

text \<open>
  \<^bold>\<open>A model of the YouTube-to-HLS servers of SpaceXe-tech/hls.\<close>

  The repository holds five near-duplicate Express servers: src/index.js and the
  server of src/unnamed/part_002 (on-demand, multi-quality, with an audio rendition),
  src/unnamed/part_001 and the second server of src/unnamed/part_000 (lines 255--512;
  on-demand, single quality) and the first server of src/unnamed/part_000 (lines
  1--254; batch pre-conversion with a retrying resolver). Each resolves a video
  identifier through an external API (the Format Resolver), caches the result in a
  time-boxed cache, and then builds playlist text (the Manifest Builder) or spawns
  one ffmpeg process per segment request and pipes its output to the response (the
  Segment Synthesizer). The parts interact only by calls: the playlist and segment
  handlers call the resolver, the resolver calls the upstream API and reads and
  writes the cache, and the segment handler re-resolves an expired media URL.

  \<^bold>\<open>Theories.\<close>
  \<^item> \<open>HLS_Prelude\<close>: the JavaScript primitives the handlers use, as HOL functions:
    \<open>parseInt\<close> (\<open>js_parse_int\<close>), number printing (\<open>string_of_nat\<close>,
    \<open>string_of_int\<close>, \<open>js_num_string\<close> with \<open>NaN\<close>), \<open>toFixed(3)\<close> on a
    millisecond count (\<open>fixed3\<close>), \<open>includes\<close> (\<open>js_includes\<close>, shown equal to
    \<open>sublist\<close>), the \<open>||\<close> default (\<open>js_or\<close>); the round trip
    \<open>js_parse_int (string_of_nat n) = Some n\<close> the routing relies on, and the
    facts on line breaks the playlist parser needs. The collection \<open>js_simps\<close>
    evaluates all of them by \<open>simp\<close>.
  \<^item> \<open>Video_Id\<close>: the identifier grammar \<open>/^[a-zA-Z0-9_-]{11}$/\<close>
    (\<open>valid_video_id\<close>) and the watch URL.
  \<^item> \<open>Url_Expiry\<close>: the regular expression \<open>/expire=(\d+)/\<close> (\<open>match_expire\<close>)
    and \<open>isUrlExpired\<close> with its margin (five minutes in three servers, thirty in
    src/unnamed/part_000). Lemmas: the exact threshold for a URL carrying the
    parameter, fail-safe expiry without it, and monotonicity in time.
  \<^item> \<open>Resolver\<close>: the upstream reply and \<open>fetchYouTubeData\<close> (validation and item
    mapping), the retry loop of src/unnamed/part_000 (\<open>fetch_retry\<close>, a
    \<open>function\<close> terminating by the measure \<open>retries - i\<close>) against its reference
    \<open>retry_spec\<close>, the cache (\<open>cache_get\<close>, \<open>cache_set\<close>: \<open>node-cache\<close> is a
    library, modelled from its documented TTL behaviour), the server state
    (\<open>srv\<close>: cache, clock, number of upstream calls), \<open>getVideoFormats\<close> of
    src/index.js (with \<open>forceRefresh\<close>) and of src/unnamed/part_002 (refetch when a
    cached URL has expired), format selection, and \<open>getVideoUrl\<close> of
    src/unnamed/part_001 and part_000, each server with its own copy of
    \<open>fetchYouTubeData\<close> (\<open>fetchYouTubeData_p001\<close>, \<open>fetchYouTubeData_p002\<close>,
    \<open>fetchYouTubeData_p000s\<close>, shown equal to that of src/index.js) and of
    \<open>isUrlExpired\<close>. Lemmas: identifier validation, cache hits
    within the TTL and no upstream call on a hit, the invariant that the cache only
    holds formats with a URL, the part_002 freshness guarantee, and the retry
    loop's equivalence with its reference and its bound of three calls.
  \<^item> \<open>Manifest\<close>: segment arithmetic (\<open>Math.ceil\<close> as \<open>js_ceil_div\<close>,
    \<open>num_segments\<close>, \<open>seg_dur\<close>), the text of the master, variant and audio
    playlists of src/index.js, their handlers with every error branch
    (\<open>handle_master\<close>, \<open>handle_variant\<close>, \<open>handle_audio\<close>), the single-quality
    playlists of src/unnamed/part_001 and part_000 (\<open>handle_master_p001\<close>,
    \<open>handle_master_p000\<close>), and a playlist reader (\<open>split_lines\<close>,
    \<open>playlist_entries\<close>) to read the text back. Lemmas: segment durations sum to
    the video's duration, the variant playlist reads back to its segment list, the
    master playlist lists exactly the available qualities, and the error answers.
  \<^item> \<open>Segment\<close>: the ffmpeg argument list of each server (\<open>ffmpeg_args\<close>,
    \<open>ffmpeg_args_p002\<close>, \<open>ffmpeg_args_p001\<close>, \<open>ffmpeg_args_p000\<close>),
    \<open>runFFmpeg\<close> with its re-resolution of an expired URL, and the segment handlers
    of src/index.js, src/unnamed/part_002, src/unnamed/part_001 and part_000; a
    handler's result is the spawned argument list and content type, or an error.
    Lemmas: refresh of an expired URL, the seek offset of segment \<open>i\<close>, and the
    unvalidated index.
  \<^item> \<open>Route_Match\<close>: Express's matching of a path against a pattern (path-to-regexp
    0.1, a library, modelled from its documented behaviour): \<open>parse_route\<close> turns a
    pattern into literals and named parameters, \<open>match_route\<close> tries each parameter
    length in turn (lazy \<open>[^/]+?\<close>, case-insensitive literals, optional trailing
    slash), \<open>dispatch\<close> takes the first matching route. Lemmas: the executable
    matcher and dispatcher refine the declarative semantics \<open>lazy_match\<close> and
    \<open>lazy_dispatch\<close> (the first route that can match, with the shortest
    parameter after which the rest can match, in the style of a POSIX value
    relation), which makes the match unique; a parsed pattern is well formed
    (\<open>route_wf\<close>) and prints back to its source (\<open>unparse_route\<close>).
  \<^item> \<open>Router\<close>: the route tables of the on-demand servers in registration order
    (\<open>routes_index\<close>, \<open>routes_p001\<close>) and a whole request of each
    (\<open>serve_index\<close>, \<open>serve_p001\<close>, \<open>serve_p002\<close>, \<open>serve_p000\<close>). Lemmas:
    what each URI a playlist lists is routed to, with the route parameters the
    handler reads; the audio playlist route of src/index.js is shadowed; the video
    segment route binds the wrong parameters; src/index.js, part_002 and part_001
    reject a malformed identifier on every endpoint before any upstream call
    (\<open>validates_ids\<close>, with \<open>error_response\<close> saying which answers are errors).
  \<^item> \<open>Batch\<close>: the batch server of src/unnamed/part_000 (lines 1--254). Paths are
    component lists and \<open>path.join\<close> is Node's normalising join (\<open>path_join\<close>); the
    file system is a map from paths to directories and files with \<open>fs-extra\<close>'s
    \<open>ensureDir\<close>, \<open>remove\<close>, \<open>pathExists\<close> and \<open>readFile\<close>; ffmpeg is an oracle
    \<open>converter\<close> that writes the playlist and segments or fails. \<open>convertToHLS\<close>,
    \<open>handle_process\<close> (\<open>POST /api/process\<close>), the three GET handlers, the route
    table \<open>routes_batch\<close>, a request \<open>serve_batch\<close> and a sequence of requests
    \<open>batch_run\<close>, in the state \<open>bstate\<close> (cache, clock, upstream calls, files).
    Lemmas: \<open>path.join\<close> is associative on normalised paths and leaves plain
    components in place; a \<open>videoId\<close> of \<open>..\<close> escapes the HLS directory, so
    \<open>GET /stream/../<file>\<close> streams the script directory's files and a failed
    conversion of \<open>v=..\<close> deletes that directory; a successful processing is
    followed by a servable stream URL.
  \<^item> \<open>Batch_Concurrency\<close>: concurrent \<open>POST /api/process\<close> requests of the
    batch server. The handler is split where it waits for ffmpeg into
    \<open>process_start\<close> (validation, cache lookup, resolution, \<open>pathExists\<close>,
    \<open>ensureDir\<close>) and \<open>process_finish\<close> (write the output and \<open>cache.set\<close>
    through \<open>process_store\<close>, or \<open>fs.remove\<close>); \<open>bconc_step\<close> interleaves
    requests over the batch state. Lemmas: the two halves run back to back are
    \<open>handle_process\<close> (\<open>process_split\<close>); served one at a time, every cached
    plain identifier keeps its \<open>master.m3u8\<close> (\<open>batch_files_ok\<close>, preserved by
    each half and by \<open>batch_run\<close>).
  \<^item> \<open>Lifecycle\<close>: the events of one segment request (resolution returns, the
    client disconnects, ffmpeg writes, ends, exits or fails to spawn) as a step
    function \<open>lc_step\<close> with enabledness \<open>lc_enabled\<close>, runs \<open>lc_run\<close>, the
    reachable states \<open>lc_reach\<close> (an inductive relation) and the invariant
    \<open>lc_inv\<close>, proved by rule induction. The configuration \<open>lc_cfg\<close> says which
    listeners a server attaches (\<open>cfg_index\<close> and \<open>cfg_p002\<close> versus
    \<open>cfg_p001\<close>). Output written into a response the client has closed stalls
    the pipe (\<open>stalled\<close>). A second invariant \<open>lc_live_inv\<close> divides the
    reachable states: from every state that is not stalled the events of
    \<open>lc_finish\<close> can occur and leave ffmpeg stopped and the response ended, while a
    stalled state (reached when the client left before the spawn) has a running,
    unsignalled ffmpeg and no enabled event at all.
  \<^item> \<open>Concurrency\<close>: concurrent requests of src/index.js sharing the cache.
    \<open>getVideoFormats\<close> is split at its \<open>await\<close> into \<open>gvf_start\<close> (validation,
    lookup, upstream call) and \<open>gvf_finish\<close> (filter, \<open>cache.set\<close>); the system
    state is the server state and the in-flight requests (\<open>req\<close>), and the step
    relation \<open>conc_step\<close> lets requests arrive, run either half in any order, and
    time pass. Lemmas: the split, run without interleaving, is \<open>getVideoFormats\<close>;
    the cache invariant holds in every interleaving (by induction over the
    reflexive transitive closure of \<open>conc_step\<close>); a second request for an
    identifier whose refresh is pending makes its own upstream call.
  \<^item> \<open>Player\<close>: \<open>loadVideo()\<close> of the four HTML players as the list of its effects
    on the page for a browser given by its HLS support (\<open>loadVideo_index\<close>,
    \<open>loadVideo_p002\<close>, \<open>loadVideo_p001\<close>, \<open>loadVideo_p000\<close>), with
    \<open>String.prototype.trim\<close> (\<open>js_trim\<close>). Lemmas: every player requests exactly
    the stream URL of the trimmed identifier and its server routes it to its master
    playlist handler; on a blank field the player of src/index.js requests a path
    no route matches.
  \<^item> this theory: a concrete scenario (a fake upstream serving one 125-second video,
    a script directory \<open>/app\<close> holding \<open>server.js\<close>, converters that succeed or
    fail) on which every property with hypotheses is exercised, and the properties
    that tie the playlists to the segment handlers: the audio playlist's entries to
    the audio handler's seek, and every listed video segment's seek to a window
    inside the media; and the conversion race of the batch server, an interleaving
    of two requests for one video after which the video is cached but its files are
    gone.

  \<^bold>\<open>Modelling choices.\<close> Time is \<open>Date.now()\<close> in milliseconds (\<open>ms = int\<close>) and is
  part of the server state; a request runs at one instant. The upstream API is an
  oracle \<open>upstream = nat \<Rightarrow> string \<Rightarrow> api_response\<close>: the reply to the \<open>n\<close>-th
  call for a watch URL, so that "no upstream call was made" is the call counter being
  unchanged. Durations are kept as whole milliseconds, the precision \<open>toFixed(3)\<close>
  prints. Every \<open>throw\<close> of the handlers is a value of the datatype \<open>error\<close>,
  whose \<open>error_message\<close> is the text of \<open>{error: ...}\<close>; an absent value
  (\<open>undefined\<close>) is \<open>None\<close>. A handler takes the state and returns its answer
  and the new state; where requests may interleave (\<open>Concurrency\<close>,
  \<open>Batch_Concurrency\<close>) a request is split at an \<open>await\<close>, more coarsely than
  Node splits it, so that every interleaving of the model is one Node can take. The only loop of the servers, the retry loop, is bounded by its
  attempt counter, so no fuel is needed; the playlist reader recurses on a strictly
  shorter string.

  \<^bold>\<open>Not modelled.\<close> The markup and styles of the HTML players, and the
  listeners \<open>loadVideo\<close> attaches for later events (playback start, hls.js error
  messages); non-ASCII white space in \<open>trim\<close> (characters are bytes in the model);
  the copy of \<open>isUrlExpired\<close> at the head of src/unnamed/part_002, the same
  function as that of src/index.js, which the model of part_002 reaches through the
  \<open>format_expired\<close> it shares with src/index.js; the module set-up (\<open>require\<close>,
  \<open>express()\<close>, \<open>new NodeCache\<close>, whose \<open>stdTTL\<close> is the TTL constant of each
  \<open>cache_set\<close>, \<open>express.json()\<close>, \<open>app.listen\<close>); Express's body parsing and
  the percent-decoding of paths and route parameters (a request path is taken as
  Express sees it); axios's transport and timeouts; the bytes ffmpeg produces and
  the files a failed conversion leaves before it is removed; logging (\<open>morgan\<close>,
  \<open>console\<close>); the asynchrony of \<open>fs.remove\<close>, which the batch server does not
  await (the removal is taken as done when the error is answered), and the time a
  conversion takes. \<open>express.static('public')\<close> is the map \<open>pub\<close> from request
  paths to files; \<open>serve-static\<close>'s own normalisation and its 403 for paths above
  its root are not modelled.
\<close>


section \<open>Fixtures: the spec's scenario\<close>

text \<open>
  The reply of a fake upstream to every call: title \<open>T\<close>, 125 seconds, one combined
  720p format whose URL expires far in the future; the server state before the first
  request; the data and state after it.
\<close>

definition demo_item :: api_item where
  "demo_item = \<lparr>item_type = Some ''video_with_audio'', item_label = Some ''720p'',
     item_ext = Some ''mp4'', item_extension = None, item_url = Some ''https://x/?expire=9999999999''\<rparr>"

definition demo_reply :: api_response where
  "demo_reply = Api_reply (Some \<lparr>d_title = Some ''T'', d_thumbnail = None,
     d_duration = Some 125000, d_items = Some [demo_item]\<rparr>)"

definition demo_upstream :: upstream where
  "demo_upstream n u = demo_reply"

definition demo_data :: video_data where
  "demo_data = \<lparr>title = ''T'', thumbnail = None, duration = Some 125000, formats = [to_format demo_item]\<rparr>"

definition demo_srv :: "video_data srv" where
  "demo_srv = \<lparr>cache = Map.empty, clock = 0, api_calls = 0\<rparr>"

definition demo_after :: "video_data srv" where
  "demo_after = demo_srv\<lparr>api_calls := 1,
     cache := cache_set 0 18000000 ''tTPk-fSx5gc_formats'' demo_data Map.empty\<rparr>"

definition stale_format :: media_format where
  "stale_format = \<lparr>ftype = Some ''video_with_audio'', quality = ''720p'', extension = ''mp4'',
     furl = Some ''https://x/?expire=1''\<rparr>"

definition other_item :: api_item where
  "other_item = demo_item\<lparr>item_label := Some ''480p''\<rparr>"

definition other_upstream :: upstream where
  "other_upstream n u = Api_reply (Some \<lparr>d_title = Some ''T'', d_thumbnail = None,
     d_duration = Some 125000, d_items = Some [other_item]\<rparr>)"

definition stale_srv :: "video_data srv" where
  "stale_srv = demo_srv\<lparr>cache := cache_set 0 18000000 ''tTPk-fSx5gc_formats''
     (demo_data\<lparr>formats := [stale_format]\<rparr>) Map.empty\<rparr>"

definition demo_url_srv :: "url_info srv" where
  "demo_url_srv = \<lparr>cache = Map.empty, clock = 0, api_calls = 0\<rparr>"

definition demo_url_info :: url_info where
  "demo_url_info = \<lparr>u_url = Some ''https://x/?expire=9999999999'', u_title = ''T'', u_duration = Some 125000\<rparr>"

definition demo_url_after :: "url_info srv" where
  "demo_url_after = demo_url_srv\<lparr>api_calls := 1,
     cache := cache_set 0 18000000 ''tTPk-fSx5gc_720p'' demo_url_info Map.empty\<rparr>"

definition app_fs :: fs where
  "app_fs = [[] \<mapsto> Dir, [''app''] \<mapsto> Dir, [''app'', ''server.js''] \<mapsto> File ''const express'',
     [''app'', ''hls-content''] \<mapsto> Dir]"

definition app_state :: bstate where
  "app_state = \<lparr>bsrv = \<lparr>cache = Map.empty, clock = 0, api_calls = 0\<rparr>, files = app_fs\<rparr>"

definition fail_conv :: converter where
  "fail_conv u = Conv_fail ''Invalid data found when processing input''"

definition ok_conv :: converter where
  "ok_conv u = Conv_ok ''#EXTM3U'' [''seg0'']"

definition dotdot_url :: string where
  "dotdot_url = ''https://www.youtube.com/watch?v=..''"

definition demo_yt_url :: string where
  "demo_yt_url = ''https://www.youtube.com/watch?v=tTPk-fSx5gc''"

text \<open>Two resolutions of the same video that return differently signed format URLs
  (upstream URLs are signed per request); ffmpeg converts the first and is refused
  the second.\<close>

definition race_item :: api_item where
  "race_item = demo_item\<lparr>item_url := Some ''https://y/?expire=9999999999''\<rparr>"

definition race_upstream :: upstream where
  "race_upstream n u = (if n = 0 then demo_reply else Api_reply (Some \<lparr>d_title = Some ''T'', d_thumbnail = None,
     d_duration = Some 125000, d_items = Some [race_item]\<rparr>))"

definition race_conv :: converter where
  "race_conv u = (if u = Some ''https://x/?expire=9999999999'' then Conv_ok ''#EXTM3U'' [''seg0'']
     else Conv_fail ''Server returned 403 Forbidden'')"

lemmas demo_defs = demo_item_def demo_reply_def demo_upstream_def demo_data_def demo_srv_def
  demo_after_def stale_format_def other_item_def other_upstream_def stale_srv_def demo_url_srv_def
  demo_url_info_def demo_url_after_def

section \<open>Properties across components\<close>

text \<open>
  C36: every entry of the audio playlist of src/index.js names a segment
  URI \<open>/stream/<id>/asegment<i>.aac\<close> with \<open>i\<close> below the segment count, and a
  request for that segment number that reaches ffmpeg seeks to \<open>10 * i\<close> seconds and
  is answered as \<open>audio/aac\<close>: the playlist and the segment handler agree on offsets.
\<close>

theorem audio_playlist_segment_seek:
  assumes "valid_video_id vid"
    and "(dur, u) \<in> set (playlist_entries (split_lines (media_playlist (audio_uri vid) (Some d))))"
  shows "\<exists>i < num_segments (Some d). u = audio_uri vid i \<and> dur = fixed3 (seg_dur d i) \<and>
           (\<forall>up s args ct s'. handle_asegment up vid (string_of_nat i) s = (Seg_spawn args ct, s') \<longrightarrow>
              seek_arg args = Some (string_of_nat (10 * i)) \<and> ct = ''audio/aac'')"
proof -
  have "\<And>i. no_nl (audio_uri vid i)" using assms(1) by (rule no_nl_audio_uri)
  then have "playlist_entries (split_lines (media_playlist (audio_uri vid) (Some d)))
      = map (\<lambda>i. (fixed3 (seg_dur d i), audio_uri vid i)) [0..<num_segments (Some d)]"
    by (rule media_playlist_entries)
  with assms(2) obtain i where "i < num_segments (Some d)" "u = audio_uri vid i" "dur = fixed3 (seg_dur d i)"
    by auto
  then show ?thesis by (blast dest: handle_asegment_seek)
qed

text \<open>
  C15: the segment handler of src/index.js and the playlists agree on where
  a segment lies: for a segment number \<open>i\<close> a playlist of duration \<open>d\<close> lists, the
  seek offset ffmpeg receives (in seconds) lies inside the media, and the media left
  after it is at least the duration the playlist declares for the segment.
\<close>

theorem listed_segment_seek_in_media:
  assumes "i < num_segments (Some d)"
    and "handle_segment up vid (string_of_nat i) q s = (Seg_spawn args ct, s')"
  shows "\<exists>k. seek_arg args = Some (string_of_nat k)
           \<and> 0 \<le> int k * 1000 \<and> int k * 1000 < d \<and> int k * 1000 + seg_dur d i \<le> d"
proof -
  have "seek_arg args = Some (string_of_nat (10 * i))"
    using assms(2)
    by (auto simp: handle_segment_def js_num_string_def string_of_int_def mult.commute nat_mult_distrib
        dest!: runFFmpeg_args split: prod.splits sum.splits option.splits)
  moreover have "int i * 10000 < d" using assms(1) by (simp add: lt_num_segments)
  ultimately show ?thesis by (intro exI [of _ "10 * i"]) (simp add: seg_dur_def)
qed

section \<open>Witnesses\<close>

lemma demo_first:
  "getVideoFormats demo_upstream ''tTPk-fSx5gc'' False demo_srv = (Inr demo_data, demo_after)"
  by (simp add: getVideoFormats_def demo_defs call_upstream_def cache_get_def fetchYouTubeData_def
       parse_api_response_def to_format_def has_url_def js_simps Let_def)

theorem getVideoFormats_cached_within_ttl_witness:
  "getVideoFormats demo_upstream ''tTPk-fSx5gc'' False demo_srv = (Inr demo_data, demo_after)
   \<and> api_calls demo_after \<noteq> api_calls demo_srv
   \<and> getVideoFormats (\<lambda>_ _. Api_failure ''down'') ''tTPk-fSx5gc'' False (demo_after\<lparr>clock := 3600000\<rparr>)
     = (Inr demo_data, demo_after\<lparr>clock := 3600000\<rparr>)"
  using demo_first getVideoFormats_cached_within_ttl [OF demo_first, of 3600000 "\<lambda>_ _. Api_failure ''down''"]
  by (simp add: demo_after_def demo_srv_def)

theorem getVideoFormats_invalid_id_witness:
  "\<not> valid_video_id ''bad id!''
   \<and> getVideoFormats demo_upstream ''bad id!'' False demo_srv = (Inl Invalid_video_id, demo_srv)"
  using getVideoFormats_invalid_id [of "''bad id!''" demo_upstream False demo_srv]
  by (simp add: js_simps)


theorem segment_durations_witness:
  "0 < (125000::int) \<and> num_segments (Some 125000) = 13
   \<and> 0 < seg_dur 125000 12 \<and> seg_dur 125000 12 \<le> 10000
   \<and> sum_list (map (seg_dur 125000) [0..<13]) = 125000
   \<and> seg_dur 125000 12 = 125000 - 12 * 10000"
proof -
  have h: "0 < (125000::int)" by simp
  have n: "num_segments (Some 125000) = 13" by (simp add: num_segments_def js_ceil_div_def)
  from segment_durations [OF h] n
  have a: "\<forall>i < 13. 0 < seg_dur 125000 i \<and> seg_dur 125000 i \<le> 10000"
    and b: "sum_list (map (seg_dur 125000) [0..<13]) = 125000"
    and c: "seg_dur 125000 12 = 125000 - int 12 * 10000"
    by simp_all
  show ?thesis using h n a [rule_format, of 12] b c by simp
qed

theorem variant_playlist_roundtrip_witness:
  "valid_video_id ''tTPk-fSx5gc'' \<and> CHR 0x0A \<notin> set ''720p''
   \<and> playlist_entries (split_lines (media_playlist (variant_uri ''tTPk-fSx5gc'' ''720p'') (Some 125000)))
     = map (\<lambda>i. (fixed3 (seg_dur 125000 i), variant_uri ''tTPk-fSx5gc'' ''720p'' i)) [0..<num_segments (Some 125000)]"
  using variant_playlist_roundtrip [of "''tTPk-fSx5gc''" "''720p''" 125000] by (simp add: js_simps)

lemma demo_fetch: "fetchYouTubeData (demo_upstream n u) = Inr demo_data"
  by (simp add: demo_defs fetchYouTubeData_def parse_api_response_def)

theorem runFFmpeg_refreshes_expired_witness:
  "furl stale_format = Some ''https://x/?expire=1'' \<and> isUrlExpired (clock demo_srv) ''https://x/?expire=1''
   \<and> valid_video_id ''tTPk-fSx5gc''
   \<and> fetchYouTubeData (demo_upstream (api_calls demo_srv) (watch_url ''tTPk-fSx5gc'')) = Inr demo_data
   \<and> fresh_format stale_format (filter has_url (formats demo_data)) = Some (to_format demo_item)
   \<and> (\<exists>args s'. runFFmpeg demo_upstream ''tTPk-fSx5gc'' stale_format (Some 30) 10 False demo_srv = (Inr args, s')
        \<and> input_url args = furl (to_format demo_item) \<and> api_calls s' = Suc (api_calls demo_srv))"
proof -
  have h1: "furl stale_format = Some ''https://x/?expire=1''" by (simp add: stale_format_def)
  have h2: "isUrlExpired (clock demo_srv) ''https://x/?expire=1''"
    by (simp add: demo_srv_def isUrlExpired_def is_url_expired_def js_simps)
  have h3: "valid_video_id ''tTPk-fSx5gc''" by (simp add: js_simps)
  have h4: "fetchYouTubeData (demo_upstream (api_calls demo_srv) (watch_url ''tTPk-fSx5gc'')) = Inr demo_data"
    by (rule demo_fetch)
  have h5: "fresh_format stale_format (filter has_url (formats demo_data)) = Some (to_format demo_item)"
    by (simp add: demo_defs fresh_format_def has_url_def to_format_def js_simps)
  show ?thesis
    using h1 h2 h3 h4 h5 runFFmpeg_refreshes_expired [where up = demo_upstream and s = demo_srv and start = "Some 30" and dur = 10 and a = False, OF h1 h2 h3 h4 h5] by blast
qed

theorem runFFmpeg_keeps_stale_url_witness:
  "furl stale_format = Some ''https://x/?expire=1'' \<and> isUrlExpired (clock demo_srv) ''https://x/?expire=1''
   \<and> valid_video_id ''tTPk-fSx5gc''
   \<and> fetchYouTubeData (other_upstream (api_calls demo_srv) (watch_url ''tTPk-fSx5gc''))
       = Inr (demo_data\<lparr>formats := [to_format other_item]\<rparr>)
   \<and> fresh_format stale_format (filter has_url (formats (demo_data\<lparr>formats := [to_format other_item]\<rparr>))) = None
   \<and> (\<exists>args s'. runFFmpeg other_upstream ''tTPk-fSx5gc'' stale_format (Some 30) 10 False demo_srv = (Inr args, s')
        \<and> input_url args = Some ''https://x/?expire=1'')"
proof -
  have h1: "furl stale_format = Some ''https://x/?expire=1''" by (simp add: stale_format_def)
  have h2: "isUrlExpired (clock demo_srv) ''https://x/?expire=1''"
    by (simp add: demo_srv_def isUrlExpired_def is_url_expired_def js_simps)
  have h3: "valid_video_id ''tTPk-fSx5gc''" by (simp add: js_simps)
  have h4: "fetchYouTubeData (other_upstream (api_calls demo_srv) (watch_url ''tTPk-fSx5gc''))
       = Inr (demo_data\<lparr>formats := [to_format other_item]\<rparr>)"
    by (simp add: demo_defs fetchYouTubeData_def parse_api_response_def)
  have h5: "fresh_format stale_format (filter has_url (formats (demo_data\<lparr>formats := [to_format other_item]\<rparr>))) = None"
    by (simp add: demo_defs fresh_format_def has_url_def to_format_def js_simps)
  show ?thesis
    using h1 h2 h3 h4 h5 runFFmpeg_keeps_stale_url [where up = other_upstream and s = demo_srv and start = "Some 30" and dur = 10 and a = False, OF h1 h2 h3 h4 h5] by blast
qed

lemma demo_segment3:
  "handle_segment demo_upstream ''tTPk-fSx5gc'' (string_of_nat 3) ''720p'' demo_srv
     = (Seg_spawn (ffmpeg_args (Some 30) 10 ''https://x/?expire=9999999999'' False) ''video/mp2t'', demo_after)"
proof -
  have run: "runFFmpeg demo_upstream ''tTPk-fSx5gc'' (to_format demo_item) (Some 30) 10 False demo_after
      = (Inr (ffmpeg_args (Some 30) 10 ''https://x/?expire=9999999999'' False), demo_after)"
    by (rule runFFmpeg_unexpired)
       (simp_all add: demo_defs to_format_def isUrlExpired_def is_url_expired_def js_simps)
  show ?thesis
    using demo_first run
    by (simp add: handle_segment_def find_video_def demo_data_def to_format_def demo_item_def js_simps)
qed

lemma demo_find: "find_video ''720p'' (formats demo_data) = Some (to_format demo_item)"
  by (simp add: find_video_def demo_data_def to_format_def demo_item_def js_simps)

lemma demo_furl: "furl (to_format demo_item) = Some ''https://x/?expire=9999999999''"
  by (simp add: to_format_def demo_item_def)

lemma demo_live: "\<not> isUrlExpired (clock demo_after) ''https://x/?expire=9999999999''"
  by (simp add: demo_defs isUrlExpired_def is_url_expired_def js_simps)

theorem handle_segment_seek_witness:
  "getVideoFormats demo_upstream ''tTPk-fSx5gc'' False demo_srv = (Inr demo_data, demo_after)
   \<and> find_video ''720p'' (formats demo_data) = Some (to_format demo_item)
   \<and> furl (to_format demo_item) = Some ''https://x/?expire=9999999999''
   \<and> \<not> isUrlExpired (clock demo_after) ''https://x/?expire=9999999999''
   \<and> (\<exists>args. handle_segment demo_upstream ''tTPk-fSx5gc'' (string_of_nat 3) ''720p'' demo_srv
          = (Seg_spawn args ''video/mp2t'', demo_after)
        \<and> input_url args = Some ''https://x/?expire=9999999999''
        \<and> seek_arg args = Some (string_of_nat (10 * 3)) \<and> clip_arg args = Some ''10'')"
  using demo_first demo_find demo_furl demo_live
    handle_segment_seek [OF demo_first demo_find demo_furl demo_live, of 3] by blast

theorem listed_segment_seek_in_media_witness:
  "\<exists>k. seek_arg (ffmpeg_args (Some 30) 10 ''https://x/?expire=9999999999'' False) = Some (string_of_nat k)
     \<and> 0 \<le> int k * 1000 \<and> int k * 1000 < 125000 \<and> int k * 1000 + seg_dur 125000 3 \<le> 125000"
proof -
  have "3 < num_segments (Some 125000)" by (simp add: lt_num_segments)
  from listed_segment_seek_in_media [OF this demo_segment3] show ?thesis .
qed

theorem handle_segment_nan_seek_witness:
  "js_parse_int ''abc'' = None
   \<and> getVideoFormats demo_upstream ''tTPk-fSx5gc'' False demo_srv = (Inr demo_data, demo_after)
   \<and> find_video ''720p'' (formats demo_data) = Some (to_format demo_item)
   \<and> furl (to_format demo_item) = Some ''https://x/?expire=9999999999''
   \<and> \<not> isUrlExpired (clock demo_after) ''https://x/?expire=9999999999''
   \<and> (\<exists>args. handle_segment demo_upstream ''tTPk-fSx5gc'' ''abc'' ''720p'' demo_srv
          = (Seg_spawn args ''video/mp2t'', demo_after) \<and> seek_arg args = Some ''NaN'')"
proof -
  have p: "js_parse_int ''abc'' = None" by (simp add: js_parse_int_def is_js_space_def js_simps)
  show ?thesis
    using p demo_first demo_find demo_furl demo_live
      handle_segment_nan_seek [OF p demo_first demo_find demo_furl demo_live] by blast
qed

theorem handle_segment_p001_rejects_index_witness:
  "(case js_parse_int ''-1'' of None \<Rightarrow> True | Some i \<Rightarrow> i < 0)
   \<and> handle_segment_p001 demo_upstream ''tTPk-fSx5gc'' ''-1'' demo_url_srv
     = (Seg_error Invalid_segment_number, demo_url_srv)"
proof -
  have h: "case js_parse_int ''-1'' of None \<Rightarrow> True | Some i \<Rightarrow> i < 0"
    by (simp add: js_parse_int_def is_js_space_def js_simps)
  show ?thesis using h handle_segment_p001_rejects_index [OF h] by simp
qed


theorem getVideoFormats_force_ignores_cache_witness:
  "valid_video_id ''tTPk-fSx5gc''
   \<and> api_calls (snd (getVideoFormats demo_upstream ''tTPk-fSx5gc'' True demo_after)) = Suc (api_calls demo_after)
   \<and> fst (getVideoFormats demo_upstream ''tTPk-fSx5gc'' True demo_after)
     = fst (getVideoFormats demo_upstream ''tTPk-fSx5gc'' True (demo_after\<lparr>cache := Map.empty\<rparr>))"
proof -
  have h: "valid_video_id ''tTPk-fSx5gc''" by (simp add: js_simps)
  show ?thesis
    using h getVideoFormats_force_ignores_cache [where up = demo_upstream and s = demo_after
      and c = Map.empty, OF h] by (rule conjI)
qed

theorem getVideoFormats_cache_inv_witness:
  "cache_formats_ok (cache demo_srv)
   \<and> getVideoFormats demo_upstream ''tTPk-fSx5gc'' False demo_srv = (Inr demo_data, demo_after)
   \<and> cache_formats_ok (cache demo_after)
   \<and> list_all has_url (formats demo_data)"
proof -
  have h: "cache_formats_ok (cache demo_srv)" by (simp add: demo_srv_def cache_formats_ok_def)
  show ?thesis using h demo_first getVideoFormats_cache_inv [OF h demo_first] by blast
qed

lemma demo_after_p002:
  "getVideoFormats_p002 demo_upstream ''tTPk-fSx5gc'' demo_after = (Inr demo_data, demo_after)"
  by (simp add: getVideoFormats_p002_def demo_defs cache_get_def cache_set_def to_format_def
      format_expired_def isUrlExpired_def is_url_expired_def js_simps Let_def)

theorem getVideoFormats_p002_cached_fresh_witness:
  "getVideoFormats_p002 demo_upstream ''tTPk-fSx5gc'' demo_after = (Inr demo_data, demo_after)
   \<and> api_calls demo_after = api_calls demo_after
   \<and> list_all (\<lambda>f. format_expired (clock demo_after) f = Inr False) (formats demo_data)"
  using demo_after_p002 getVideoFormats_p002_cached_fresh [OF demo_after_p002 refl] by simp

theorem getVideoFormats_p002_expired_refetch_witness:
  "valid_video_id ''tTPk-fSx5gc''
   \<and> cache_get (clock stale_srv) (''tTPk-fSx5gc'' @ ''_formats'') (cache stale_srv)
       = Some (demo_data\<lparr>formats := [stale_format]\<rparr>)
   \<and> list_all has_url (formats (demo_data\<lparr>formats := [stale_format]\<rparr>))
   \<and> list_ex (\<lambda>f. isUrlExpired (clock stale_srv) (the (furl f))) (formats (demo_data\<lparr>formats := [stale_format]\<rparr>))
   \<and> api_calls (snd (getVideoFormats_p002 demo_upstream ''tTPk-fSx5gc'' stale_srv)) = Suc (api_calls stale_srv)"
proof -
  have h1: "valid_video_id ''tTPk-fSx5gc''" by (simp add: js_simps)
  have h2: "cache_get (clock stale_srv) (''tTPk-fSx5gc'' @ ''_formats'') (cache stale_srv)
       = Some (demo_data\<lparr>formats := [stale_format]\<rparr>)"
    by (simp add: stale_srv_def demo_srv_def cache_get_def cache_set_def)
  have h3: "list_all has_url (formats (demo_data\<lparr>formats := [stale_format]\<rparr>))"
    by (simp add: stale_format_def has_url_def js_simps)
  have h4: "list_ex (\<lambda>f. isUrlExpired (clock stale_srv) (the (furl f))) (formats (demo_data\<lparr>formats := [stale_format]\<rparr>))"
    by (simp add: stale_format_def stale_srv_def demo_srv_def isUrlExpired_def is_url_expired_def js_simps)
  show ?thesis
    using h1 h2 h3 h4 getVideoFormats_p002_expired_refetch [where up = demo_upstream, OF h1 h2 h3 h4] by blast
qed

theorem master_playlist_variants_witness:
  "valid_video_id ''tTPk-fSx5gc''
   \<and> filter (\<lambda>l. take 1 l = ''/'') (split_lines (master_playlist ''tTPk-fSx5gc'' (formats demo_data)))
     = map (\<lambda>q. ''/stream/'' @ ''tTPk-fSx5gc'' @ ''/'' @ q @ ''.m3u8'')
         (filter (\<lambda>q. find_video q (formats demo_data) \<noteq> None) video_qualities)"
proof -
  have h: "valid_video_id ''tTPk-fSx5gc''" by (simp add: js_simps)
  show ?thesis using h master_playlist_variants [where fs = "formats demo_data", OF h] by (rule conjI)
qed

theorem handle_variant_invalid_id_witness:
  "\<not> valid_video_id ''bad id!''
   \<and> handle_variant demo_upstream ''bad id!'' ''720p'' demo_srv
     = (Json_error 500 (error_message Invalid_video_id), demo_srv)"
proof -
  have h: "\<not> valid_video_id ''bad id!''" by (simp add: js_simps)
  show ?thesis using h handle_variant_invalid_id [where up = demo_upstream and q = "''720p''"
    and s = demo_srv, OF h] by (rule conjI)
qed

theorem handle_variant_no_fallback_witness:
  "getVideoFormats demo_upstream ''tTPk-fSx5gc'' False demo_srv = (Inr demo_data, demo_after)
   \<and> find_video ''1080p'' (formats demo_data) = None
   \<and> select_format ''1080p'' (formats demo_data) = Some (to_format demo_item)
   \<and> handle_variant demo_upstream ''tTPk-fSx5gc'' ''1080p'' demo_srv
     = (Json_error 500 ''Format not available'', demo_after)"
proof -
  have h2: "find_video ''1080p'' (formats demo_data) = None"
    by (simp add: find_video_def demo_data_def demo_item_def to_format_def js_simps)
  have h3: "select_format ''1080p'' (formats demo_data) = Some (to_format demo_item)"
    by (simp add: select_format_def find_video_def find_audio_def demo_data_def demo_item_def
        to_format_def js_simps)
  show ?thesis using demo_first h2 h3 handle_variant_no_fallback [OF demo_first h2 h3] by blast
qed

theorem kill_on_disconnect_after_spawn_witness:
  "\<exists>t. lc_run cfg_index lc_init ([] @ Resolve_ok # [Stdout_data 5, Client_close]) = Some t
     \<and> Client_close \<in> set [Stdout_data 5, Client_close] \<and> kill_sent t"
proof -
  obtain t where h: "lc_run cfg_index lc_init ([] @ Resolve_ok # [Stdout_data 5, Client_close]) = Some t"
    by (simp add: lc_init_def)
  have m: "Client_close \<in> set [Stdout_data 5, Client_close]" by simp
  show ?thesis using h m kill_on_disconnect_after_spawn [OF h m] by blast
qed

theorem no_kill_on_disconnect_before_spawn_witness:
  "\<exists>t. lc_run cfg_index lc_init ([Client_close] @ Resolve_ok # [Stdout_data 5]) = Some t
     \<and> Client_close \<in> set [Client_close] \<and> \<not> kill_sent t"
proof -
  obtain t where h: "lc_run cfg_index lc_init ([Client_close] @ Resolve_ok # [Stdout_data 5]) = Some t"
    by (simp add: lc_init_def)
  have m: "Client_close \<in> set [Client_close]" by simp
  show ?thesis using h m no_kill_on_disconnect_before_spawn [OF h m] by blast
qed

theorem exit_status_not_reported_witness:
  "lc_reach cfg_p001 (lc_step cfg_p001 (lc_step cfg_p001 lc_init Resolve_ok) Stdout_end)
   \<and> lc_enabled (lc_step cfg_p001 (lc_step cfg_p001 lc_init Resolve_ok) Stdout_end) (Proc_close 1)
   \<and> status (lc_step cfg_p001 (lc_step cfg_p001 (lc_step cfg_p001 lc_init Resolve_ok) Stdout_end) (Proc_close 1))
     = status (lc_step cfg_p001 (lc_step cfg_p001 lc_init Resolve_ok) Stdout_end)"
proof -
  have h1: "lc_reach cfg_p001 (lc_step cfg_p001 (lc_step cfg_p001 lc_init Resolve_ok) Stdout_end)"
    by (rule lc_reach.step [OF lc_reach.step [OF lc_reach.init]]) (simp_all add: lc_init_def)
  have h2: "lc_enabled (lc_step cfg_p001 (lc_step cfg_p001 lc_init Resolve_ok) Stdout_end) (Proc_close 1)"
    by simp
  show ?thesis using h1 h2 exit_status_not_reported [OF h1 h2] by blast
qed


theorem audio_playlist_segment_seek_witness:
  "valid_video_id ''tTPk-fSx5gc''
   \<and> (fixed3 (seg_dur 15000 1), audio_uri ''tTPk-fSx5gc'' 1)
       \<in> set (playlist_entries (split_lines (media_playlist (audio_uri ''tTPk-fSx5gc'') (Some 15000))))
   \<and> (\<exists>i < num_segments (Some 15000). audio_uri ''tTPk-fSx5gc'' 1 = audio_uri ''tTPk-fSx5gc'' i
        \<and> fixed3 (seg_dur 15000 1) = fixed3 (seg_dur 15000 i)
        \<and> (\<forall>up s args ct s'. handle_asegment up ''tTPk-fSx5gc'' (string_of_nat i) s = (Seg_spawn args ct, s') \<longrightarrow>
             seek_arg args = Some (string_of_nat (10 * i)) \<and> ct = ''audio/aac''))"
proof -
  have h1: "valid_video_id ''tTPk-fSx5gc''" by (simp add: js_simps)
  have n: "num_segments (Some 15000) = 2" by (simp add: num_segments_def js_ceil_div_def)
  have h2: "(fixed3 (seg_dur 15000 1), audio_uri ''tTPk-fSx5gc'' 1)
       \<in> set (playlist_entries (split_lines (media_playlist (audio_uri ''tTPk-fSx5gc'') (Some 15000))))"
    unfolding media_playlist_entries [OF no_nl_audio_uri [OF h1]] n by simp
  show ?thesis using h1 h2 audio_playlist_segment_seek [OF h1 h2] by blast
qed

theorem isUrlExpired_param_witness:
  "\<not> js_includes ''https://x/videoplayback'' ''expire='' \<and> CHR ''?'' \<notin> set ''expire=''
   \<and> (''&ei=1'' = [] \<or> \<not> is_digit (hd ''&ei=1''))
   \<and> (isUrlExpired 1700000000000 (''https://x/videoplayback'' @ CHR ''?'' # ''expire='' @ string_of_nat 1700000000 @ ''&ei=1'')
      \<longleftrightarrow> int 1700000000 * 1000 - 300000 \<le> 1700000000000)"
proof -
  have h1: "\<not> js_includes ''https://x/videoplayback'' ''expire=''" by simp
  have h2: "CHR ''?'' \<notin> set ''expire=''" by simp
  have h3: "''&ei=1'' = [] \<or> \<not> is_digit (hd ''&ei=1'')" by (simp add: is_digit_def)
  show ?thesis using h1 h2 h3 isUrlExpired_param [where now = 1700000000000 and e = 1700000000, OF h1 h2 h3]
    by blast
qed

theorem is_url_expired_no_param_witness:
  "match_expire ''https://x/video'' = None \<and> is_url_expired 300000 0 ''https://x/video''"
proof -
  have h: "match_expire ''https://x/video'' = None" by simp
  show ?thesis using h is_url_expired_no_param [where margin = 300000 and now = 0, OF h] by (rule conjI)
qed

theorem is_url_expired_margin_witness:
  "\<not> is_url_expired 300000 0 ''https://x/?expire=9999999999''
   \<and> (\<exists>t. url_expiry ''https://x/?expire=9999999999'' = Some t \<and> 0 + 300000 < t
        \<and> (\<forall>now' \<le> 0. \<not> is_url_expired 300000 now' ''https://x/?expire=9999999999''))"
proof -
  have h: "\<not> is_url_expired 300000 0 ''https://x/?expire=9999999999''"
    by (simp add: is_url_expired_def js_simps)
  show ?thesis using h is_url_expired_margin [OF h] by (rule conjI)
qed


lemma demo_url_first:
  "getVideoUrl_p001 demo_upstream ''tTPk-fSx5gc'' ''720p'' demo_url_srv = (Inr demo_url_info, demo_url_after)"
  by (simp add: getVideoUrl_p001_def get_video_url_def demo_defs call_upstream_def cache_get_def
      fetchYouTubeData_def parse_api_response_def select_format_def find_video_def to_format_def js_simps
      Let_def)

theorem variant_segment_not_served_witness:
  "valid_video_id ''tTPk-fSx5gc'' \<and> CHR ''/'' \<notin> set ''720p''
   \<and> getVideoFormats demo_upstream ''tTPk-fSx5gc'' False demo_srv = (Inr demo_data, demo_after)
   \<and> list_all (\<lambda>f. CHR ''_'' \<notin> set (quality f)) (formats demo_data)
   \<and> serve_index demo_upstream (variant_uri ''tTPk-fSx5gc'' ''720p'' 3) demo_srv
     = (Resp_segment (Seg_error Format_not_available), demo_after)"
proof -
  have h1: "valid_video_id ''tTPk-fSx5gc''" by (simp add: js_simps)
  have h2: "CHR ''/'' \<notin> set ''720p''" by simp
  have h4: "list_all (\<lambda>f. CHR ''_'' \<notin> set (quality f)) (formats demo_data)"
    by (simp add: demo_data_def demo_item_def to_format_def js_simps)
  then have h4': "\<forall>f \<in> set (formats demo_data). CHR ''_'' \<notin> set (quality f)"
    by (simp add: list_all_iff)
  show ?thesis
    using h1 h2 demo_first h4 variant_segment_not_served [OF h1 h2 demo_first h4', of 3] by blast
qed

theorem p001_segment_uri_served_witness:
  "valid_video_id ''tTPk-fSx5gc''
   \<and> getVideoUrl_p001 demo_upstream ''tTPk-fSx5gc'' ''720p'' demo_url_srv = (Inr demo_url_info, demo_url_after)
   \<and> u_url demo_url_info = Some ''https://x/?expire=9999999999''
   \<and> serve_p001 demo_upstream (segment_uri ''tTPk-fSx5gc'' 3) demo_url_srv
     = (Resp_segment (Seg_spawn (ffmpeg_args_p001 (int 3 * 10) ''https://x/?expire=9999999999'')
          ''video/mp2t''), demo_url_after)"
proof -
  have h1: "valid_video_id ''tTPk-fSx5gc''" by (simp add: js_simps)
  have h3: "u_url demo_url_info = Some ''https://x/?expire=9999999999''" by (simp add: demo_url_info_def)
  show ?thesis using h1 demo_url_first h3 p001_segment_uri_served [OF h1 demo_url_first h3, of 3] by blast
qed

theorem p000_info_bad_id_calls_upstream_witness:
  "cache_get (clock demo_url_srv) ''bad id!_720p'' (cache demo_url_srv) = None
   \<and> api_calls (snd (serve_p000 demo_upstream ''/api/info/bad id!'' demo_url_srv)) = Suc (api_calls demo_url_srv)"
proof -
  have h: "cache_get (clock demo_url_srv) ''bad id!_720p'' (cache demo_url_srv) = None"
    by (simp add: demo_url_srv_def cache_get_def)
  show ?thesis using h p000_info_bad_id_calls_upstream [OF h, of demo_upstream] by (rule conjI)
qed

theorem p002_variant_segment_not_served_witness:
  "valid_video_id ''tTPk-fSx5gc'' \<and> CHR ''/'' \<notin> set ''720p''
   \<and> getVideoFormats_p002 demo_upstream ''tTPk-fSx5gc'' demo_after = (Inr demo_data, demo_after)
   \<and> list_all (\<lambda>f. CHR ''_'' \<notin> set (quality f)) (formats demo_data)
   \<and> serve_p002 demo_upstream (variant_uri ''tTPk-fSx5gc'' ''720p'' 3) demo_after
     = (Resp_segment (Seg_error Format_not_available), demo_after)"
proof -
  have h1: "valid_video_id ''tTPk-fSx5gc''" by (simp add: js_simps)
  have h2: "CHR ''/'' \<notin> set ''720p''" by simp
  have h4: "list_all (\<lambda>f. CHR ''_'' \<notin> set (quality f)) (formats demo_data)"
    by (simp add: demo_data_def demo_item_def to_format_def js_simps)
  then have h4': "\<forall>f \<in> set (formats demo_data). CHR ''_'' \<notin> set (quality f)"
    by (simp add: list_all_iff)
  show ?thesis
    using h1 h2 demo_after_p002 h4 p002_variant_segment_not_served [OF h1 h2 demo_after_p002 h4', of 3]
    by blast
qed

lemma demo_fetch_p000:
  "fetchYouTubeData_p000 demo_upstream u s = (Some (Inr demo_data), s\<lparr>api_calls := Suc (api_calls s)\<rparr>)"
  by (simp add: fetchYouTubeData_p000_def fetch_retry.simps demo_defs parse_api_response_def)

theorem batch_stream_traversal_witness:
  "serve_batch fail_conv demo_upstream Map.empty [''app''] (Get ''/stream/../server.js'') app_state
     = (B_stream [''app'', ''server.js''] ''const express'', app_state)
   \<and> \<not> prefix (HLS_DIR [''app'']) [''app'', ''server.js'']"
  using batch_stream_traversal [of "[''app'']" "''server.js''" "Map.empty" app_state "''const express''"
      fail_conv demo_upstream]
  by (simp add: norm_path_def plain_comp_def app_state_def app_fs_def ascii_lower_def)

theorem batch_process_dotdot_wipes_app_dir_witness:
  "\<exists>st'. serve_batch fail_conv demo_upstream Map.empty [''app''] (Post ''/api/process'' (Some dotdot_url) None)
      app_state = (errorHandler, st') \<and> {p. prefix [''app''] p} \<inter> dom (files st') = {}"
  using batch_process_dotdot_wipes_app_dir [of "[''app'']" dotdot_url app_state demo_upstream demo_data
      "(bsrv app_state)\<lparr>api_calls := 1\<rparr>" None "to_format demo_item" app_fs fail_conv
      "''Invalid data found when processing input''" "Map.empty"]
  by (simp add: norm_path_def plain_comp_def app_state_def app_fs_def dotdot_url_def demo_fetch_p000
      cache_get_def select_format_def find_video_def demo_defs to_format_def js_simps ensure_dir_def
      fail_conv_def)

lemma demo_process_fst:
  "fst (serve_batch ok_conv demo_upstream Map.empty [''app''] (Post ''/api/process'' (Some demo_yt_url) None) app_state)
   = B_process ''tTPk-fSx5gc'' (stream_url ''tTPk-fSx5gc'') False (meta_of demo_data)"
  by (simp add: serve_batch_def process_route handle_process_def demo_yt_url_def app_state_def cache_get_def
      demo_fetch_p000 select_format_def find_video_def demo_defs to_format_def js_simps convertToHLS_def
      path_exists_def HLS_DIR_def path_join_def app_fs_def ensure_dir_def ok_conv_def Let_def)


theorem batch_process_then_stream_witness:
  "\<exists>m. serve_batch ok_conv demo_upstream Map.empty [''app''] (Get (stream_url ''tTPk-fSx5gc''))
          (snd (serve_batch ok_conv demo_upstream Map.empty [''app''] (Post ''/api/process'' (Some demo_yt_url) None) app_state))
        = (B_playlist m,
           snd (serve_batch ok_conv demo_upstream Map.empty [''app''] (Post ''/api/process'' (Some demo_yt_url) None) app_state))"
proof -
  let ?r = "serve_batch ok_conv demo_upstream Map.empty [''app''] (Post ''/api/process'' (Some demo_yt_url) None) app_state"
  have r: "?r = (B_process ''tTPk-fSx5gc'' (stream_url ''tTPk-fSx5gc'') False (meta_of demo_data), snd ?r)"
    using demo_process_fst by (metis prod.collapse)
  have nd: "files app_state (path_join (HLS_DIR [''app'']) [''tTPk-fSx5gc'', ''master.m3u8'']) \<noteq> Some Dir"
    by (simp add: app_state_def app_fs_def HLS_DIR_def path_join_def)
  show ?thesis
    using batch_process_then_stream [OF _ _ r nd] by (simp add: norm_path_def plain_comp_def)
qed

lemma race_fetch:
  "fetchYouTubeData_p000 race_upstream u s = (Some (Inr (if api_calls s = 0 then demo_data
      else demo_data\<lparr>formats := [to_format race_item]\<rparr>)), s\<lparr>api_calls := Suc (api_calls s)\<rparr>)"
  by (simp add: fetchYouTubeData_p000_def fetch_retry.simps race_upstream_def race_item_def demo_defs
      parse_api_response_def)

lemma race_start1:
  "process_start race_upstream [''app''] (Some demo_yt_url) None app_state
   = (Pp_convert ''tTPk-fSx5gc'' (meta_of demo_data) (Some ''https://x/?expire=9999999999'')
        [''app'', ''hls-content'', ''tTPk-fSx5gc''] [''app'', ''hls-content'', ''tTPk-fSx5gc'', ''master.m3u8''],
      \<lparr>bsrv = \<lparr>cache = Map.empty, clock = 0, api_calls = 1\<rparr>,
       files = app_fs([''app'', ''hls-content'', ''tTPk-fSx5gc''] \<mapsto> Dir)\<rparr>)"
  by (simp add: process_start_def demo_yt_url_def app_state_def cache_get_def race_fetch
      select_format_def find_video_def demo_defs to_format_def js_simps path_exists_def HLS_DIR_def
      path_join_def app_fs_def ensure_dir_def Let_def)

lemma race_start2:
  "process_start race_upstream [''app''] (Some demo_yt_url) None
     \<lparr>bsrv = \<lparr>cache = Map.empty, clock = 0, api_calls = 1\<rparr>,
      files = app_fs([''app'', ''hls-content'', ''tTPk-fSx5gc''] \<mapsto> Dir)\<rparr>
   = (Pp_convert ''tTPk-fSx5gc'' (meta_of demo_data) (Some ''https://y/?expire=9999999999'')
        [''app'', ''hls-content'', ''tTPk-fSx5gc''] [''app'', ''hls-content'', ''tTPk-fSx5gc'', ''master.m3u8''],
      \<lparr>bsrv = \<lparr>cache = Map.empty, clock = 0, api_calls = 2\<rparr>,
       files = app_fs([''app'', ''hls-content'', ''tTPk-fSx5gc''] \<mapsto> Dir)\<rparr>)"
  by (simp add: process_start_def demo_yt_url_def cache_get_def race_fetch meta_of_def
      select_format_def find_video_def demo_defs race_item_def to_format_def js_simps path_exists_def HLS_DIR_def
      path_join_def app_fs_def ensure_dir_def Let_def)

text \<open>
  C28: two concurrent \<open>POST /api/process\<close> requests for the same video on the
  batch server of src/unnamed/part_000 can lose the video: both find no playlist and
  start ffmpeg in the same directory; the first conversion succeeds, is cached and
  answered; the second fails and \<open>fs.remove(videoDir)\<close> deletes the first one's
  output. From then on (for the cache's day) the server answers \<open>cached: true\<close> with a
  \<open>streamUrl\<close> that is 404. Served one at a time the same requests cannot do this.
\<close>

theorem batch_conversion_race:
  "\<exists>st. (bconc_step race_conv race_upstream [''app''])\<^sup>*\<^sup>* (app_state, [])
          (st, [Pr_at (Pp_done (B_process ''tTPk-fSx5gc'' (stream_url ''tTPk-fSx5gc'') False (meta_of demo_data))),
                Pr_at (Pp_done errorHandler)])
     \<and> fst (serve_batch race_conv race_upstream Map.empty [''app''] (Post ''/api/process'' (Some demo_yt_url) None) st)
         = B_process ''tTPk-fSx5gc'' (stream_url ''tTPk-fSx5gc'') True (meta_of demo_data)
     \<and> fst (serve_batch race_conv race_upstream Map.empty [''app''] (Get (stream_url ''tTPk-fSx5gc'')) st)
         = B_error 404 ''Video not found''"
proof -
  let ?r = "Pr_new (Some demo_yt_url) None"
  let ?dir = "[''app'', ''hls-content'', ''tTPk-fSx5gc'']"
  let ?out = "[''app'', ''hls-content'', ''tTPk-fSx5gc'', ''master.m3u8'']"
  let ?p1 = "Pp_convert ''tTPk-fSx5gc'' (meta_of demo_data) (Some ''https://x/?expire=9999999999'') ?dir ?out"
  let ?p2 = "Pp_convert ''tTPk-fSx5gc'' (meta_of demo_data) (Some ''https://y/?expire=9999999999'') ?dir ?out"
  let ?st1 = "\<lparr>bsrv = \<lparr>cache = Map.empty, clock = 0, api_calls = 1\<rparr>, files = app_fs(?dir \<mapsto> Dir)\<rparr>"
  let ?st2 = "\<lparr>bsrv = \<lparr>cache = Map.empty, clock = 0, api_calls = 2\<rparr>, files = app_fs(?dir \<mapsto> Dir)\<rparr>"
  let ?b1 = "B_process ''tTPk-fSx5gc'' (stream_url ''tTPk-fSx5gc'') False (meta_of demo_data)"
  let ?st3 = "snd (process_finish ''tTPk-fSx5gc'' (meta_of demo_data) ?dir ?out
                (race_conv (Some ''https://x/?expire=9999999999'')) ?st2)"
  let ?st4 = "snd (process_finish ''tTPk-fSx5gc'' (meta_of demo_data) ?dir ?out
                (race_conv (Some ''https://y/?expire=9999999999'')) ?st3)"
  let ?R = "bconc_step race_conv race_upstream [''app'']"
  have f1: "process_finish ''tTPk-fSx5gc'' (meta_of demo_data) ?dir ?out
      (race_conv (Some ''https://x/?expire=9999999999'')) ?st2 = (?b1, ?st3)"
    by (simp add: race_conv_def process_finish_def process_store_def)
  have f2: "process_finish ''tTPk-fSx5gc'' (meta_of demo_data) ?dir ?out
      (race_conv (Some ''https://y/?expire=9999999999'')) ?st3 = (errorHandler, ?st4)"
    by (simp add: race_conv_def process_finish_def)
  have "?R (app_state, []) (app_state, [?r])"
    using bconc_step.arrive [of race_conv race_upstream "[''app'']" app_state "[]"] by simp
  moreover have "?R (app_state, [?r]) (app_state, [?r, ?r])"
    using bconc_step.arrive [of race_conv race_upstream "[''app'']" app_state "[?r]"] by simp
  moreover have "?R (app_state, [?r, ?r]) (?st1, [Pr_at ?p1, ?r])"
    using bconc_step.start [of 0 "[?r, ?r]" "Some demo_yt_url" None race_upstream "[''app'']" app_state ?p1 ?st1
        race_conv] race_start1 by simp
  moreover have "?R (?st1, [Pr_at ?p1, ?r]) (?st2, [Pr_at ?p1, Pr_at ?p2])"
    using bconc_step.start [of 1 "[Pr_at ?p1, ?r]" "Some demo_yt_url" None race_upstream "[''app'']" ?st1 ?p2 ?st2
        race_conv] race_start2 by simp
  moreover have "?R (?st2, [Pr_at ?p1, Pr_at ?p2]) (?st3, [Pr_at (Pp_done ?b1), Pr_at ?p2])"
    using bconc_step.finish [of 0 "[Pr_at ?p1, Pr_at ?p2]" "''tTPk-fSx5gc''" "meta_of demo_data"
        "Some ''https://x/?expire=9999999999''" ?dir ?out race_conv ?st2 ?b1 ?st3 race_upstream "[''app'']"] f1
    by simp
  moreover have "?R (?st3, [Pr_at (Pp_done ?b1), Pr_at ?p2]) (?st4, [Pr_at (Pp_done ?b1), Pr_at (Pp_done errorHandler)])"
    using bconc_step.finish [of 1 "[Pr_at (Pp_done ?b1), Pr_at ?p2]" "''tTPk-fSx5gc''" "meta_of demo_data"
        "Some ''https://y/?expire=9999999999''" ?dir ?out race_conv ?st3 errorHandler ?st4 race_upstream "[''app'']"] f2
    by simp
  ultimately have run: "?R\<^sup>*\<^sup>* (app_state, []) (?st4, [Pr_at (Pp_done ?b1), Pr_at (Pp_done errorHandler)])"
    by (meson rtranclp.rtrancl_into_rtrancl rtranclp.rtrancl_refl)
  have post: "fst (serve_batch race_conv race_upstream Map.empty [''app''] (Post ''/api/process'' (Some demo_yt_url) None) ?st4)
      = B_process ''tTPk-fSx5gc'' (stream_url ''tTPk-fSx5gc'') True (meta_of demo_data)"
    by (simp add: serve_batch_def process_route handle_process_def demo_yt_url_def cache_get_def cache_set_def
        race_conv_def process_finish_def process_store_def batch_ttl_def)
  have d: "dispatch routes_batch (stream_url ''tTPk-fSx5gc'') = Some (H_master, [(''videoId'', ''tTPk-fSx5gc'')])"
    by (rule dispatch_batch_master) simp_all
  have get: "fst (serve_batch race_conv race_upstream Map.empty [''app''] (Get (stream_url ''tTPk-fSx5gc'')) ?st4)
      = B_error 404 ''Video not found''"
    by (simp add: serve_batch_def d param_def handle_bmaster_def HLS_DIR_def path_join_def path_exists_def
        race_conv_def process_finish_def process_store_def remove_tree_def)
  from run post get show ?thesis by blast
qed

theorem batch_run_files_ok_witness:
  "norm_path [''app''] \<and> list_all plain_request [Post ''/api/process'' (Some demo_yt_url) None]
   \<and> batch_files_ok [''app''] app_state
   \<and> batch_files_ok [''app'']
       (snd (batch_run ok_conv demo_upstream Map.empty [''app''] [Post ''/api/process'' (Some demo_yt_url) None] app_state))"
proof -
  have h1: "norm_path [''app'']" by (simp add: norm_path_def plain_comp_def)
  have h2: "list_all plain_request [Post ''/api/process'' (Some demo_yt_url) None]"
    by (simp add: plain_request_def demo_yt_url_def plain_comp_def)
  have h3: "batch_files_ok [''app''] app_state" by (simp add: batch_files_ok_def app_state_def)
  show ?thesis using h1 h2 h3 batch_run_files_ok [OF h1 h2 h3] by blast
qed



theorem servers_validate_ids_witness:
  "snd (serve_index demo_upstream ''/stream/bad/master.m3u8'' demo_srv) = demo_srv
   \<and> error_response (fst (serve_index demo_upstream ''/stream/bad/master.m3u8'' demo_srv))"
proof -
  have d: "dispatch routes_index ''/stream/bad/master.m3u8'' = Some (H_master, [(''videoId'', ''bad'')])"
    by (simp add: routes_index_def parse_master seg_len_def ascii_lower_def)
  have v: "\<not> valid_video_id (param [(''videoId'', ''bad'')] ''videoId'')"
    by (simp add: param_def valid_video_id_def)
  have "validates_ids routes_index (serve_index demo_upstream)"
    using servers_validate_ids [of demo_upstream] by blast
  from this [unfolded validates_ids_def, rule_format, of "''/stream/bad/master.m3u8''" H_master
      "[(''videoId'', ''bad'')]" demo_srv] d v
  show ?thesis by simp
qed

lemma demo_gvf_start:
  "gvf_start demo_upstream ''tTPk-fSx5gc'' False (demo_srv\<lparr>api_calls := n\<rparr>)
   = (Ph_await ''tTPk-fSx5gc'' demo_reply, demo_srv\<lparr>api_calls := Suc n\<rparr>)"
  by (simp add: gvf_start_def demo_defs cache_get_def call_upstream_def js_simps)

theorem conc_cache_inv_witness:
  "\<exists>c'. (conc_step demo_upstream)\<^sup>*\<^sup>* (demo_srv, []) c' \<and> length (snd c') = 2
     \<and> list_all (\<lambda>q. \<exists>x. q = Req_at (Ph_done x)) (snd c') \<and> conc_inv c'"
proof -
  let ?v = "''tTPk-fSx5gc''"
  let ?N = "Req_new ?v False" and ?A = "Req_at (Ph_await ?v demo_reply)"
  have i0: "conc_inv (demo_srv, [])" by (simp add: conc_inv_def cache_formats_ok_def demo_srv_def)
  have g0: "gvf_start demo_upstream ?v False demo_srv = (Ph_await ?v demo_reply, demo_srv\<lparr>api_calls := 1\<rparr>)"
    using demo_gvf_start [of 0] by (simp add: demo_srv_def)
  have g1: "gvf_start demo_upstream ?v False (demo_srv\<lparr>api_calls := 1\<rparr>)
      = (Ph_await ?v demo_reply, demo_srv\<lparr>api_calls := 2\<rparr>)"
    using demo_gvf_start [of 1] by (simp add: demo_srv_def)
  obtain x1 s3 where f1: "gvf_finish ?v demo_reply (demo_srv\<lparr>api_calls := 2\<rparr>) = (x1, s3)" by fastforce
  obtain x0 s4 where f0: "gvf_finish ?v demo_reply s3 = (x0, s4)" by fastforce
  have "conc_step demo_upstream (demo_srv, []) (demo_srv, [?N])"
    using conc_step.arrive [of demo_upstream demo_srv "[]"] by simp
  moreover have "conc_step demo_upstream (demo_srv, [?N]) (demo_srv, [?N, ?N])"
    using conc_step.arrive [of demo_upstream demo_srv "[?N]"] by simp
  moreover have "conc_step demo_upstream (demo_srv, [?N, ?N]) (demo_srv\<lparr>api_calls := 1\<rparr>, [?A, ?N])"
    using conc_step.start [of 0 "[?N, ?N]" ?v False demo_upstream demo_srv "Ph_await ?v demo_reply"
        "demo_srv\<lparr>api_calls := 1\<rparr>"] g0 by simp
  moreover have "conc_step demo_upstream (demo_srv\<lparr>api_calls := 1\<rparr>, [?A, ?N]) (demo_srv\<lparr>api_calls := 2\<rparr>, [?A, ?A])"
    using conc_step.start [of 1 "[?A, ?N]" ?v False demo_upstream "demo_srv\<lparr>api_calls := 1\<rparr>"
        "Ph_await ?v demo_reply" "demo_srv\<lparr>api_calls := 2\<rparr>"] g1 by simp
  moreover have "conc_step demo_upstream (demo_srv\<lparr>api_calls := 2\<rparr>, [?A, ?A]) (s3, [?A, Req_at (Ph_done x1)])"
    using conc_step.finish [of 1 "[?A, ?A]" ?v demo_reply "demo_srv\<lparr>api_calls := 2\<rparr>" x1 s3 demo_upstream]
      f1 by simp
  moreover have "conc_step demo_upstream (s3, [?A, Req_at (Ph_done x1)]) (s4, [Req_at (Ph_done x0), Req_at (Ph_done x1)])"
    using conc_step.finish [of 0 "[?A, Req_at (Ph_done x1)]" ?v demo_reply s3 x0 s4 demo_upstream] f0 by simp
  ultimately have run: "(conc_step demo_upstream)\<^sup>*\<^sup>* (demo_srv, []) (s4, [Req_at (Ph_done x0), Req_at (Ph_done x1)])"
    by (meson rtranclp.rtrancl_refl rtranclp.rtrancl_into_rtrancl)
  have "conc_inv (s4, [Req_at (Ph_done x0), Req_at (Ph_done x1)])" using conc_cache_inv [OF run i0] .
  with run show ?thesis by fastforce
qed

theorem player_requests_master_witness:
  "loaded_urls (loadVideo_index \<lparr>hls_supported = True, native_hls = False\<rparr> ('' '' @ player_default_id))
     = [player_stream_url ''tTPk-fSx5gc'']
   \<and> serve_index demo_upstream (player_stream_url ''tTPk-fSx5gc'') demo_srv
     = apfst Resp_playlist (handle_master demo_upstream ''tTPk-fSx5gc'' demo_srv)
   \<and> loaded_urls (loadVideo_p001 \<lparr>hls_supported = True, native_hls = False\<rparr> ('' '' @ player_default_id))
     = [player_stream_url ''tTPk-fSx5gc'']
   \<and> serve_p001 demo_upstream (player_stream_url ''tTPk-fSx5gc'') demo_url_srv
     = apfst Resp_playlist (handle_master_p001 demo_upstream ''tTPk-fSx5gc'' demo_url_srv)"
proof -
  have t: "js_trim ('' '' @ player_default_id) = ''tTPk-fSx5gc''"
    by (simp add: js_trim_def is_js_space_def player_default_id_def)
  have v: "valid_video_id (js_trim ('' '' @ player_default_id))" unfolding t by (simp add: js_simps)
  from player_requests_master [OF v, of "\<lparr>hls_supported = True, native_hls = False\<rparr>" demo_upstream demo_srv
      demo_url_srv]
  show ?thesis unfolding t by simp
qed

end
